theory Spec2Isabelle
  imports Main "HOL-Library.Sublist"
begin

section \<open>Go strings and the library functions the program calls\<close>

text \<open>
  A Go \<^verbatim>\<open>string\<close> is a sequence of bytes, and so is \<^typ>\<open>string\<close> here: one
  \<^typ>\<open>char\<close> per byte. The library functions that read a string as UTF-8 (trimming,
  regular expressions, \<^verbatim>\<open>range\<close>) decode an invalid byte as the code point U+FFFD of width one.
  Every character class the program uses is a set of ASCII bytes or the complement of one,
  every byte of a code point beyond ASCII is at least 0x80, and so is every invalid byte;
  a class therefore selects the same positions whether it is read on code points or on
  bytes, and the models below work on bytes.
\<close>

definition byte :: "char \<Rightarrow> nat" where
  "byte c = of_char c"

subsection \<open>\<^verbatim>\<open>strings.TrimSpace\<close>\<close>

text \<open>
  \<^verbatim>\<open>strings.TrimSpace\<close> removes leading and trailing white space as
  \<^verbatim>\<open>unicode.IsSpace\<close> defines it: U+0009 to U+000D, U+0020, U+0085, U+00A0, U+1680,
  U+2000 to U+200A, U+2028, U+2029, U+202F, U+205F and U+3000. The three predicates
  recognise the UTF-8 encodings of these code points, by their length in bytes.
\<close>

definition isSpace1 :: "char \<Rightarrow> bool" where
  "isSpace1 a = ((9 \<le> byte a \<and> byte a \<le> 13) \<or> byte a = 32)"

definition isSpace2 :: "char \<Rightarrow> char \<Rightarrow> bool" where
  "isSpace2 a b = (byte a = 0xC2 \<and> (byte b = 0x85 \<or> byte b = 0xA0))"

definition isSpace3 :: "char \<Rightarrow> char \<Rightarrow> char \<Rightarrow> bool" where
  "isSpace3 a b c =
     ((byte a = 0xE1 \<and> byte b = 0x9A \<and> byte c = 0x80) \<or>
      (byte a = 0xE2 \<and> byte b = 0x80 \<and>
         ((0x80 \<le> byte c \<and> byte c \<le> 0x8A) \<or> byte c = 0xA8 \<or> byte c = 0xA9 \<or> byte c = 0xAF)) \<or>
      (byte a = 0xE2 \<and> byte b = 0x81 \<and> byte c = 0x9F) \<or>
      (byte a = 0xE3 \<and> byte b = 0x80 \<and> byte c = 0x80))"

text \<open>The width in bytes of the white-space code point a string starts with, 0 when it starts with none.\<close>

definition leadingSpace :: "string \<Rightarrow> nat" where
  "leadingSpace s =
     (case s of
        [] \<Rightarrow> 0
      | a # s1 \<Rightarrow>
          if isSpace1 a then 1
          else (case s1 of
                  [] \<Rightarrow> 0
                | b # s2 \<Rightarrow>
                    if isSpace2 a b then 2
                    else (case s2 of
                            [] \<Rightarrow> 0
                          | c # s3 \<Rightarrow> if isSpace3 a b c then 3 else 0)))"

text \<open>The same for the code point a string ends with (the last code point is found from the end).\<close>

definition trailingSpace :: "string \<Rightarrow> nat" where
  "trailingSpace s =
     (case rev s of
        [] \<Rightarrow> 0
      | c # s1 \<Rightarrow>
          if isSpace1 c then 1
          else (case s1 of
                  [] \<Rightarrow> 0
                | b # s2 \<Rightarrow>
                    if isSpace2 b c then 2
                    else (case s2 of
                            [] \<Rightarrow> 0
                          | a # s3 \<Rightarrow> if isSpace3 a b c then 3 else 0)))"

lemma leadingSpace_le: "leadingSpace s \<le> length s"
  by (simp add: leadingSpace_def split: list.splits)

lemma trailingSpace_le: "trailingSpace s \<le> length s"
proof -
  have "trailingSpace s \<le> length (rev s)"
    unfolding trailingSpace_def by (simp split: list.splits)
  then show ?thesis by simp
qed

function TrimLeft :: "string \<Rightarrow> string" where
  "TrimLeft s = (if leadingSpace s = 0 then s else TrimLeft (drop (leadingSpace s) s))"
  by pat_completeness auto
termination
proof (relation "measure length")
  show "wf (measure length)" by simp
next
  fix s :: string
  assume "leadingSpace s \<noteq> 0"
  moreover have "leadingSpace s \<le> length s" by (rule leadingSpace_le)
  ultimately show "(drop (leadingSpace s) s, s) \<in> measure length" by simp
qed

function TrimRight :: "string \<Rightarrow> string" where
  "TrimRight s = (if trailingSpace s = 0 then s else TrimRight (take (length s - trailingSpace s) s))"
  by pat_completeness auto
termination
proof (relation "measure length")
  show "wf (measure length)" by simp
next
  fix s :: string
  assume "trailingSpace s \<noteq> 0"
  moreover have "trailingSpace s \<le> length s" by (rule trailingSpace_le)
  ultimately show "(take (length s - trailingSpace s) s, s) \<in> measure length" by simp
qed

definition TrimSpace :: "string \<Rightarrow> string" where
  "TrimSpace s = TrimRight (TrimLeft s)"

text \<open>
  The two equations hold of every string, so the simplifier would unfold them for ever; it
  gets them only where the first code point, or the last, is known to be white space or not.
\<close>

declare TrimLeft.simps [simp del] TrimRight.simps [simp del]

lemma TrimLeft_stop [simp]: "leadingSpace s = 0 \<Longrightarrow> TrimLeft s = s"
  by (subst TrimLeft.simps) simp

lemma TrimLeft_step [simp]:
  "leadingSpace s \<noteq> 0 \<Longrightarrow> TrimLeft s = TrimLeft (drop (leadingSpace s) s)"
  by (subst TrimLeft.simps) simp

lemma TrimRight_stop [simp]: "trailingSpace s = 0 \<Longrightarrow> TrimRight s = s"
  by (subst TrimRight.simps) simp

lemma TrimRight_step [simp]:
  "trailingSpace s \<noteq> 0 \<Longrightarrow> TrimRight s = TrimRight (take (length s - trailingSpace s) s)"
  by (subst TrimRight.simps) simp

subsection \<open>The pattern \<^verbatim>\<open>[^A-Za-z0-9_]+\<close>\<close>

text \<open>The bytes of the class \<^verbatim>\<open>[A-Za-z0-9_]\<close>; the pattern matches the others.\<close>

definition safeNameChar :: "char \<Rightarrow> bool" where
  "safeNameChar c =
     ((65 \<le> byte c \<and> byte c \<le> 90) \<or> (97 \<le> byte c \<and> byte c \<le> 122) \<or>
      (48 \<le> byte c \<and> byte c \<le> 57) \<or> byte c = 95)"

text \<open>
  \<^verbatim>\<open>safeNamePattern.ReplaceAllString(src, repl)\<close>: matches are found from the left, do not
  overlap, and \<^verbatim>\<open>+\<close> is greedy, so each match is a maximal run of bytes outside the class.
  The replacement the program passes holds no \<^verbatim>\<open>$\<close>, so it is inserted as it is.
\<close>

function safeNamePattern_ReplaceAllString :: "string \<Rightarrow> string \<Rightarrow> string" where
  "safeNamePattern_ReplaceAllString [] repl = []"
| "safeNamePattern_ReplaceAllString (c # cs) repl =
     (if safeNameChar c then c # safeNamePattern_ReplaceAllString cs repl
      else repl @ safeNamePattern_ReplaceAllString (dropWhile (\<lambda>d. \<not> safeNameChar d) cs) repl)"
  by pat_completeness auto
termination
proof (relation "measure (\<lambda>(s, repl). length s)")
  show "wf (measure (\<lambda>(s, repl). length s))" by simp
next
  fix c :: char and cs repl :: string
  show "((cs, repl), (c # cs, repl)) \<in> measure (\<lambda>(s, repl). length s)" by simp
next
  fix c :: char and cs repl :: string
  have "length (dropWhile (\<lambda>d. \<not> safeNameChar d) cs) \<le> length cs"
    by (rule length_dropWhile_le)
  then show "((dropWhile (\<lambda>d. \<not> safeNameChar d) cs, repl), (c # cs, repl))
      \<in> measure (\<lambda>(s, repl). length s)" by simp
qed

subsection \<open>\<^verbatim>\<open>strings.Contains\<close>, \<^verbatim>\<open>HasPrefix\<close>, \<^verbatim>\<open>Split\<close>, \<^verbatim>\<open>Join\<close>, \<^verbatim>\<open>ToLower\<close>\<close>

definition Contains :: "string \<Rightarrow> string \<Rightarrow> bool" where
  "Contains s substr = sublist substr s"

definition HasPrefix :: "string \<Rightarrow> string \<Rightarrow> bool" where
  "HasPrefix s pre = prefix pre s"

text \<open>
  \<^verbatim>\<open>strings.Split(s, sep)\<close> for a separator of one byte, the only kind the program passes:
  one more piece than there are separators, the empty string giving one empty piece.
\<close>

fun Split :: "string \<Rightarrow> char \<Rightarrow> string list" where
  "Split [] sep = [[]]"
| "Split (c # cs) sep =
     (if c = sep then [] # Split cs sep
      else (case Split cs sep of
              [] \<Rightarrow> [[c]]
            | p # ps \<Rightarrow> (c # p) # ps))"

fun Join :: "string list \<Rightarrow> string \<Rightarrow> string" where
  "Join [] sep = []"
| "Join [p] sep = p"
| "Join (p # q # ps) sep = p @ sep @ Join (q # ps) sep"

definition asciiLower :: "char \<Rightarrow> char" where
  "asciiLower c = (if 65 \<le> byte c \<and> byte c \<le> 90 then char_of (byte c + 32) else c)"

text \<open>
  \<^verbatim>\<open>strings.ToLower\<close> lowers an ASCII-only string byte by byte and hands any other string to
  \<^verbatim>\<open>strings.Map(unicode.ToLower, s)\<close>. The Unicode case tables are not part of the program:
  that second path is the parameter \<open>unicodeLower\<close>.
\<close>

definition ToLower :: "(string \<Rightarrow> string) \<Rightarrow> string \<Rightarrow> string" where
  "ToLower unicodeLower s =
     (if list_all (\<lambda>c. byte c < 0x80) s then map asciiLower s else unicodeLower s)"

subsection \<open>The patterns \<^verbatim>\<open>/channels/(\d+)\<close> and \<^verbatim>\<open><.*?>\<close>\<close>

definition isDigit :: "char \<Rightarrow> bool" where
  "isDigit c = (48 \<le> byte c \<and> byte c \<le> 57)"

text \<open>
  \<^verbatim>\<open>channelURLPattern.FindStringSubmatch(s)\<close>: the leftmost place where \<^verbatim>\<open>/channels/\<close> is followed
  by a digit; \<^verbatim>\<open>\d+\<close> is greedy and takes every digit there. The result is the slice of the
  whole match and the group, or the nil slice (the empty list) when nothing matches.
\<close>

fun channelURLPattern_FindStringSubmatch :: "string \<Rightarrow> string list" where
  "channelURLPattern_FindStringSubmatch [] = []"
| "channelURLPattern_FindStringSubmatch (c # cs) =
     (let digits = takeWhile isDigit (drop 10 (c # cs)) in
      if prefix ''/channels/'' (c # cs) \<and> digits \<noteq> []
      then [''/channels/'' @ digits, digits]
      else channelURLPattern_FindStringSubmatch cs)"

text \<open>
  What follows the first \<^verbatim>\<open>>\<close> of a string, when no line feed comes before it: \<^verbatim>\<open>.\<close> does
  not match a line feed, and \<^verbatim>\<open>*?\<close> stops at the first \<^verbatim>\<open>>\<close> it can.
\<close>

fun tagRest :: "string \<Rightarrow> string option" where
  "tagRest [] = None"
| "tagRest (c # cs) =
     (if c = CHR ''>'' then Some cs
      else if c = CHR 0x0A then None
      else tagRest cs)"

lemma tagRest_length: "tagRest cs = Some rest \<Longrightarrow> length rest < length cs"
  by (induction cs) (auto split: if_splits)

text \<open>\<^verbatim>\<open>htmlTagPattern.ReplaceAllString(src, repl)\<close>, matches taken from the left.\<close>

function htmlTagPattern_ReplaceAllString :: "string \<Rightarrow> string \<Rightarrow> string" where
  "htmlTagPattern_ReplaceAllString [] repl = []"
| "htmlTagPattern_ReplaceAllString (c # cs) repl =
     (if c = CHR ''<'' then
        (case tagRest cs of
           Some rest \<Rightarrow> repl @ htmlTagPattern_ReplaceAllString rest repl
         | None \<Rightarrow> c # htmlTagPattern_ReplaceAllString cs repl)
      else c # htmlTagPattern_ReplaceAllString cs repl)"
  by pat_completeness auto
termination
proof (relation "measure (\<lambda>(s, repl). length s)")
  show "wf (measure (\<lambda>(s, repl). length s))" by simp
next
  fix c :: char and cs repl rest :: string
  assume "tagRest cs = Some rest"
  then have "length rest < length cs" by (rule tagRest_length)
  then show "((rest, repl), (c # cs, repl)) \<in> measure (\<lambda>(s, repl). length s)" by simp
next
  fix c :: char and cs repl :: string
  show "((cs, repl), (c # cs, repl)) \<in> measure (\<lambda>(s, repl). length s)" by simp
next
  fix c :: char and cs repl :: string
  show "((cs, repl), (c # cs, repl)) \<in> measure (\<lambda>(s, repl). length s)" by simp
qed

section \<open>Sanitising names\<close>

text \<open>\<^verbatim>\<open>makeSafeName\<close> of \<^verbatim>\<open>twe-dlp.go\<close>.\<close>

definition makeSafeName :: "string \<Rightarrow> string" where
  "makeSafeName name0 =
     (let name = TrimSpace name0 in
      if name = [] then ''unknown''
      else let safe = safeNamePattern_ReplaceAllString name ''_'' in
           if safe = [] then ''unknown'' else safe)"

section \<open>Resolving a channel identifier\<close>

text \<open>
  The world outside the program (the network, the file system) is a value of a type \<open>'w\<close>
  that every call to the outside takes and returns. A Go \<^verbatim>\<open>error\<close> of a library call is
  its message. A request is what \<^verbatim>\<open>http.NewRequest\<close> was given and the headers set on it; a
  response is what the program reads of it.
\<close>

record request =
  Method :: string
  URL :: string
  ReqBody :: string
  ReqHeader :: "(string \<times> string) list"

record response =
  Request_URL :: string
  StatusCode :: int
  Status :: string
  ContentType :: string
  Body :: "string + string"

text \<open>
  \<open>Request_URL\<close> is \<^verbatim>\<open>response.Request.URL.String()\<close>, the address after redirects;
  \<open>ContentType\<close> is \<^verbatim>\<open>response.Header.Get("Content-Type")\<close>; \<open>Body\<close> is what
  \<^verbatim>\<open>io.ReadAll(response.Body)\<close> gives, an error or the text.
  \<open>NewRequest\<close> gives the error of \<^verbatim>\<open>http.NewRequest\<close> for a method and an address, if any;
  \<open>Do\<close> is \<^verbatim>\<open>httpClient.Do\<close>; \<open>Body_Close\<close> is \<^verbatim>\<open>response.Body.Close()\<close>;
  \<open>QueryEscape\<close> is the escaping \<^verbatim>\<open>url.Values.Encode\<close> applies to keys and values.
\<close>

record 'w httpClient =
  NewRequest :: "string \<Rightarrow> string \<Rightarrow> string option"
  Do :: "request \<Rightarrow> 'w \<Rightarrow> (string + response) \<times> 'w"
  Body_Close :: "response \<Rightarrow> 'w \<Rightarrow> 'w"
  QueryEscape :: "string \<Rightarrow> string"

datatype error =
    InvalidInput
  | TransportError string
  | ResolutionFailed string
  | ParseError string
  | HTTPStatusError string
  | OutputDirectoryError string string

text \<open>
  \<open>InvalidInput\<close> is \<^verbatim>\<open>errors.New("empty channel identifier")\<close>; \<open>TransportError\<close> is an
  error of \<^verbatim>\<open>http.NewRequest\<close>, \<^verbatim>\<open>httpClient.Do\<close> or \<^verbatim>\<open>io.ReadAll\<close> returned as it is, and
  \<open>ParseError\<close> one of \<^verbatim>\<open>goquery.NewDocumentFromReader\<close>; \<open>ResolutionFailed identifier\<close> is
  \<^verbatim>\<open>fmt.Errorf("could not resolve channel name %q to an ID", channelIdentifier)\<close>,
  \<open>HTTPStatusError status\<close> is \<^verbatim>\<open>fmt.Errorf("request failed with status %s", response.Status)\<close>
  and \<open>OutputDirectoryError outputRoot err\<close> is
  \<^verbatim>\<open>fmt.Errorf("cannot create output directory %s: %w", outputRoot, err)\<close>.
\<close>

definition twitchemotesBaseURL :: string where
  "twitchemotesBaseURL = ''https://twitchemotes.com''"

definition defaultUserAgent :: string where
  "defaultUserAgent = ''Mozilla/5.0 (X11; Linux x86_64) twe-dlp/1.0''"

definition emoteSizeList :: "string list" where
  "emoteSizeList = [''1.0'', ''2.0'', ''3.0'']"

text \<open>
  The loop that sets \<^verbatim>\<open>isNumeric\<close>: it leaves at the first character below \<^verbatim>\<open>'0'\<close> or above
  \<^verbatim>\<open>'9'\<close>. A byte of 0x80 or more belongs to a code point above \<^verbatim>\<open>'9'\<close>.
\<close>

fun isNumericLoop :: "string \<Rightarrow> bool" where
  "isNumericLoop [] = True"
| "isNumericLoop (character # rest) =
     (if byte character < 48 \<or> byte character > 57 then False else isNumericLoop rest)"

text \<open>\<^verbatim>\<open>formValues.Encode()\<close>: the two fields, sorted by key.\<close>

definition formValues_Encode :: "'w httpClient \<Rightarrow> string \<Rightarrow> string" where
  "formValues_Encode httpClient channelIdentifier =
     QueryEscape httpClient ''query'' @ ''='' @ QueryEscape httpClient channelIdentifier @ ''&'' @
     QueryEscape httpClient ''source'' @ ''='' @ QueryEscape httpClient ''twe-dlp''"

text \<open>
  \<^verbatim>\<open>resolveChannelIdentifierToID\<close> of \<^verbatim>\<open>twe-dlp.go\<close>. The deferred
  \<^verbatim>\<open>response.Body.Close()\<close> runs at each return that follows it.
\<close>

definition resolveChannelIdentifierToID ::
    "'w httpClient \<Rightarrow> string \<Rightarrow> 'w \<Rightarrow> (error + string) \<times> 'w" where
  "resolveChannelIdentifierToID httpClient channelIdentifier w =
     (if channelIdentifier = [] then (Inl InvalidInput, w)
      else if isNumericLoop channelIdentifier then (Inr channelIdentifier, w)
      else
        (let requestURL = twitchemotesBaseURL @ ''/search/channel'' in
         (case NewRequest httpClient ''POST'' requestURL of
            Some err \<Rightarrow> (Inl (TransportError err), w)
          | None \<Rightarrow>
             (let request = \<lparr>Method = ''POST'', URL = requestURL,
                              ReqBody = formValues_Encode httpClient channelIdentifier,
                              ReqHeader = [(''Content-Type'', ''application/x-www-form-urlencoded''),
                                           (''User-Agent'', defaultUserAgent)]\<rparr> in
              (case Do httpClient request w of
                 (Inl err, w') \<Rightarrow> (Inl (TransportError err), w')
               | (Inr response, w') \<Rightarrow>
                  (let finalURL = Request_URL response;
                       match = channelURLPattern_FindStringSubmatch finalURL in
                   if length match = 2 then (Inr (match ! 1), Body_Close httpClient response w')
                   else
                     (case Body response of
                        Inl err \<Rightarrow> (Inl (TransportError err), Body_Close httpClient response w')
                      | Inr bodyText \<Rightarrow>
                         (let match = channelURLPattern_FindStringSubmatch bodyText in
                          if length match = 2
                          then (Inr (match ! 1), Body_Close httpClient response w')
                          else (Inl (ResolutionFailed channelIdentifier),
                                Body_Close httpClient response w')))))))))"

section \<open>Collecting the emotes of a page\<close>

record EmoteData =
  BaseURL :: string
  FormatType :: string
  EmoteCode :: string

text \<open>
  Of the parsed page the program reads the image elements, in document order, and the
  header of the first \<^verbatim>\<open>div.card-header\<close>. An element is its attributes, in the order the
  parser keeps them, and the text of its parent (\<^verbatim>\<open>selection.Parent().Text()\<close>, empty when
  there is no parent). A header is the text of its first \<^verbatim>\<open>a\<close> and of its first
  \<^verbatim>\<open>h1, h2, h3\<close>, when it has one.
\<close>

record element =
  attrs :: "(string \<times> string) list"
  parentText :: string

record header =
  anchorText :: "string option"
  headerTagText :: "string option"

record document =
  cardHeader :: "header option"
  images :: "element list"

text \<open>\<^verbatim>\<open>selection.Attr(name)\<close>: the value of the first attribute of that name, and whether there is one.\<close>

definition Attr :: "element \<Rightarrow> string \<Rightarrow> string \<times> bool" where
  "Attr selection name =
     (case map_of (attrs selection) name of
        Some v \<Rightarrow> (v, True)
      | None \<Rightarrow> ([], False))"

text \<open>
  The functions of \<^verbatim>\<open>net/url\<close> are parameters, over a type \<open>'u\<close> of parsed addresses.
\<close>

record 'u netURL =
  url_Parse :: "string \<Rightarrow> string + 'u"
  url_ResolveReference :: "'u \<Rightarrow> 'u \<Rightarrow> 'u"
  url_String :: "'u \<Rightarrow> string"

definition resolveRelativeURL :: "'u netURL \<Rightarrow> string \<Rightarrow> string \<Rightarrow> string + string" where
  "resolveRelativeURL lib base relative =
     (case url_Parse lib base of
        Inl err \<Rightarrow> Inl err
      | Inr baseURL \<Rightarrow>
          (case url_Parse lib relative of
             Inl err \<Rightarrow> Inl err
           | Inr relativeURL \<Rightarrow>
               Inr (url_String lib (url_ResolveReference lib baseURL relativeURL))))"

text \<open>The loop that sets \<^verbatim>\<open>emoticonsIndex\<close>: the index of the first part equal to \<^verbatim>\<open>emoticons\<close>, or -1.\<close>

fun emoticonsIndexLoop :: "string list \<Rightarrow> int \<Rightarrow> int" where
  "emoticonsIndexLoop [] index = - 1"
| "emoticonsIndexLoop (part # rest) index =
     (if part = ''emoticons'' then index else emoticonsIndexLoop rest (index + 1))"

text \<open>
  The function \<^verbatim>\<open>collectEmoteMetadata\<close> passes to \<^verbatim>\<open>Each\<close>: it takes the map and one image and
  gives the map back, changed or not (each \<^verbatim>\<open>return\<close> of the source gives it back as it is).
\<close>

definition collectEmoteMetadata_func ::
    "'u netURL \<Rightarrow> (string \<rightharpoonup> EmoteData) \<Rightarrow> element \<Rightarrow> (string \<rightharpoonup> EmoteData)" where
  "collectEmoteMetadata_func lib emoteMap selection =
     (let (imageSource, hasSrc) = Attr selection ''src'' in
      if \<not> hasSrc \<or> imageSource = [] then emoteMap
      else if \<not> Contains imageSource ''static-cdn.jtvnw.net/emoticons/v2/'' then emoteMap
      else
        case (if \<not> HasPrefix imageSource ''http://'' \<and> \<not> HasPrefix imageSource ''https://''
              then resolveRelativeURL lib twitchemotesBaseURL imageSource
              else Inr imageSource) of
          Inl err \<Rightarrow> emoteMap
        | Inr fullImageSource \<Rightarrow>
            let pathParts = Split fullImageSource CHR ''/'';
                emoticonsIndex = emoticonsIndexLoop pathParts 0 in
            if emoticonsIndex = - 1 then emoteMap
            else if emoticonsIndex + 3 \<ge> int (length pathParts) then emoteMap
            else
              let emoteIdentifier = pathParts ! nat (emoticonsIndex + 2);
                  formatType = pathParts ! nat (emoticonsIndex + 3);
                  baseURL = Join (take (nat (emoticonsIndex + 4)) pathParts) ''/'';
                  (regexValue, hasRegex) = Attr selection ''data-regex'';
                  emoteCode =
                    (if \<not> hasRegex \<or> TrimSpace regexValue = [] then
                       (let (tooltipHTML, hasTooltip) = Attr selection ''data-tooltip'' in
                        if hasTooltip \<and> TrimSpace tooltipHTML \<noteq> []
                        then TrimSpace (htmlTagPattern_ReplaceAllString tooltipHTML [])
                        else regexValue)
                     else regexValue);
                  emoteCode =
                    (if emoteCode = [] then
                       (let parentText = TrimSpace (parentText selection) in
                        if parentText \<noteq> [] then parentText else emoteIdentifier)
                     else emoteCode)
              in if emoteMap emoteIdentifier \<noteq> None then emoteMap
                 else emoteMap(emoteIdentifier \<mapsto>
                        \<lparr>BaseURL = baseURL, FormatType = formatType, EmoteCode = emoteCode\<rparr>))"

text \<open>\<^verbatim>\<open>collectEmoteMetadata\<close> of \<^verbatim>\<open>twe-dlp.go\<close>: the images in document order, from the empty map.\<close>

fun Each :: "element list \<Rightarrow> ('a \<Rightarrow> element \<Rightarrow> 'a) \<Rightarrow> 'a \<Rightarrow> 'a" where
  "Each [] f acc = acc"
| "Each (selection # rest) f acc = Each rest f (f acc selection)"

definition collectEmoteMetadata :: "'u netURL \<Rightarrow> document \<Rightarrow> (string \<rightharpoonup> EmoteData)" where
  "collectEmoteMetadata lib doc = Each (images doc) (collectEmoteMetadata_func lib) Map.empty"

section \<open>The file extension of a content type\<close>

text \<open>\<^verbatim>\<open>determineFileExtension\<close> of \<^verbatim>\<open>twe-dlp.go\<close>.\<close>

definition determineFileExtension :: "(string \<Rightarrow> string) \<Rightarrow> string \<Rightarrow> string" where
  "determineFileExtension unicodeLower contentType0 =
     (let contentType = ToLower unicodeLower contentType0 in
      if Contains contentType ''gif'' then ''gif''
      else if Contains contentType ''jpeg'' \<or> Contains contentType ''jpg'' then ''jpg''
      else if Contains contentType ''png'' then ''png''
      else ''img'')"

section \<open>Downloading the images\<close>

text \<open>
  The file system and the other library calls of the download stage. \<open>MkdirAll\<close> and
  \<open>Create\<close> give the error of \<^verbatim>\<open>os.MkdirAll\<close> and \<^verbatim>\<open>os.Create\<close> for a path, if any;
  \<open>Copy path response\<close> is \<^verbatim>\<open>io.Copy(outputFile, response.Body)\<close> into the file created at
  that path, and \<open>File_Close\<close> is \<^verbatim>\<open>outputFile.Close()\<close>; \<open>filepath_Join\<close> is
  \<^verbatim>\<open>filepath.Join\<close> of two elements; \<open>Map_ToLower\<close> is the parameter of \<^const>\<open>ToLower\<close>;
  \<open>NewDocumentFromReader\<close> is \<^verbatim>\<open>goquery.NewDocumentFromReader(response.Body)\<close>; \<open>mapRange\<close>
  is the order in which \<^verbatim>\<open>range\<close> visits the entries of a map, which Go leaves open.
\<close>

record ('u, 'w) libs =
  MkdirAll :: "string \<Rightarrow> 'w \<Rightarrow> string option \<times> 'w"
  Create :: "string \<Rightarrow> 'w \<Rightarrow> string option \<times> 'w"
  Copy :: "string \<Rightarrow> response \<Rightarrow> 'w \<Rightarrow> string option \<times> 'w"
  File_Close :: "string \<Rightarrow> 'w \<Rightarrow> 'w"
  filepath_Join :: "string \<Rightarrow> string \<Rightarrow> string"
  Map_ToLower :: "string \<Rightarrow> string"
  NewDocumentFromReader :: "response \<Rightarrow> string + document"
  net_url :: "'u netURL"
  mapRange :: "(string \<rightharpoonup> EmoteData) \<Rightarrow> (string \<times> EmoteData) list"

text \<open>The state of a run: the world, and what the program has written to standard output, one entry per call.\<close>

record 'w state =
  world :: 'w
  stdout :: "string list"

definition Printf :: "string \<Rightarrow> 'w state \<Rightarrow> 'w state" where
  "Printf text st = st\<lparr>stdout := stdout st @ [text]\<rparr>"

definition newline :: string where
  "newline = [CHR 0x0A]"

text \<open>The body of the loop over \<^verbatim>\<open>emoteSizeList\<close> in \<^verbatim>\<open>downloadEmoteImages\<close>; each \<^verbatim>\<open>continue\<close> ends it.\<close>

definition downloadEmoteImages_body ::
    "'w httpClient \<Rightarrow> ('u, 'w) libs \<Rightarrow> string \<Rightarrow> string \<Rightarrow> string \<Rightarrow> string \<Rightarrow>
     'w state \<Rightarrow> 'w state" where
  "downloadEmoteImages_body httpClient os emoteBaseURL safeEmoteCode emoteFolder sizeValue st =
     (let imageURL = emoteBaseURL @ ''/light/'' @ sizeValue in
      (case NewRequest httpClient ''GET'' imageURL of
         Some err \<Rightarrow> Printf (''[skip] '' @ imageURL @ '' ('' @ err @ '')'' @ newline) st
       | None \<Rightarrow>
          (let request = \<lparr>Method = ''GET'', URL = imageURL, ReqBody = [],
                           ReqHeader = [(''User-Agent'', defaultUserAgent)]\<rparr> in
           (case Do httpClient request (world st) of
              (Inl err, w1) \<Rightarrow>
                Printf (''[skip] '' @ imageURL @ '' ('' @ err @ '')'' @ newline) (st\<lparr>world := w1\<rparr>)
            | (Inr response, w1) \<Rightarrow>
                if StatusCode response \<noteq> 200 then
                  (let st1 = Printf (''[skip] '' @ imageURL @ '' (status '' @ Status response @ '')'' @ newline)
                               (st\<lparr>world := w1\<rparr>)
                   in st1\<lparr>world := Body_Close httpClient response w1\<rparr>)
                else
                  (let contentType = ContentType response;
                       fileExtension = determineFileExtension (Map_ToLower os) contentType;
                       outputFilename = safeEmoteCode @ ''_'' @ sizeValue @ ''.'' @ fileExtension;
                       outputPath = filepath_Join os emoteFolder outputFilename in
                   (case Create os outputPath w1 of
                      (Some err, w2) \<Rightarrow>
                        (let st2 = Printf (''[skip] '' @ outputPath @ '' (cannot create file: '' @ err @ '')'' @ newline)
                                     (st\<lparr>world := w2\<rparr>)
                         in st2\<lparr>world := Body_Close httpClient response w2\<rparr>)
                    | (None, w2) \<Rightarrow>
                        (case Copy os outputPath response w2 of
                           (copyError, w3) \<Rightarrow>
                             (let w4 = File_Close os outputPath w3;
                                  w5 = Body_Close httpClient response w4 in
                              (case copyError of
                                 Some err \<Rightarrow>
                                   Printf (''[skip] '' @ outputPath @ '' (copy error: '' @ err @ '')'' @ newline)
                                     (st\<lparr>world := w5\<rparr>)
                               | None \<Rightarrow>
                                   Printf (''[ok] '' @ outputFilename @ newline) (st\<lparr>world := w5\<rparr>))))))))))"

fun downloadEmoteImages_loop ::
    "string list \<Rightarrow> (string \<Rightarrow> 'w state \<Rightarrow> 'w state) \<Rightarrow> 'w state \<Rightarrow> 'w state" where
  "downloadEmoteImages_loop [] body st = st"
| "downloadEmoteImages_loop (sizeValue # rest) body st =
     downloadEmoteImages_loop rest body (body sizeValue st)"

text \<open>\<^verbatim>\<open>downloadEmoteImages\<close> of \<^verbatim>\<open>twe-dlp.go\<close>.\<close>

definition downloadEmoteImages ::
    "'w httpClient \<Rightarrow> ('u, 'w) libs \<Rightarrow> string \<Rightarrow> EmoteData \<Rightarrow> string \<Rightarrow> 'w state \<Rightarrow> 'w state" where
  "downloadEmoteImages httpClient os emoteIdentifier emoteData outputRoot st =
     (let emoteCode = EmoteCode emoteData;
          emoteBaseURL = BaseURL emoteData;
          safeEmoteCode = makeSafeName emoteCode;
          emoteFolder = filepath_Join os outputRoot safeEmoteCode in
      (case MkdirAll os emoteFolder (world st) of
         (Some err, w1) \<Rightarrow>
           Printf (''[error] cannot create folder '' @ emoteFolder @ '': '' @ err @ newline)
             (st\<lparr>world := w1\<rparr>)
       | (None, w1) \<Rightarrow>
           downloadEmoteImages_loop emoteSizeList
             (downloadEmoteImages_body httpClient os emoteBaseURL safeEmoteCode emoteFolder)
             (st\<lparr>world := w1\<rparr>)))"

text \<open>\<^verbatim>\<open>fetchDocument\<close> of \<^verbatim>\<open>twe-dlp.go\<close>.\<close>

definition fetchDocument ::
    "'w httpClient \<Rightarrow> ('u, 'w) libs \<Rightarrow> string \<Rightarrow> 'w \<Rightarrow> (error + document \<times> response) \<times> 'w" where
  "fetchDocument httpClient os pageURL w =
     (case NewRequest httpClient ''GET'' pageURL of
        Some err \<Rightarrow> (Inl (TransportError err), w)
      | None \<Rightarrow>
         (let request = \<lparr>Method = ''GET'', URL = pageURL, ReqBody = [],
                          ReqHeader = [(''User-Agent'', defaultUserAgent)]\<rparr> in
          (case Do httpClient request w of
             (Inl err, w1) \<Rightarrow> (Inl (TransportError err), w1)
           | (Inr response, w1) \<Rightarrow>
               (case NewDocumentFromReader os response of
                  Inl err \<Rightarrow> (Inl (ParseError err), Body_Close httpClient response w1)
                | Inr doc \<Rightarrow> (Inr (doc, response), w1)))))"

text \<open>\<^verbatim>\<open>getChannelDisplayName\<close> of \<^verbatim>\<open>twe-dlp.go\<close>.\<close>

definition getChannelDisplayName :: "document \<Rightarrow> string" where
  "getChannelDisplayName doc =
     (case cardHeader doc of
        None \<Rightarrow> []
      | Some headerSelection \<Rightarrow>
         (let anchor = (case anchorText headerSelection of
                          None \<Rightarrow> []
                        | Some t \<Rightarrow> TrimSpace t) in
          if anchor \<noteq> [] then anchor
          else
            (let headerTag = (case headerTagText headerSelection of
                                None \<Rightarrow> []
                              | Some t \<Rightarrow> TrimSpace t) in
             if headerTag \<noteq> [] then headerTag else [])))"

text \<open>The verb \<^verbatim>\<open>%d\<close> of \<^verbatim>\<open>fmt\<close> on a length.\<close>

function Sprintf_d :: "nat \<Rightarrow> string" where
  "Sprintf_d n =
     (if n < 10 then [char_of (48 + n)]
      else Sprintf_d (n div 10) @ [char_of (48 + n mod 10)])"
  by pat_completeness auto
termination
  by (relation "measure (\<lambda>n. n)") auto

declare Sprintf_d.simps [simp del]

text \<open>The loop over the emotes in \<^verbatim>\<open>downloadChannelEmotes\<close>.\<close>

fun downloadChannelEmotes_loop ::
    "'w httpClient \<Rightarrow> ('u, 'w) libs \<Rightarrow> string \<Rightarrow> (string \<times> EmoteData) list \<Rightarrow> 'w state \<Rightarrow> 'w state" where
  "downloadChannelEmotes_loop httpClient os outputRoot [] st = st"
| "downloadChannelEmotes_loop httpClient os outputRoot ((emoteIdentifier, emoteData) # rest) st =
     downloadChannelEmotes_loop httpClient os outputRoot rest
       (downloadEmoteImages httpClient os emoteIdentifier emoteData outputRoot
          (Printf (''Downloading sizes for emote: '' @ EmoteCode emoteData @ '' ('' @ emoteIdentifier @ '')'' @ newline) st))"

text \<open>
  \<^verbatim>\<open>downloadChannelEmotes\<close> of \<^verbatim>\<open>twe-dlp.go\<close>; \<open>None\<close> is the \<^verbatim>\<open>nil\<close> error. The deferred
  \<^verbatim>\<open>response.Body.Close()\<close> runs at each return that follows it.
\<close>

definition downloadChannelEmotes ::
    "'w httpClient \<Rightarrow> ('u, 'w) libs \<Rightarrow> string \<Rightarrow> 'w state \<Rightarrow> error option \<times> 'w state" where
  "downloadChannelEmotes httpClient os channelID st =
     (let channelURL = twitchemotesBaseURL @ ''/channels/'' @ channelID in
      (case fetchDocument httpClient os channelURL (world st) of
         (Inl err, w1) \<Rightarrow> (Some err, st\<lparr>world := w1\<rparr>)
       | (Inr (doc, response), w1) \<Rightarrow>
          if StatusCode response \<noteq> 200
          then (Some (HTTPStatusError (Status response)),
                st\<lparr>world := Body_Close httpClient response w1\<rparr>)
          else
            (let channelDisplayName = getChannelDisplayName doc;
                 safeChannelName = makeSafeName channelDisplayName;
                 safeChannelName = (if safeChannelName = ''unknown'' then makeSafeName channelID
                                    else safeChannelName);
                 outputRoot = safeChannelName in
             (case MkdirAll os outputRoot w1 of
                (Some err, w2) \<Rightarrow>
                  (Some (OutputDirectoryError outputRoot err),
                   st\<lparr>world := Body_Close httpClient response w2\<rparr>)
              | (None, w2) \<Rightarrow>
                  (let st1 = Printf (''Channel ID: '' @ channelID @ newline) (st\<lparr>world := w2\<rparr>);
                       st2 = (if channelDisplayName \<noteq> []
                              then Printf (''Channel Name: '' @ channelDisplayName @ newline) st1
                              else st1);
                       st3 = Printf (''Output Folder: '' @ outputRoot @ newline) st2;
                       st4 = Printf (''Collecting emote metadata...'' @ newline) st3;
                       emoteMap = collectEmoteMetadata (net_url os) doc;
                       st5 = Printf (''Found '' @ Sprintf_d (card (dom emoteMap)) @ '' emotes'' @ newline) st4 in
                   if card (dom emoteMap) = 0
                   then (None, st5\<lparr>world := Body_Close httpClient response (world st5)\<rparr>)
                   else
                     (let st6 = downloadChannelEmotes_loop httpClient os outputRoot
                                  (mapRange os emoteMap) st5 in
                      (None, st6\<lparr>world := Body_Close httpClient response (world st6)\<rparr>)))))))"

section \<open>The program with the terminal interface\<close>

text \<open>
  The repository holds a second program, which adds an interactive terminal interface and
  declares the pipeline functions again. These are its \<^verbatim>\<open>makeSafeName\<close>,
  \<^verbatim>\<open>resolveChannelIdentifierToID\<close>, \<^verbatim>\<open>resolveRelativeURL\<close>, \<^verbatim>\<open>collectEmoteMetadata\<close> and
  \<^verbatim>\<open>determineFileExtension\<close>, with its constants. It compiles the same three patterns,
  so the models of the patterns above serve both programs.
\<close>

definition twitchemotesBaseURL_tui :: string where
  "twitchemotesBaseURL_tui = ''https://twitchemotes.com''"

definition defaultUserAgent_tui :: string where
  "defaultUserAgent_tui = ''Mozilla/5.0 (X11; Linux x86_64) twe-dlp/1.0''"

definition makeSafeName_tui :: "string \<Rightarrow> string" where
  "makeSafeName_tui name0 =
     (let name = TrimSpace name0 in
      if name = [] then ''unknown''
      else let safe = safeNamePattern_ReplaceAllString name ''_'' in
           if safe = [] then ''unknown'' else safe)"

fun isNumericLoop_tui :: "string \<Rightarrow> bool" where
  "isNumericLoop_tui [] = True"
| "isNumericLoop_tui (character # rest) =
     (if byte character < 48 \<or> byte character > 57 then False else isNumericLoop_tui rest)"

definition formValues_Encode_tui :: "'w httpClient \<Rightarrow> string \<Rightarrow> string" where
  "formValues_Encode_tui httpClient channelIdentifier =
     QueryEscape httpClient ''query'' @ ''='' @ QueryEscape httpClient channelIdentifier @ ''&'' @
     QueryEscape httpClient ''source'' @ ''='' @ QueryEscape httpClient ''twe-dlp''"

definition resolveChannelIdentifierToID_tui ::
    "'w httpClient \<Rightarrow> string \<Rightarrow> 'w \<Rightarrow> (error + string) \<times> 'w" where
  "resolveChannelIdentifierToID_tui httpClient channelIdentifier w =
     (if channelIdentifier = [] then (Inl InvalidInput, w)
      else if isNumericLoop_tui channelIdentifier then (Inr channelIdentifier, w)
      else
        (let requestURL = twitchemotesBaseURL_tui @ ''/search/channel'' in
         (case NewRequest httpClient ''POST'' requestURL of
            Some err \<Rightarrow> (Inl (TransportError err), w)
          | None \<Rightarrow>
             (let request = \<lparr>Method = ''POST'', URL = requestURL,
                              ReqBody = formValues_Encode_tui httpClient channelIdentifier,
                              ReqHeader = [(''Content-Type'', ''application/x-www-form-urlencoded''),
                                           (''User-Agent'', defaultUserAgent_tui)]\<rparr> in
              (case Do httpClient request w of
                 (Inl err, w') \<Rightarrow> (Inl (TransportError err), w')
               | (Inr response, w') \<Rightarrow>
                  (let finalURL = Request_URL response;
                       match = channelURLPattern_FindStringSubmatch finalURL in
                   if length match = 2 then (Inr (match ! 1), Body_Close httpClient response w')
                   else
                     (case Body response of
                        Inl err \<Rightarrow> (Inl (TransportError err), Body_Close httpClient response w')
                      | Inr bodyText \<Rightarrow>
                         (let match = channelURLPattern_FindStringSubmatch bodyText in
                          if length match = 2
                          then (Inr (match ! 1), Body_Close httpClient response w')
                          else (Inl (ResolutionFailed channelIdentifier),
                                Body_Close httpClient response w')))))))))"

definition resolveRelativeURL_tui :: "'u netURL \<Rightarrow> string \<Rightarrow> string \<Rightarrow> string + string" where
  "resolveRelativeURL_tui lib base relative =
     (case url_Parse lib base of
        Inl err \<Rightarrow> Inl err
      | Inr baseURL \<Rightarrow>
          (case url_Parse lib relative of
             Inl err \<Rightarrow> Inl err
           | Inr relativeURL \<Rightarrow>
               Inr (url_String lib (url_ResolveReference lib baseURL relativeURL))))"

fun emoticonsIndexLoop_tui :: "string list \<Rightarrow> int \<Rightarrow> int" where
  "emoticonsIndexLoop_tui [] index = - 1"
| "emoticonsIndexLoop_tui (part # rest) index =
     (if part = ''emoticons'' then index else emoticonsIndexLoop_tui rest (index + 1))"

definition collectEmoteMetadata_tui_func ::
    "'u netURL \<Rightarrow> (string \<rightharpoonup> EmoteData) \<Rightarrow> element \<Rightarrow> (string \<rightharpoonup> EmoteData)" where
  "collectEmoteMetadata_tui_func lib emoteMap selection =
     (let (imageSource, hasSrc) = Attr selection ''src'' in
      if \<not> hasSrc \<or> imageSource = [] then emoteMap
      else if \<not> Contains imageSource ''static-cdn.jtvnw.net/emoticons/v2/'' then emoteMap
      else
        case (if \<not> HasPrefix imageSource ''http://'' \<and> \<not> HasPrefix imageSource ''https://''
              then resolveRelativeURL_tui lib twitchemotesBaseURL_tui imageSource
              else Inr imageSource) of
          Inl err \<Rightarrow> emoteMap
        | Inr fullImageSource \<Rightarrow>
            let pathParts = Split fullImageSource CHR ''/'';
                emoticonsIndex = emoticonsIndexLoop_tui pathParts 0 in
            if emoticonsIndex = - 1 then emoteMap
            else if emoticonsIndex + 3 \<ge> int (length pathParts) then emoteMap
            else
              let emoteIdentifier = pathParts ! nat (emoticonsIndex + 2);
                  formatType = pathParts ! nat (emoticonsIndex + 3);
                  baseURL = Join (take (nat (emoticonsIndex + 4)) pathParts) ''/'';
                  (regexValue, hasRegex) = Attr selection ''data-regex'';
                  emoteCode =
                    (if \<not> hasRegex \<or> TrimSpace regexValue = [] then
                       (let (tooltipHTML, hasTooltip) = Attr selection ''data-tooltip'' in
                        if hasTooltip \<and> TrimSpace tooltipHTML \<noteq> []
                        then TrimSpace (htmlTagPattern_ReplaceAllString tooltipHTML [])
                        else regexValue)
                     else regexValue);
                  emoteCode =
                    (if emoteCode = [] then
                       (let parentText = TrimSpace (parentText selection) in
                        if parentText \<noteq> [] then parentText else emoteIdentifier)
                     else emoteCode)
              in if emoteMap emoteIdentifier \<noteq> None then emoteMap
                 else emoteMap(emoteIdentifier \<mapsto>
                        \<lparr>BaseURL = baseURL, FormatType = formatType, EmoteCode = emoteCode\<rparr>))"

definition collectEmoteMetadata_tui :: "'u netURL \<Rightarrow> document \<Rightarrow> (string \<rightharpoonup> EmoteData)" where
  "collectEmoteMetadata_tui lib doc = Each (images doc) (collectEmoteMetadata_tui_func lib) Map.empty"

definition determineFileExtension_tui :: "(string \<Rightarrow> string) \<Rightarrow> string \<Rightarrow> string" where
  "determineFileExtension_tui unicodeLower contentType0 =
     (let contentType = ToLower unicodeLower contentType0 in
      if Contains contentType ''gif'' then ''gif''
      else if Contains contentType ''jpeg'' \<or> Contains contentType ''jpg'' then ''jpg''
      else if Contains contentType ''png'' then ''png''
      else ''img'')"

text \<open>
  Its download stage gives each line to a function \<^verbatim>\<open>logFunc\<close> instead of printing it. In
  text mode that function is \<^verbatim>\<open>fmt.Println\<close>, here \<open>Println\<close>. \<^verbatim>\<open>fetchDocument\<close> and
  \<^verbatim>\<open>getChannelDisplayName\<close> are declared word for word as in \<^verbatim>\<open>twe-dlp.go\<close>, and their models
  above serve both programs.
\<close>

definition downloadEmoteImages_tui_body ::
    "'w httpClient \<Rightarrow> ('u, 'w) libs \<Rightarrow> (string \<Rightarrow> 'w state \<Rightarrow> 'w state) \<Rightarrow>
     string \<Rightarrow> string \<Rightarrow> string \<Rightarrow> string \<Rightarrow> 'w state \<Rightarrow> 'w state" where
  "downloadEmoteImages_tui_body httpClient os logFunc emoteBaseURL safeEmoteCode emoteFolder sizeValue st =
     (let imageURL = emoteBaseURL @ ''/light/'' @ sizeValue in
      (case NewRequest httpClient ''GET'' imageURL of
         Some err \<Rightarrow> logFunc (''[skip] '' @ imageURL @ '' ('' @ err @ '')'') st
       | None \<Rightarrow>
          (let request = \<lparr>Method = ''GET'', URL = imageURL, ReqBody = [],
                           ReqHeader = [(''User-Agent'', defaultUserAgent_tui)]\<rparr> in
           (case Do httpClient request (world st) of
              (Inl err, w1) \<Rightarrow>
                logFunc (''[skip] '' @ imageURL @ '' ('' @ err @ '')'') (st\<lparr>world := w1\<rparr>)
            | (Inr response, w1) \<Rightarrow>
                if StatusCode response \<noteq> 200 then
                  (let st1 = logFunc (''[skip] '' @ imageURL @ '' (status '' @ Status response @ '')'')
                               (st\<lparr>world := w1\<rparr>)
                   in st1\<lparr>world := Body_Close httpClient response (world st1)\<rparr>)
                else
                  (let contentType = ContentType response;
                       fileExtension = determineFileExtension_tui (Map_ToLower os) contentType;
                       outputFilename = safeEmoteCode @ ''_'' @ sizeValue @ ''.'' @ fileExtension;
                       outputPath = filepath_Join os emoteFolder outputFilename in
                   (case Create os outputPath w1 of
                      (Some err, w2) \<Rightarrow>
                        (let st2 = logFunc (''[skip] '' @ outputPath @ '' (cannot create file: '' @ err @ '')'')
                                     (st\<lparr>world := w2\<rparr>)
                         in st2\<lparr>world := Body_Close httpClient response (world st2)\<rparr>)
                    | (None, w2) \<Rightarrow>
                        (case Copy os outputPath response w2 of
                           (copyError, w3) \<Rightarrow>
                             (let w4 = File_Close os outputPath w3;
                                  w5 = Body_Close httpClient response w4 in
                              (case copyError of
                                 Some err \<Rightarrow>
                                   logFunc (''[skip] '' @ outputPath @ '' (copy error: '' @ err @ '')'')
                                     (st\<lparr>world := w5\<rparr>)
                               | None \<Rightarrow>
                                   logFunc (''[ok] '' @ outputFilename) (st\<lparr>world := w5\<rparr>))))))))))"

definition downloadEmoteImages_tui ::
    "'w httpClient \<Rightarrow> ('u, 'w) libs \<Rightarrow> string \<Rightarrow> EmoteData \<Rightarrow> string \<Rightarrow>
     (string \<Rightarrow> 'w state \<Rightarrow> 'w state) \<Rightarrow> 'w state \<Rightarrow> 'w state" where
  "downloadEmoteImages_tui httpClient os emoteIdentifier emoteData outputRoot logFunc st =
     (let emoteCode = EmoteCode emoteData;
          emoteBaseURL = BaseURL emoteData;
          safeEmoteCode = makeSafeName_tui emoteCode;
          emoteFolder = filepath_Join os outputRoot safeEmoteCode in
      (case MkdirAll os emoteFolder (world st) of
         (Some err, w1) \<Rightarrow>
           logFunc (''[error] cannot create folder '' @ emoteFolder @ '': '' @ err) (st\<lparr>world := w1\<rparr>)
       | (None, w1) \<Rightarrow>
           downloadEmoteImages_loop emoteSizeList
             (downloadEmoteImages_tui_body httpClient os logFunc emoteBaseURL safeEmoteCode emoteFolder)
             (st\<lparr>world := w1\<rparr>)))"

definition Println :: "string \<Rightarrow> 'w state \<Rightarrow> 'w state" where
  "Println line st = Printf (line @ newline) st"

fun downloadChannelEmotes_tui_loop ::
    "'w httpClient \<Rightarrow> ('u, 'w) libs \<Rightarrow> string \<Rightarrow> (string \<Rightarrow> 'w state \<Rightarrow> 'w state) \<Rightarrow>
     (string \<times> EmoteData) list \<Rightarrow> 'w state \<Rightarrow> 'w state" where
  "downloadChannelEmotes_tui_loop httpClient os outputRoot logFunc [] st = st"
| "downloadChannelEmotes_tui_loop httpClient os outputRoot logFunc ((emoteIdentifier, emoteData) # rest) st =
     downloadChannelEmotes_tui_loop httpClient os outputRoot logFunc rest
       (downloadEmoteImages_tui httpClient os emoteIdentifier emoteData outputRoot logFunc
          (logFunc (''Downloading sizes for emote: '' @ EmoteCode emoteData @ '' ('' @ emoteIdentifier @ '')'') st))"

definition downloadChannelEmotes_tui ::
    "'w httpClient \<Rightarrow> ('u, 'w) libs \<Rightarrow> string \<Rightarrow> (string \<Rightarrow> 'w state \<Rightarrow> 'w state) \<Rightarrow>
     'w state \<Rightarrow> error option \<times> 'w state" where
  "downloadChannelEmotes_tui httpClient os channelID logFunc st =
     (let channelURL = twitchemotesBaseURL_tui @ ''/channels/'' @ channelID in
      (case fetchDocument httpClient os channelURL (world st) of
         (Inl err, w1) \<Rightarrow> (Some err, st\<lparr>world := w1\<rparr>)
       | (Inr (doc, response), w1) \<Rightarrow>
          if StatusCode response \<noteq> 200
          then (Some (HTTPStatusError (Status response)),
                st\<lparr>world := Body_Close httpClient response w1\<rparr>)
          else
            (let channelDisplayName = getChannelDisplayName doc;
                 safeChannelName = makeSafeName_tui channelDisplayName;
                 safeChannelName = (if safeChannelName = ''unknown'' then makeSafeName_tui channelID
                                    else safeChannelName);
                 outputRoot = safeChannelName in
             (case MkdirAll os outputRoot w1 of
                (Some err, w2) \<Rightarrow>
                  (Some (OutputDirectoryError outputRoot err),
                   st\<lparr>world := Body_Close httpClient response w2\<rparr>)
              | (None, w2) \<Rightarrow>
                  (let st1 = logFunc (''Channel ID: '' @ channelID) (st\<lparr>world := w2\<rparr>);
                       st2 = (if channelDisplayName \<noteq> []
                              then logFunc (''Channel Name: '' @ channelDisplayName) st1
                              else st1);
                       st3 = logFunc (''Output Folder: '' @ outputRoot) st2;
                       st4 = logFunc ''Collecting emote metadata...'' st3;
                       emoteMap = collectEmoteMetadata_tui (net_url os) doc;
                       st5 = logFunc (''Found '' @ Sprintf_d (card (dom emoteMap)) @ '' emotes'') st4 in
                   if card (dom emoteMap) = 0
                   then (None, st5\<lparr>world := Body_Close httpClient response (world st5)\<rparr>)
                   else
                     (let st6 = downloadChannelEmotes_tui_loop httpClient os outputRoot logFunc
                                  (mapRange os emoteMap) st5 in
                      (None, st6\<lparr>world := Body_Close httpClient response (world st6)\<rparr>)))))))"

section \<open>Predicates and environments for the statements\<close>

text \<open>
  What the pattern \<^verbatim>\<open>/channels/(\d+)\<close> means at a position of a string: \<^verbatim>\<open>/channels/\<close> stands
  at position \<open>i\<close>, followed by the digits \<open>digits\<close>, at least one and as many as there are.
  The first match is the one at the least position.
\<close>

definition channelPathAt :: "string \<Rightarrow> nat \<Rightarrow> string \<Rightarrow> bool" where
  "channelPathAt s i digits =
     (prefix ''/channels/'' (drop i s) \<and> digits = takeWhile isDigit (drop (i + 10) s) \<and> digits \<noteq> [])"

definition firstChannelPath :: "string \<Rightarrow> string \<Rightarrow> bool" where
  "firstChannelPath s digits =
     (\<exists>i. channelPathAt s i digits \<and> (\<forall>j<i. \<forall>e. \<not> channelPathAt s j e))"

definition noChannelPath :: "string \<Rightarrow> bool" where
  "noChannelPath s = (\<forall>i e. \<not> channelPathAt s i e)"

text \<open>
  A client for the examples: the world is the list of the requests sent, and every request
  is answered with a given final address and body.
\<close>

definition answeringClient :: "string \<Rightarrow> string + string \<Rightarrow> request list httpClient" where
  "answeringClient finalURL body =
     \<lparr>NewRequest = (\<lambda>method url. None),
      Do = (\<lambda>request w.
              (Inr \<lparr>Request_URL = finalURL, StatusCode = 200, Status = ''200 OK'',
                    ContentType = ''text/html'', Body = body\<rparr>, w @ [request])),
      Body_Close = (\<lambda>response w. w),
      QueryEscape = (\<lambda>s. s)\<rparr>"

text \<open>
  A string of ASCII bytes, and a string that holds a pattern up to the case of the letters
  \<^verbatim>\<open>A\<close> to \<^verbatim>\<open>Z\<close>: some part of it, lowered, is the pattern.
\<close>

definition isASCII :: "string \<Rightarrow> bool" where
  "isASCII s = list_all (\<lambda>c. byte c < 0x80) s"

definition containsFold :: "string \<Rightarrow> string \<Rightarrow> bool" where
  "containsFold s p = (\<exists>u. sublist u s \<and> map asciiLower u = p)"

text \<open>
  The function that \<^verbatim>\<open>collectEmoteMetadata\<close> passes to \<^verbatim>\<open>Each\<close>, in parts, for the statements
  below: the address of a qualifying image, made absolute (\<open>None\<close> where the function
  returns before it splits the address); the code it picks for an image; and the entry it
  is about to store, before it looks whether the map has the identifier. The lemma
  \<open>func_entry\<close> proves that the function is these parts put together.
\<close>

definition emoteCodeOf :: "element \<Rightarrow> string \<Rightarrow> string" where
  "emoteCodeOf selection emoteIdentifier =
     (let (regexValue, hasRegex) = Attr selection ''data-regex'';
          emoteCode =
            (if \<not> hasRegex \<or> TrimSpace regexValue = [] then
               (let (tooltipHTML, hasTooltip) = Attr selection ''data-tooltip'' in
                if hasTooltip \<and> TrimSpace tooltipHTML \<noteq> []
                then TrimSpace (htmlTagPattern_ReplaceAllString tooltipHTML [])
                else regexValue)
             else regexValue)
      in if emoteCode = [] then
           (let parentText = TrimSpace (parentText selection) in
            if parentText \<noteq> [] then parentText else emoteIdentifier)
         else emoteCode)"

definition absoluteSource :: "'u netURL \<Rightarrow> element \<Rightarrow> string option" where
  "absoluteSource lib selection =
     (let (imageSource, hasSrc) = Attr selection ''src'' in
      if \<not> hasSrc \<or> imageSource = [] then None
      else if \<not> Contains imageSource ''static-cdn.jtvnw.net/emoticons/v2/'' then None
      else
        (case (if \<not> HasPrefix imageSource ''http://'' \<and> \<not> HasPrefix imageSource ''https://''
               then resolveRelativeURL lib twitchemotesBaseURL imageSource
               else Inr imageSource) of
           Inl err \<Rightarrow> None
         | Inr fullImageSource \<Rightarrow> Some fullImageSource))"

definition imageEntry :: "'u netURL \<Rightarrow> element \<Rightarrow> (string \<times> EmoteData) option" where
  "imageEntry lib selection =
     (case absoluteSource lib selection of
        None \<Rightarrow> None
      | Some fullImageSource \<Rightarrow>
         (let pathParts = Split fullImageSource CHR ''/'';
              emoticonsIndex = emoticonsIndexLoop pathParts 0 in
          if emoticonsIndex = - 1 then None
          else if emoticonsIndex + 3 \<ge> int (length pathParts) then None
          else
            (let emoteIdentifier = pathParts ! nat (emoticonsIndex + 2) in
             Some (emoteIdentifier,
                   \<lparr>BaseURL = Join (take (nat (emoticonsIndex + 4)) pathParts) ''/'',
                    FormatType = pathParts ! nat (emoticonsIndex + 3),
                    EmoteCode = emoteCodeOf selection emoteIdentifier\<rparr>))))"

text \<open>
  For the examples: a stand-in for \<^verbatim>\<open>net/url\<close> on which resolving appends the reference to
  the base, and an image of the content network with a given path after \<^verbatim>\<open>/emoticons/v2/\<close>
  and a given \<^verbatim>\<open>data-regex\<close>, inside a parent whose text is \<^verbatim>\<open>Kappa\<close>.
\<close>

definition plainURL :: "string netURL" where
  "plainURL = \<lparr>url_Parse = (\<lambda>s. Inr s), url_ResolveReference = (\<lambda>base reference. base @ reference),
               url_String = (\<lambda>u. u)\<rparr>"

definition emoteImage :: "string \<Rightarrow> string \<Rightarrow> element" where
  "emoteImage path code =
     \<lparr>attrs = [(''src'', ''https://static-cdn.jtvnw.net/emoticons/v2/'' @ path), (''data-regex'', code)],
      parentText = ''Kappa''\<rparr>"

text \<open>
  What one size leaves on standard output: the name of the file written, or a notice that
  the size was skipped, with the address or the path and the reason. What one emote leaves:
  its heading, and then either the notice that its folder could not be made or the lines of
  the three sizes, in the order of \<^const>\<open>emoteSizeList\<close>.
\<close>

definition sizeLine :: "('u, 'w) libs \<Rightarrow> string \<Rightarrow> string \<Rightarrow> string \<Rightarrow> string \<Rightarrow> string \<Rightarrow> bool" where
  "sizeLine os emoteBaseURL safeEmoteCode emoteFolder sizeValue line =
     ((\<exists>ext. line = ''[ok] '' @ safeEmoteCode @ ''_'' @ sizeValue @ ''.'' @ ext @ newline) \<or>
      (\<exists>why. line = ''[skip] '' @ emoteBaseURL @ ''/light/'' @ sizeValue @ '' ('' @ why @ '')'' @ newline) \<or>
      (\<exists>ext why. line = ''[skip] '' @
          filepath_Join os emoteFolder (safeEmoteCode @ ''_'' @ sizeValue @ ''.'' @ ext) @
          '' ('' @ why @ '')'' @ newline))"

definition emoteBlock :: "('u, 'w) libs \<Rightarrow> string \<Rightarrow> string \<times> EmoteData \<Rightarrow> string list \<Rightarrow> bool" where
  "emoteBlock os outputRoot entry block =
     (let emoteIdentifier = fst entry;
          emoteData = snd entry;
          safeEmoteCode = makeSafeName (EmoteCode emoteData);
          emoteFolder = filepath_Join os outputRoot safeEmoteCode;
          heading = ''Downloading sizes for emote: '' @ EmoteCode emoteData @
                    '' ('' @ emoteIdentifier @ '')'' @ newline in
      (\<exists>err. block = [heading, ''[error] cannot create folder '' @ emoteFolder @ '': '' @ err @ newline]) \<or>
      (\<exists>l1 l2 l3. block = [heading, l1, l2, l3] \<and>
         sizeLine os (BaseURL emoteData) safeEmoteCode emoteFolder ''1.0'' l1 \<and>
         sizeLine os (BaseURL emoteData) safeEmoteCode emoteFolder ''2.0'' l2 \<and>
         sizeLine os (BaseURL emoteData) safeEmoteCode emoteFolder ''3.0'' l3))"

text \<open>
  What the program does for one size, whatever the network and the file system answer, as a
  relation between the state before and the state after: one rule for each of the five ways
  in which the size can fail, and one for the file written. Every rule says which calls
  reached the world, in which order, and which line was written; none of them ends the loop.
  An emote is downloaded by making its folder and then attempting the three sizes of
  \<^const>\<open>emoteSizeList\<close> in order, each from the state the attempt before it left, however that
  attempt ended; the emotes of a page are processed one after the other, each after its
  heading, from the state the emote before it left.
\<close>

inductive sizeAttempt ::
    "'w httpClient \<Rightarrow> ('u, 'w) libs \<Rightarrow> string \<Rightarrow> string \<Rightarrow> string \<Rightarrow> string \<Rightarrow> 'w state \<Rightarrow> 'w state \<Rightarrow> bool"
  for httpClient os emoteBaseURL safeEmoteCode emoteFolder sizeValue where
  request_fails:
    "NewRequest httpClient ''GET'' (emoteBaseURL @ ''/light/'' @ sizeValue) = Some err \<Longrightarrow>
     sizeAttempt httpClient os emoteBaseURL safeEmoteCode emoteFolder sizeValue st
       (st\<lparr>stdout := stdout st @
          [''[skip] '' @ emoteBaseURL @ ''/light/'' @ sizeValue @ '' ('' @ err @ '')'' @ newline]\<rparr>)"
| transport_fails:
    "NewRequest httpClient ''GET'' (emoteBaseURL @ ''/light/'' @ sizeValue) = None \<Longrightarrow>
     Do httpClient \<lparr>Method = ''GET'', URL = emoteBaseURL @ ''/light/'' @ sizeValue, ReqBody = [],
                    ReqHeader = [(''User-Agent'', defaultUserAgent)]\<rparr> (world st) = (Inl err, w1) \<Longrightarrow>
     sizeAttempt httpClient os emoteBaseURL safeEmoteCode emoteFolder sizeValue st
       (st\<lparr>world := w1,
           stdout := stdout st @
          [''[skip] '' @ emoteBaseURL @ ''/light/'' @ sizeValue @ '' ('' @ err @ '')'' @ newline]\<rparr>)"
| status_fails:
    "NewRequest httpClient ''GET'' (emoteBaseURL @ ''/light/'' @ sizeValue) = None \<Longrightarrow>
     Do httpClient \<lparr>Method = ''GET'', URL = emoteBaseURL @ ''/light/'' @ sizeValue, ReqBody = [],
                    ReqHeader = [(''User-Agent'', defaultUserAgent)]\<rparr> (world st) = (Inr response, w1) \<Longrightarrow>
     StatusCode response \<noteq> 200 \<Longrightarrow>
     sizeAttempt httpClient os emoteBaseURL safeEmoteCode emoteFolder sizeValue st
       (st\<lparr>world := Body_Close httpClient response w1,
           stdout := stdout st @
          [''[skip] '' @ emoteBaseURL @ ''/light/'' @ sizeValue @
           '' (status '' @ Status response @ '')'' @ newline]\<rparr>)"
| create_fails:
    "NewRequest httpClient ''GET'' (emoteBaseURL @ ''/light/'' @ sizeValue) = None \<Longrightarrow>
     Do httpClient \<lparr>Method = ''GET'', URL = emoteBaseURL @ ''/light/'' @ sizeValue, ReqBody = [],
                    ReqHeader = [(''User-Agent'', defaultUserAgent)]\<rparr> (world st) = (Inr response, w1) \<Longrightarrow>
     StatusCode response = 200 \<Longrightarrow>
     outputPath = filepath_Join os emoteFolder
        (safeEmoteCode @ ''_'' @ sizeValue @ ''.'' @
         determineFileExtension (Map_ToLower os) (ContentType response)) \<Longrightarrow>
     Create os outputPath w1 = (Some err, w2) \<Longrightarrow>
     sizeAttempt httpClient os emoteBaseURL safeEmoteCode emoteFolder sizeValue st
       (st\<lparr>world := Body_Close httpClient response w2,
           stdout := stdout st @
          [''[skip] '' @ outputPath @ '' (cannot create file: '' @ err @ '')'' @ newline]\<rparr>)"
| copy_fails:
    "NewRequest httpClient ''GET'' (emoteBaseURL @ ''/light/'' @ sizeValue) = None \<Longrightarrow>
     Do httpClient \<lparr>Method = ''GET'', URL = emoteBaseURL @ ''/light/'' @ sizeValue, ReqBody = [],
                    ReqHeader = [(''User-Agent'', defaultUserAgent)]\<rparr> (world st) = (Inr response, w1) \<Longrightarrow>
     StatusCode response = 200 \<Longrightarrow>
     outputPath = filepath_Join os emoteFolder
        (safeEmoteCode @ ''_'' @ sizeValue @ ''.'' @
         determineFileExtension (Map_ToLower os) (ContentType response)) \<Longrightarrow>
     Create os outputPath w1 = (None, w2) \<Longrightarrow>
     Copy os outputPath response w2 = (Some err, w3) \<Longrightarrow>
     sizeAttempt httpClient os emoteBaseURL safeEmoteCode emoteFolder sizeValue st
       (st\<lparr>world := Body_Close httpClient response (File_Close os outputPath w3),
           stdout := stdout st @
          [''[skip] '' @ outputPath @ '' (copy error: '' @ err @ '')'' @ newline]\<rparr>)"
| written:
    "NewRequest httpClient ''GET'' (emoteBaseURL @ ''/light/'' @ sizeValue) = None \<Longrightarrow>
     Do httpClient \<lparr>Method = ''GET'', URL = emoteBaseURL @ ''/light/'' @ sizeValue, ReqBody = [],
                    ReqHeader = [(''User-Agent'', defaultUserAgent)]\<rparr> (world st) = (Inr response, w1) \<Longrightarrow>
     StatusCode response = 200 \<Longrightarrow>
     outputFilename = safeEmoteCode @ ''_'' @ sizeValue @ ''.'' @
         determineFileExtension (Map_ToLower os) (ContentType response) \<Longrightarrow>
     outputPath = filepath_Join os emoteFolder outputFilename \<Longrightarrow>
     Create os outputPath w1 = (None, w2) \<Longrightarrow>
     Copy os outputPath response w2 = (None, w3) \<Longrightarrow>
     sizeAttempt httpClient os emoteBaseURL safeEmoteCode emoteFolder sizeValue st
       (st\<lparr>world := Body_Close httpClient response (File_Close os outputPath w3),
           stdout := stdout st @ [''[ok] '' @ outputFilename @ newline]\<rparr>)"

inductive emoteDownload ::
    "'w httpClient \<Rightarrow> ('u, 'w) libs \<Rightarrow> EmoteData \<Rightarrow> string \<Rightarrow> 'w state \<Rightarrow> 'w state \<Rightarrow> bool"
  for httpClient os emoteData outputRoot where
  folder_fails:
    "emoteFolder = filepath_Join os outputRoot (makeSafeName (EmoteCode emoteData)) \<Longrightarrow>
     MkdirAll os emoteFolder (world st) = (Some err, w1) \<Longrightarrow>
     emoteDownload httpClient os emoteData outputRoot st
       (st\<lparr>world := w1,
           stdout := stdout st @
             [''[error] cannot create folder '' @ emoteFolder @ '': '' @ err @ newline]\<rparr>)"
| sizes_attempted:
    "safeEmoteCode = makeSafeName (EmoteCode emoteData) \<Longrightarrow>
     emoteFolder = filepath_Join os outputRoot safeEmoteCode \<Longrightarrow>
     MkdirAll os emoteFolder (world st) = (None, w1) \<Longrightarrow>
     sizeAttempt httpClient os (BaseURL emoteData) safeEmoteCode emoteFolder ''1.0'' (st\<lparr>world := w1\<rparr>) st1 \<Longrightarrow>
     sizeAttempt httpClient os (BaseURL emoteData) safeEmoteCode emoteFolder ''2.0'' st1 st2 \<Longrightarrow>
     sizeAttempt httpClient os (BaseURL emoteData) safeEmoteCode emoteFolder ''3.0'' st2 st3 \<Longrightarrow>
     emoteDownload httpClient os emoteData outputRoot st st3"

inductive emotesProcessed ::
    "'w httpClient \<Rightarrow> ('u, 'w) libs \<Rightarrow> string \<Rightarrow> (string \<times> EmoteData) list \<Rightarrow> 'w state \<Rightarrow> 'w state \<Rightarrow> bool"
  for httpClient os outputRoot where
  no_emote: "emotesProcessed httpClient os outputRoot [] st st"
| next_emote:
    "emoteDownload httpClient os emoteData outputRoot
       (st\<lparr>stdout := stdout st @
          [''Downloading sizes for emote: '' @ EmoteCode emoteData @
           '' ('' @ emoteIdentifier @ '')'' @ newline]\<rparr>) st1 \<Longrightarrow>
     emotesProcessed httpClient os outputRoot rest st1 st2 \<Longrightarrow>
     emotesProcessed httpClient os outputRoot ((emoteIdentifier, emoteData) # rest) st st2"

text \<open>
  For the examples: a client that answers the second size of one emote with status 404 and
  every other request with status 200 and a PNG content type, a file system on which every
  call succeeds (the world is the list of the calls made, the closing of a body and of a
  file included), the emote of the example page, and an emote to come after it.
\<close>

definition sizeClient :: "string list httpClient" where
  "sizeClient =
     \<lparr>NewRequest = (\<lambda>method url. None),
      Do = (\<lambda>request w.
              (if URL request = ''https://static-cdn.jtvnw.net/emoticons/v2/999/default/light/2.0''
               then Inr \<lparr>Request_URL = URL request, StatusCode = 404, Status = ''404 Not Found'',
                         ContentType = ''text/plain'', Body = Inr []\<rparr>
               else Inr \<lparr>Request_URL = URL request, StatusCode = 200, Status = ''200 OK'',
                         ContentType = ''image/png'', Body = Inr []\<rparr>,
               w @ [''GET '' @ URL request])),
      Body_Close = (\<lambda>response w. w @ [''close '' @ Request_URL response]),
      QueryEscape = (\<lambda>s. s)\<rparr>"

definition diskLibs :: "(string, string list) libs" where
  "diskLibs =
     \<lparr>MkdirAll = (\<lambda>path w. (None, w @ [''mkdir '' @ path])),
      Create = (\<lambda>path w. (None, w @ [''create '' @ path])),
      Copy = (\<lambda>path response w. (None, w @ [''copy '' @ path])),
      File_Close = (\<lambda>path w. w @ [''close '' @ path]),
      filepath_Join = (\<lambda>dir name. dir @ ''/'' @ name),
      Map_ToLower = (\<lambda>s. s),
      NewDocumentFromReader =
        (\<lambda>response. Inr \<lparr>cardHeader = None, images = [emoteImage ''999/default/1.0'' ''PogChamp'']\<rparr>),
      net_url = plainURL,
      mapRange = (\<lambda>emoteMap. case emoteMap ''999'' of None \<Rightarrow> [] | Some emoteData \<Rightarrow> [(''999'', emoteData)])\<rparr>"

definition pogChamp :: EmoteData where
  "pogChamp = \<lparr>BaseURL = ''https://static-cdn.jtvnw.net/emoticons/v2/999/default'',
               FormatType = ''default'', EmoteCode = ''PogChamp''\<rparr>"

definition kappa :: EmoteData where
  "kappa = \<lparr>BaseURL = ''https://static-cdn.jtvnw.net/emoticons/v2/25/default'',
            FormatType = ''default'', EmoteCode = ''Kappa''\<rparr>"

section \<open>Properties\<close>

subsection \<open>Sanitised names\<close>

lemma safeNameChar_not_space:
  assumes "safeNameChar a"
  shows "\<not> isSpace1 a" and "\<not> isSpace2 a b" and "\<not> isSpace2 b a"
    and "\<not> isSpace3 a b c" and "\<not> isSpace3 b c a"
  using assms by (auto simp: safeNameChar_def isSpace1_def isSpace2_def isSpace3_def)

lemma leadingSpace_safe: "list_all safeNameChar s \<Longrightarrow> leadingSpace s = 0"
  by (auto simp: leadingSpace_def safeNameChar_not_space split: list.splits)

lemma trailingSpace_safe:
  assumes "list_all safeNameChar s"
  shows "trailingSpace s = 0"
proof -
  from assms have "list_all safeNameChar (rev s)" by (simp add: list_all_iff)
  then show ?thesis
    unfolding trailingSpace_def
    by (auto simp: safeNameChar_not_space split: list.splits)
qed

lemma TrimSpace_safe: "list_all safeNameChar s \<Longrightarrow> TrimSpace s = s"
  by (simp add: TrimSpace_def leadingSpace_safe trailingSpace_safe)

lemma ReplaceAllString_safe:
  "list_all safeNameChar s \<Longrightarrow> safeNamePattern_ReplaceAllString s repl = s"
  by (induction s) auto

lemma ReplaceAllString_gives_safe:
  "list_all safeNameChar repl \<Longrightarrow> list_all safeNameChar (safeNamePattern_ReplaceAllString s repl)"
  by (induction s repl rule: safeNamePattern_ReplaceAllString.induct) auto

lemma safe_underscore: "list_all safeNameChar ''_''"
  by (simp add: safeNameChar_def byte_def)

lemma safe_unknown: "list_all safeNameChar ''unknown''"
  by (simp add: safeNameChar_def byte_def)

lemma makeSafeName_safe: "list_all safeNameChar (makeSafeName s) \<and> makeSafeName s \<noteq> []"
proof (cases "TrimSpace s = [] \<or> safeNamePattern_ReplaceAllString (TrimSpace s) ''_'' = []")
  case True
  then have "makeSafeName s = ''unknown''" by (auto simp: makeSafeName_def Let_def)
  with safe_unknown show ?thesis by simp
next
  case False
  then have "makeSafeName s = safeNamePattern_ReplaceAllString (TrimSpace s) ''_''"
    by (simp add: makeSafeName_def Let_def)
  with False ReplaceAllString_gives_safe [OF safe_underscore] show ?thesis by simp
qed

lemma makeSafeName_fixed:
  "list_all safeNameChar t \<Longrightarrow> t \<noteq> [] \<Longrightarrow> makeSafeName t = t"
  by (simp add: makeSafeName_def TrimSpace_safe ReplaceAllString_safe)

lemma set_TrimLeft: "set (TrimLeft s) \<subseteq> set s"
proof (induction s rule: TrimLeft.induct)
  case (1 s)
  show ?case
  proof (cases "leadingSpace s = 0")
    case True
    then show ?thesis by simp
  next
    case False
    with 1 have "set (TrimLeft (drop (leadingSpace s) s)) \<subseteq> set (drop (leadingSpace s) s)"
      by simp
    also have "\<dots> \<subseteq> set s" by (rule set_drop_subset)
    finally show ?thesis using False by simp
  qed
qed

lemma set_TrimRight: "set (TrimRight s) \<subseteq> set s"
proof (induction s rule: TrimRight.induct)
  case (1 s)
  show ?case
  proof (cases "trailingSpace s = 0")
    case True
    then show ?thesis by simp
  next
    case False
    with 1 have "set (TrimRight (take (length s - trailingSpace s) s))
        \<subseteq> set (take (length s - trailingSpace s) s)"
      by simp
    also have "\<dots> \<subseteq> set s" by (rule set_take_subset)
    finally show ?thesis using False by simp
  qed
qed

lemma set_TrimSpace: "set (TrimSpace s) \<subseteq> set s"
  unfolding TrimSpace_def using set_TrimRight set_TrimLeft by blast

lemma ReplaceAllString_unsafe:
  assumes "s \<noteq> []" and "list_all (\<lambda>c. \<not> safeNameChar c) s"
  shows "safeNamePattern_ReplaceAllString s repl = repl"
proof (cases s)
  case Nil
  with assms show ?thesis by simp
next
  case (Cons c cs)
  with assms have c: "\<not> safeNameChar c" and cs: "\<forall>d\<in>set cs. \<not> safeNameChar d"
    by (auto simp: list_all_iff)
  from cs have dw: "dropWhile (\<lambda>d. \<not> safeNameChar d) cs = []" by simp
  show ?thesis unfolding Cons using c by (simp add: dw)
qed

lemmas space_simps =
  TrimSpace_def leadingSpace_def trailingSpace_def isSpace1_def isSpace2_def isSpace3_def byte_def

text \<open>
  Claim C9. Sanitising is idempotent: for every string, \<^const>\<open>makeSafeName\<close> applied to a
  result of \<^const>\<open>makeSafeName\<close> gives that result again. A result is never empty and
  holds only letters, digits and underscores, which trimming and the pattern leave alone.
\<close>

theorem makeSafeName_idempotent: "makeSafeName (makeSafeName s) = makeSafeName s"
  using makeSafeName_safe [of s] by (simp add: makeSafeName_fixed)

text \<open>
  Claim C1, as the code has it. The empty string is sanitised to \<^verbatim>\<open>unknown\<close>, and so is every
  string that trimming empties (a string of white space only). A string of characters outside
  \<^verbatim>\<open>[A-Za-z0-9_]\<close> that trimming does not empty is one run of the pattern, and is sanitised
  to a single underscore, not to \<^verbatim>\<open>unknown\<close>.
\<close>

theorem makeSafeName_blank_or_underscore:
  "makeSafeName [] = ''unknown'' \<and>
   (TrimSpace s = [] \<longrightarrow> makeSafeName s = ''unknown'') \<and>
   (list_all (\<lambda>c. \<not> safeNameChar c) s \<and> TrimSpace s \<noteq> [] \<longrightarrow> makeSafeName s = ''_'')"
proof (intro conjI impI)
  show "makeSafeName [] = ''unknown''"
    by (simp add: makeSafeName_def space_simps)
  show "makeSafeName s = ''unknown''" if "TrimSpace s = []"
    using that by (simp add: makeSafeName_def)
  show "makeSafeName s = ''_''" if h: "list_all (\<lambda>c. \<not> safeNameChar c) s \<and> TrimSpace s \<noteq> []"
  proof -
    from h set_TrimSpace [of s] have "list_all (\<lambda>c. \<not> safeNameChar c) (TrimSpace s)"
      by (auto simp: list_all_iff)
    with h have "safeNamePattern_ReplaceAllString (TrimSpace s) ''_'' = ''_''"
      by (simp add: ReplaceAllString_unsafe)
    with h show ?thesis by (simp add: makeSafeName_def)
  qed
qed

theorem makeSafeName_blank_or_underscore_witness:
  "TrimSpace ''  '' = [] \<and> makeSafeName ''  '' = ''unknown'' \<and>
   list_all (\<lambda>c. \<not> safeNameChar c) ''!?'' \<and> TrimSpace ''!?'' \<noteq> [] \<and> makeSafeName ''!?'' = ''_''"
proof -
  have blank: "TrimSpace ''  '' = []"
    by (simp add: space_simps)
  have unsafe: "list_all (\<lambda>c. \<not> safeNameChar c) ''!?''"
    by (simp add: safeNameChar_def byte_def)
  have kept: "TrimSpace ''!?'' \<noteq> []"
    by (simp add: space_simps)
  from makeSafeName_blank_or_underscore [of "''  ''"] blank
  have one: "makeSafeName ''  '' = ''unknown''" by blast
  from makeSafeName_blank_or_underscore [of "''!?''"] unsafe kept
  have two: "makeSafeName ''!?'' = ''_''" by blast
  from blank one unsafe kept two show ?thesis by blast
qed

text \<open>
  The claim as the specification states it fails at the one-character string \<^verbatim>\<open>!\<close>, which
  is outside the class and is not sanitised to \<^verbatim>\<open>unknown\<close>.
\<close>

theorem makeSafeName_disallowed_counterexample:
  "\<not> safeNameChar CHR ''!'' \<and> makeSafeName ''!'' = ''_'' \<and> makeSafeName ''!'' \<noteq> ''unknown''"
  by (simp add: makeSafeName_def space_simps safeNameChar_def)

subsection \<open>The two programs\<close>

lemma isNumericLoop_tui_eq: "isNumericLoop_tui s = isNumericLoop s"
  by (induction s) auto

lemma emoticonsIndexLoop_tui_eq: "emoticonsIndexLoop_tui parts index = emoticonsIndexLoop parts index"
  by (induction parts arbitrary: index) auto

lemma resolveRelativeURL_tui_eq: "resolveRelativeURL_tui lib base relative = resolveRelativeURL lib base relative"
  by (simp add: resolveRelativeURL_tui_def resolveRelativeURL_def)

lemma collectEmoteMetadata_tui_func_eq:
  "collectEmoteMetadata_tui_func lib = collectEmoteMetadata_func lib"
  by (intro ext)
    (simp only: collectEmoteMetadata_tui_func_def collectEmoteMetadata_func_def
      emoticonsIndexLoop_tui_eq resolveRelativeURL_tui_eq
      twitchemotesBaseURL_tui_def twitchemotesBaseURL_def)

text \<open>
  Claim C10. The pipeline functions the two programs both declare are extensionally equal:
  \<^const>\<open>makeSafeName\<close>, \<^const>\<open>resolveChannelIdentifierToID\<close>, \<^const>\<open>collectEmoteMetadata\<close> and
  \<^const>\<open>determineFileExtension\<close> compute, on every input, what their namesakes of the
  program with the terminal interface compute.
\<close>

theorem programs_agree:
  "makeSafeName_tui = makeSafeName \<and>
   (resolveChannelIdentifierToID_tui :: 'w httpClient \<Rightarrow> string \<Rightarrow> 'w \<Rightarrow> (error + string) \<times> 'w)
     = resolveChannelIdentifierToID \<and>
   (collectEmoteMetadata_tui :: 'u netURL \<Rightarrow> document \<Rightarrow> (string \<rightharpoonup> EmoteData))
     = collectEmoteMetadata \<and>
   determineFileExtension_tui = determineFileExtension"
proof (intro conjI ext)
  fix name :: string
  show "makeSafeName_tui name = makeSafeName name"
    by (simp only: makeSafeName_tui_def makeSafeName_def)
next
  fix httpClient :: "'w httpClient" and channelIdentifier :: string and w :: 'w
  show "resolveChannelIdentifierToID_tui httpClient channelIdentifier w =
        resolveChannelIdentifierToID httpClient channelIdentifier w"
    by (simp only: resolveChannelIdentifierToID_tui_def resolveChannelIdentifierToID_def
        isNumericLoop_tui_eq formValues_Encode_tui_def formValues_Encode_def
        twitchemotesBaseURL_tui_def twitchemotesBaseURL_def
        defaultUserAgent_tui_def defaultUserAgent_def)
next
  fix lib :: "'u netURL" and doc :: document and emoteIdentifier :: string
  show "collectEmoteMetadata_tui lib doc emoteIdentifier = collectEmoteMetadata lib doc emoteIdentifier"
    by (simp only: collectEmoteMetadata_tui_def collectEmoteMetadata_def
        collectEmoteMetadata_tui_func_eq)
next
  fix unicodeLower :: "string \<Rightarrow> string" and contentType :: string
  show "determineFileExtension_tui unicodeLower contentType =
        determineFileExtension unicodeLower contentType"
    by (simp only: determineFileExtension_tui_def determineFileExtension_def)
qed

subsection \<open>Resolving\<close>

lemma isNumericLoop_iff: "isNumericLoop s = list_all isDigit s"
  by (induction s) (auto simp: isDigit_def)

lemma channelPathAt_Nil: "\<not> channelPathAt [] i e"
  by (simp add: channelPathAt_def)

lemma channelPathAt_Suc: "channelPathAt (c # cs) (Suc i) e = channelPathAt cs i e"
  unfolding channelPathAt_def by (simp only: drop_Suc_Cons add_Suc)

lemma channelPathAt_0:
  "channelPathAt s 0 e = (prefix ''/channels/'' s \<and> e = takeWhile isDigit (drop 10 s) \<and> e \<noteq> [])"
  by (simp add: channelPathAt_def)

lemma noChannelPath_Cons:
  "noChannelPath (c # cs) = ((\<forall>e. \<not> channelPathAt (c # cs) 0 e) \<and> noChannelPath cs)"
proof
  assume h: "noChannelPath (c # cs)"
  then have "\<forall>i e. \<not> channelPathAt (c # cs) (Suc i) e" by (simp add: noChannelPath_def)
  then have "noChannelPath cs" by (simp add: noChannelPath_def channelPathAt_Suc)
  with h show "(\<forall>e. \<not> channelPathAt (c # cs) 0 e) \<and> noChannelPath cs"
    by (simp add: noChannelPath_def)
next
  assume h: "(\<forall>e. \<not> channelPathAt (c # cs) 0 e) \<and> noChannelPath cs"
  show "noChannelPath (c # cs)"
    unfolding noChannelPath_def
  proof (intro allI)
    fix i e
    show "\<not> channelPathAt (c # cs) i e"
      using h by (cases i) (simp_all add: noChannelPath_def channelPathAt_Suc)
  qed
qed

lemma firstChannelPath_here:
  "channelPathAt s 0 d \<Longrightarrow> firstChannelPath s d"
  unfolding firstChannelPath_def by (rule exI [of _ 0]) simp

lemma firstChannelPath_later:
  assumes "\<forall>e. \<not> channelPathAt (c # cs) 0 e" and "firstChannelPath cs d"
  shows "firstChannelPath (c # cs) d"
proof -
  from assms(2) obtain i where i: "channelPathAt cs i d" "\<forall>j<i. \<forall>e. \<not> channelPathAt cs j e"
    unfolding firstChannelPath_def by blast
  have "\<forall>j<Suc i. \<forall>e. \<not> channelPathAt (c # cs) j e"
  proof (intro allI impI)
    fix j e assume "j < Suc i"
    then show "\<not> channelPathAt (c # cs) j e"
      using assms(1) i(2) by (cases j) (simp_all add: channelPathAt_Suc)
  qed
  with i(1) show ?thesis
    unfolding firstChannelPath_def by (intro exI [of _ "Suc i"]) (simp add: channelPathAt_Suc)
qed

lemma FindStringSubmatch_cases:
  "(channelURLPattern_FindStringSubmatch s = [] \<and> noChannelPath s) \<or>
   (\<exists>d. channelURLPattern_FindStringSubmatch s = [''/channels/'' @ d, d] \<and> firstChannelPath s d)"
proof (induction s)
  case Nil
  show ?case by (simp add: noChannelPath_def channelPathAt_Nil)
next
  case (Cons c cs)
  let ?d = "takeWhile isDigit (drop 10 (c # cs))"
  show ?case
  proof (cases "prefix ''/channels/'' (c # cs) \<and> ?d \<noteq> []")
    case True
    then have "channelPathAt (c # cs) 0 ?d" unfolding channelPathAt_0 by blast
    then have "firstChannelPath (c # cs) ?d" by (rule firstChannelPath_here)
    moreover have "channelURLPattern_FindStringSubmatch (c # cs) = [''/channels/'' @ ?d, ?d]"
      unfolding channelURLPattern_FindStringSubmatch.simps Let_def using True by (rule if_P)
    ultimately show ?thesis by blast
  next
    case False
    then have none: "\<forall>e. \<not> channelPathAt (c # cs) 0 e" unfolding channelPathAt_0 by blast
    have rec: "channelURLPattern_FindStringSubmatch (c # cs) = channelURLPattern_FindStringSubmatch cs"
      unfolding channelURLPattern_FindStringSubmatch.simps Let_def using False by (rule if_not_P)
    from Cons.IH show ?thesis
    proof
      assume "channelURLPattern_FindStringSubmatch cs = [] \<and> noChannelPath cs"
      with none rec show ?thesis by (simp add: noChannelPath_Cons)
    next
      assume "\<exists>d. channelURLPattern_FindStringSubmatch cs = [''/channels/'' @ d, d] \<and> firstChannelPath cs d"
      then obtain d where "channelURLPattern_FindStringSubmatch cs = [''/channels/'' @ d, d]" "firstChannelPath cs d"
        by blast
      moreover from none this(2) have "firstChannelPath (c # cs) d" by (rule firstChannelPath_later)
      ultimately show ?thesis using rec by simp
    qed
  qed
qed

lemma firstChannelPath_unique:
  assumes "firstChannelPath s d" and "firstChannelPath s d'"
  shows "d = d'"
proof -
  from assms obtain i i' where
    i: "channelPathAt s i d" "\<forall>j<i. \<forall>e. \<not> channelPathAt s j e" and
    i': "channelPathAt s i' d'" "\<forall>j<i'. \<forall>e. \<not> channelPathAt s j e"
    unfolding firstChannelPath_def by blast
  have "\<not> i < i'" using i(1) i'(2) by blast
  moreover have "\<not> i' < i" using i'(1) i(2) by blast
  ultimately have "i = i'" by simp
  with i(1) i'(1) show ?thesis by (simp add: channelPathAt_def)
qed

lemma firstChannelPath_not_none: "firstChannelPath s d \<Longrightarrow> \<not> noChannelPath s"
  unfolding firstChannelPath_def noChannelPath_def by blast

lemma FindStringSubmatch_first:
  assumes "firstChannelPath s d"
  shows "channelURLPattern_FindStringSubmatch s = [''/channels/'' @ d, d]"
proof -
  from assms have "\<not> noChannelPath s" by (rule firstChannelPath_not_none)
  with FindStringSubmatch_cases [of s] obtain d' where
    d': "channelURLPattern_FindStringSubmatch s = [''/channels/'' @ d', d']" "firstChannelPath s d'"
    by blast
  from assms d'(2) have "d = d'" by (rule firstChannelPath_unique)
  with d'(1) show ?thesis by simp
qed

lemma FindStringSubmatch_none:
  assumes "noChannelPath s"
  shows "channelURLPattern_FindStringSubmatch s = []"
proof -
  from assms firstChannelPath_not_none have "\<And>d. \<not> firstChannelPath s d" by blast
  with FindStringSubmatch_cases [of s] show ?thesis by blast
qed

lemma first_of_FindStringSubmatch:
  assumes "channelURLPattern_FindStringSubmatch s = [m, d]"
  shows "firstChannelPath s d"
proof -
  from assms FindStringSubmatch_cases [of s] obtain d' where
    "channelURLPattern_FindStringSubmatch s = [''/channels/'' @ d', d']" "firstChannelPath s d'"
    by fastforce
  with assms show ?thesis by simp
qed

lemma none_of_FindStringSubmatch:
  assumes "channelURLPattern_FindStringSubmatch s = []"
  shows "noChannelPath s"
proof -
  from assms FindStringSubmatch_cases [of s] show ?thesis by fastforce
qed

text \<open>
  Claim C3. An identifier that is not empty and holds decimal digits only is returned as
  it is, and the world is the one the call started in, whatever the client: no request is
  sent.
\<close>

theorem resolve_numeric:
  "channelIdentifier \<noteq> [] \<Longrightarrow> list_all isDigit channelIdentifier \<Longrightarrow>
   resolveChannelIdentifierToID httpClient channelIdentifier w = (Inr channelIdentifier, w)"
  by (simp add: resolveChannelIdentifierToID_def isNumericLoop_iff)
theorem resolve_numeric_witness:
  "''12345'' \<noteq> [] \<and> list_all isDigit ''12345'' \<and>
   resolveChannelIdentifierToID (answeringClient [] (Inr [])) ''12345'' [] = (Inr ''12345'', [])"
  using resolve_numeric [of "''12345''" "answeringClient [] (Inr [])" "[]"]
  by (simp add: isDigit_def byte_def)

text \<open>
  Claim C7. For an identifier that is not numeric, once the request is built and answered:
  when the pattern matches the final address, the digits of its first match are returned;
  when it does not and the body is read, the digits of the first match in the body are
  returned; and when it matches neither, the call fails with \<^const>\<open>ResolutionFailed\<close> of
  the identifier.
\<close>

theorem resolve_by_pattern:
  assumes "channelIdentifier \<noteq> []" and "\<not> list_all isDigit channelIdentifier"
    and "NewRequest httpClient ''POST'' (twitchemotesBaseURL @ ''/search/channel'') = None"
    and "Do httpClient
           \<lparr>Method = ''POST'', URL = twitchemotesBaseURL @ ''/search/channel'',
            ReqBody = formValues_Encode httpClient channelIdentifier,
            ReqHeader = [(''Content-Type'', ''application/x-www-form-urlencoded''),
                         (''User-Agent'', defaultUserAgent)]\<rparr> w = (Inr response, w')"
  shows
    "(firstChannelPath (Request_URL response) d \<longrightarrow>
        fst (resolveChannelIdentifierToID httpClient channelIdentifier w) = Inr d) \<and>
     (noChannelPath (Request_URL response) \<and> Body response = Inr bodyText \<and>
      firstChannelPath bodyText d \<longrightarrow>
        fst (resolveChannelIdentifierToID httpClient channelIdentifier w) = Inr d) \<and>
     (noChannelPath (Request_URL response) \<and> Body response = Inr bodyText \<and>
      noChannelPath bodyText \<longrightarrow>
        fst (resolveChannelIdentifierToID httpClient channelIdentifier w) =
          Inl (ResolutionFailed channelIdentifier))"
proof -
  let ?r = "resolveChannelIdentifierToID httpClient channelIdentifier w"
  have unfolded: "?r =
      (let match = channelURLPattern_FindStringSubmatch (Request_URL response) in
       if length match = 2 then (Inr (match ! 1), Body_Close httpClient response w')
       else
         (case Body response of
            Inl err \<Rightarrow> (Inl (TransportError err), Body_Close httpClient response w')
          | Inr bodyText \<Rightarrow>
             (let match = channelURLPattern_FindStringSubmatch bodyText in
              if length match = 2
              then (Inr (match ! 1), Body_Close httpClient response w')
              else (Inl (ResolutionFailed channelIdentifier),
                    Body_Close httpClient response w'))))"
    using assms by (simp add: resolveChannelIdentifierToID_def isNumericLoop_iff Let_def)
  have one: "fst ?r = Inr d" if "firstChannelPath (Request_URL response) d"
    using FindStringSubmatch_first [OF that] by (simp add: unfolded)
  have two: "fst ?r = Inr d"
    if "noChannelPath (Request_URL response)" "Body response = Inr bodyText" "firstChannelPath bodyText d"
    using FindStringSubmatch_none [OF that(1)] that(2) FindStringSubmatch_first [OF that(3)]
    by (simp add: unfolded)
  have three: "fst ?r = Inl (ResolutionFailed channelIdentifier)"
    if "noChannelPath (Request_URL response)" "Body response = Inr bodyText" "noChannelPath bodyText"
    using FindStringSubmatch_none [OF that(1)] that(2) FindStringSubmatch_none [OF that(3)]
    by (simp add: unfolded)
  from one two three show ?thesis by blast
qed
theorem resolve_by_pattern_witness:
  "fst (resolveChannelIdentifierToID
          (answeringClient ''https://twitchemotes.com/channels/12345'' (Inr ''<html></html>''))
          ''somename'' []) = Inr ''12345'' \<and>
   fst (resolveChannelIdentifierToID
          (answeringClient ''https://twitchemotes.com/search''
             (Inr ''<a href=/channels/777>somename</a> <a href=/channels/8>other</a>''))
          ''somename'' []) = Inr ''777'' \<and>
   fst (resolveChannelIdentifierToID
          (answeringClient ''https://twitchemotes.com/search'' (Inr ''no such /channels/ here''))
          ''somename'' []) = Inl (ResolutionFailed ''somename'')"
proof -
  let ?url1 = "''https://twitchemotes.com/channels/12345''"
  let ?url2 = "''https://twitchemotes.com/search''"
  let ?body1 = "''<html></html>''"
  let ?body2 = "''<a href=/channels/777>somename</a> <a href=/channels/8>other</a>''"
  let ?body3 = "''no such /channels/ here''"
  have name: "''somename'' \<noteq> []" "\<not> list_all isDigit ''somename''"
    by (simp_all add: isDigit_def byte_def)
  have new: "NewRequest (answeringClient u b) ''POST'' (twitchemotesBaseURL @ ''/search/channel'') = None" for u b
    by (simp add: answeringClient_def)
  have do: "Do (answeringClient u b) r [] =
      (Inr \<lparr>Request_URL = u, StatusCode = 200, Status = ''200 OK'',
            ContentType = ''text/html'', Body = b\<rparr>, [r])" for u b r
    by (simp add: answeringClient_def)
  have "channelURLPattern_FindStringSubmatch ?url1 = [''/channels/12345'', ''12345'']"
    by (simp add: isDigit_def byte_def Let_def)
  then have m1: "firstChannelPath ?url1 ''12345''" by (rule first_of_FindStringSubmatch)
  have "channelURLPattern_FindStringSubmatch ?url2 = []"
    by (simp add: isDigit_def byte_def Let_def)
  then have n2: "noChannelPath ?url2" by (rule none_of_FindStringSubmatch)
  have "channelURLPattern_FindStringSubmatch ?body2 = [''/channels/777'', ''777'']"
    by (simp add: isDigit_def byte_def Let_def)
  then have m2: "firstChannelPath ?body2 ''777''" by (rule first_of_FindStringSubmatch)
  have "channelURLPattern_FindStringSubmatch ?body3 = []"
    by (simp add: isDigit_def byte_def Let_def)
  then have n3: "noChannelPath ?body3" by (rule none_of_FindStringSubmatch)
  from resolve_by_pattern [OF name new do, of ?url1 "Inr ?body1" "''12345''" ?body1] m1
  have one: "fst (resolveChannelIdentifierToID (answeringClient ?url1 (Inr ?body1)) ''somename'' [])
      = Inr ''12345''" by simp
  from resolve_by_pattern [OF name new do, of ?url2 "Inr ?body2" "''777''" ?body2] n2 m2
  have two: "fst (resolveChannelIdentifierToID (answeringClient ?url2 (Inr ?body2)) ''somename'' [])
      = Inr ''777''" by simp
  from resolve_by_pattern [OF name new do, of ?url2 "Inr ?body3" "''777''" ?body3] n2 n3
  have three: "fst (resolveChannelIdentifierToID (answeringClient ?url2 (Inr ?body3)) ''somename'' [])
      = Inl (ResolutionFailed ''somename'')" by simp
  from one two three show ?thesis by blast
qed

subsection \<open>File extensions\<close>

lemma sublist_map_iff: "sublist p (map f s) = (\<exists>u. sublist u s \<and> map f u = p)"
proof
  assume "sublist p (map f s)"
  then have "\<exists>u. sublist u s \<and> p = map f u" by (rule sublist_map_rightE)
  then show "\<exists>u. sublist u s \<and> map f u = p" by blast
next
  assume "\<exists>u. sublist u s \<and> map f u = p"
  then show "sublist p (map f s)" using map_mono_sublist by blast
qed

lemma Contains_ToLower_ASCII:
  "isASCII s \<Longrightarrow> Contains (ToLower lower s) p = containsFold s p"
  by (simp add: isASCII_def ToLower_def Contains_def containsFold_def sublist_map_iff)

lemma ToLower_examples:
  "ToLower lower ''image/gif'' = ''image/gif''"
  "ToLower lower ''image/jpeg'' = ''image/jpeg''"
  "ToLower lower ''image/png'' = ''image/png''"
  "ToLower lower ''application/octet-stream'' = ''application/octet-stream''"
  "ToLower lower ''IMAGE/GIF'' = ''image/gif''"
  "ToLower lower ''Image/JPG; q=1'' = ''image/jpg; q=1''"
  by (simp_all add: ToLower_def asciiLower_def byte_def char_of_eq_iff)

lemmas ext_simps = determineFileExtension_def ToLower_examples Contains_def sublist_code(3) Let_def

text \<open>
  Claim C6. For every content type the extension is found on the lowered text, by
  containment checked in the order \<^verbatim>\<open>gif\<close>, then \<^verbatim>\<open>jpeg\<close> or \<^verbatim>\<open>jpg\<close>, then \<^verbatim>\<open>png\<close>, else
  \<^verbatim>\<open>img\<close>; for a content type of ASCII bytes, whatever \<^verbatim>\<open>strings.ToLower\<close> does beyond
  ASCII, that is containment up to the case of the letters; and the five content types the
  specification names get \<^verbatim>\<open>gif\<close>, \<^verbatim>\<open>jpg\<close>, \<^verbatim>\<open>png\<close>, \<^verbatim>\<open>img\<close> and \<^verbatim>\<open>gif\<close>.
\<close>

theorem determineFileExtension_classifies:
  "determineFileExtension lower contentType =
     (if Contains (ToLower lower contentType) ''gif'' then ''gif''
      else if Contains (ToLower lower contentType) ''jpeg'' \<or> Contains (ToLower lower contentType) ''jpg''
        then ''jpg''
      else if Contains (ToLower lower contentType) ''png'' then ''png''
      else ''img'') \<and>
   (isASCII contentType \<longrightarrow>
      determineFileExtension lower contentType =
        (if containsFold contentType ''gif'' then ''gif''
         else if containsFold contentType ''jpeg'' \<or> containsFold contentType ''jpg'' then ''jpg''
         else if containsFold contentType ''png'' then ''png''
         else ''img'')) \<and>
   determineFileExtension lower ''image/gif'' = ''gif'' \<and>
   determineFileExtension lower ''image/jpeg'' = ''jpg'' \<and>
   determineFileExtension lower ''image/png'' = ''png'' \<and>
   determineFileExtension lower ''application/octet-stream'' = ''img'' \<and>
   determineFileExtension lower ''IMAGE/GIF'' = ''gif''"
proof (intro conjI impI)
  show "determineFileExtension lower contentType =
     (if Contains (ToLower lower contentType) ''gif'' then ''gif''
      else if Contains (ToLower lower contentType) ''jpeg'' \<or> Contains (ToLower lower contentType) ''jpg''
        then ''jpg''
      else if Contains (ToLower lower contentType) ''png'' then ''png''
      else ''img'')"
    by (simp add: determineFileExtension_def Let_def)
  show "determineFileExtension lower contentType =
        (if containsFold contentType ''gif'' then ''gif''
         else if containsFold contentType ''jpeg'' \<or> containsFold contentType ''jpg'' then ''jpg''
         else if containsFold contentType ''png'' then ''png''
         else ''img'')" if "isASCII contentType"
    using that by (simp add: determineFileExtension_def Let_def Contains_ToLower_ASCII)
  show "determineFileExtension lower ''image/gif'' = ''gif''" by (simp add: ext_simps)
  show "determineFileExtension lower ''image/jpeg'' = ''jpg''" by (simp add: ext_simps)
  show "determineFileExtension lower ''image/png'' = ''png''" by (simp add: ext_simps)
  show "determineFileExtension lower ''application/octet-stream'' = ''img''" by (simp add: ext_simps)
  show "determineFileExtension lower ''IMAGE/GIF'' = ''gif''" by (simp add: ext_simps)
qed

theorem determineFileExtension_classifies_witness:
  "isASCII ''Image/JPG; q=1'' \<and> containsFold ''Image/JPG; q=1'' ''jpg'' \<and>
   \<not> containsFold ''Image/JPG; q=1'' ''gif'' \<and>
   determineFileExtension (\<lambda>s. s) ''Image/JPG; q=1'' = ''jpg''"
proof -
  let ?ct = "''Image/JPG; q=1''"
  have ascii: "isASCII ?ct" by (simp add: isASCII_def byte_def)
  have jpg: "containsFold ?ct ''jpg''"
    unfolding Contains_ToLower_ASCII [OF ascii, of "\<lambda>s. s", symmetric] ToLower_examples
    by (simp add: Contains_def sublist_code(3))
  have gif: "\<not> containsFold ?ct ''gif''"
    unfolding Contains_ToLower_ASCII [OF ascii, of "\<lambda>s. s", symmetric] ToLower_examples
    by (simp add: Contains_def sublist_code(3))
  note determineFileExtension_classifies [of "\<lambda>s. s" ?ct, THEN conjunct2, THEN conjunct1]
  with ascii jpg gif have "determineFileExtension (\<lambda>s. s) ?ct = ''jpg''" by simp
  with ascii jpg gif show ?thesis by blast
qed

subsection \<open>Collecting\<close>

lemma func_entry:
  "collectEmoteMetadata_func lib emoteMap selection =
     (case imageEntry lib selection of
        None \<Rightarrow> emoteMap
      | Some (emoteIdentifier, emoteData) \<Rightarrow>
          if emoteMap emoteIdentifier \<noteq> None then emoteMap
          else emoteMap(emoteIdentifier \<mapsto> emoteData))"
proof -
  obtain imageSource hasSrc where src: "Attr selection ''src'' = (imageSource, hasSrc)"
    by (cases "Attr selection ''src''")
  obtain regexValue hasRegex where rx: "Attr selection ''data-regex'' = (regexValue, hasRegex)"
    by (cases "Attr selection ''data-regex''")
  obtain tooltipHTML hasTooltip where tt: "Attr selection ''data-tooltip'' = (tooltipHTML, hasTooltip)"
    by (cases "Attr selection ''data-tooltip''")
  show ?thesis
  proof (cases "absoluteSource lib selection")
    case None
    then consider "\<not> hasSrc \<or> imageSource = []"
      | "\<not> (\<not> hasSrc \<or> imageSource = [])"
        "\<not> Contains imageSource ''static-cdn.jtvnw.net/emoticons/v2/''"
      | err where "\<not> (\<not> hasSrc \<or> imageSource = [])"
        "Contains imageSource ''static-cdn.jtvnw.net/emoticons/v2/''"
        "(if \<not> HasPrefix imageSource ''http://'' \<and> \<not> HasPrefix imageSource ''https://''
          then resolveRelativeURL lib twitchemotesBaseURL imageSource
          else Inr imageSource) = Inl err"
      unfolding absoluteSource_def src Let_def prod.case
      by (cases "\<not> hasSrc \<or> imageSource = []";
          cases "Contains imageSource ''static-cdn.jtvnw.net/emoticons/v2/''";
          cases "(if \<not> HasPrefix imageSource ''http://'' \<and> \<not> HasPrefix imageSource ''https://''
            then resolveRelativeURL lib twitchemotesBaseURL imageSource
            else Inr imageSource)") simp_all
    then have "collectEmoteMetadata_func lib emoteMap selection = emoteMap"
    proof cases
      case 1
      then show ?thesis
        unfolding collectEmoteMetadata_func_def src Let_def prod.case by (rule if_P)
    next
      case 2
      then show ?thesis
        unfolding collectEmoteMetadata_func_def src Let_def prod.case by (simp only: simp_thms if_False if_True)
    next
      case 3
      then show ?thesis
        unfolding collectEmoteMetadata_func_def src Let_def prod.case by (simp only: simp_thms if_False if_True sum.case)
    qed
    with None show ?thesis by (simp add: imageEntry_def)
  next
    case (Some full)
    then have full:
      "\<not> (\<not> hasSrc \<or> imageSource = [])"
      "Contains imageSource ''static-cdn.jtvnw.net/emoticons/v2/''"
      "(if \<not> HasPrefix imageSource ''http://'' \<and> \<not> HasPrefix imageSource ''https://''
        then resolveRelativeURL lib twitchemotesBaseURL imageSource
        else Inr imageSource) = Inr full"
      by (auto simp: absoluteSource_def src Let_def split: if_splits sum.splits)
    have "collectEmoteMetadata_func lib emoteMap selection =
       (let pathParts = Split full CHR ''/'';
            emoticonsIndex = emoticonsIndexLoop pathParts 0 in
        if emoticonsIndex = - 1 then emoteMap
        else if emoticonsIndex + 3 \<ge> int (length pathParts) then emoteMap
        else
          (let emoteIdentifier = pathParts ! nat (emoticonsIndex + 2) in
           if emoteMap emoteIdentifier \<noteq> None then emoteMap
           else emoteMap(emoteIdentifier \<mapsto>
                  \<lparr>BaseURL = Join (take (nat (emoticonsIndex + 4)) pathParts) ''/'',
                   FormatType = pathParts ! nat (emoticonsIndex + 3),
                   EmoteCode = emoteCodeOf selection emoteIdentifier\<rparr>)))"
      unfolding collectEmoteMetadata_func_def emoteCodeOf_def src rx tt Let_def prod.case
      using full(1,2) by (simp only: full(3) simp_thms if_False if_True sum.case)
    then show ?thesis
      by (simp add: imageEntry_def Some Let_def)
  qed
qed

lemma emoticonsIndexLoop_absent:
  "''emoticons'' \<notin> set parts \<Longrightarrow> emoticonsIndexLoop parts index = - 1"
  by (induction parts arbitrary: index) auto

lemma emoticonsIndexLoop_first:
  "i < length parts \<Longrightarrow> parts ! i = ''emoticons'' \<Longrightarrow> \<forall>j<i. parts ! j \<noteq> ''emoticons'' \<Longrightarrow>
   emoticonsIndexLoop parts index = index + int i"
proof (induction parts arbitrary: index i)
  case Nil
  then show ?case by simp
next
  case (Cons part rest)
  show ?case
  proof (cases i)
    case 0
    with Cons.prems show ?thesis by simp
  next
    case (Suc i')
    with Cons.prems have "part \<noteq> ''emoticons''" by auto
    moreover from Suc Cons.prems have "emoticonsIndexLoop rest (index + 1) = index + 1 + int i'"
      by (intro Cons.IH) auto
    ultimately show ?thesis using Suc by simp
  qed
qed

lemma imageEntry_absent:
  assumes "absoluteSource lib selection = Some full"
    and "''emoticons'' \<notin> set (Split full CHR ''/'')"
  shows "imageEntry lib selection = None"
  using assms by (simp add: imageEntry_def emoticonsIndexLoop_absent)

lemma imageEntry_first:
  assumes "absoluteSource lib selection = Some full" and "parts = Split full CHR ''/''"
    and "i < length parts" and "parts ! i = ''emoticons''" and "\<forall>j<i. parts ! j \<noteq> ''emoticons''"
  shows "imageEntry lib selection =
     (if length parts \<le> i + 3 then None
      else Some (parts ! (i + 2),
                 \<lparr>BaseURL = Join (take (i + 4) parts) ''/'', FormatType = parts ! (i + 3),
                  EmoteCode = emoteCodeOf selection (parts ! (i + 2))\<rparr>))"
proof -
  from assms(3-5) have idx: "emoticonsIndexLoop parts 0 = int i"
    using emoticonsIndexLoop_first [of i parts 0] by simp
  have n: "nat (int i + 2) = i + 2" "nat (int i + 3) = i + 3" "nat (int i + 4) = i + 4"
    by simp_all
  from assms(2) have parts: "Split full CHR ''/'' = parts" by simp
  show ?thesis
    by (simp add: imageEntry_def assms(1) parts idx n Let_def)
qed
lemma Attr_emoteImage:
  "Attr (emoteImage path code) ''src'' = (''https://static-cdn.jtvnw.net/emoticons/v2/'' @ path, True)"
  "Attr (emoteImage path code) ''data-regex'' = (code, True)"
  "Attr (emoteImage path code) ''data-tooltip'' = ([], False)"
  by (simp_all add: Attr_def emoteImage_def)


lemma absoluteSource_emoteImage:
  "absoluteSource lib (emoteImage path code) = Some (''https://static-cdn.jtvnw.net/emoticons/v2/'' @ path)"
proof -
  let ?full = "''https://static-cdn.jtvnw.net/emoticons/v2/'' @ path"
  have split: "?full = ''https://'' @ ''static-cdn.jtvnw.net/emoticons/v2/'' @ path" by simp
  have marker: "Contains ?full ''static-cdn.jtvnw.net/emoticons/v2/''"
    unfolding Contains_def split by (rule sublist_appendI)
  have https: "HasPrefix ?full ''https://''"
    unfolding HasPrefix_def split by (rule prefixI) simp
  have nonempty: "?full \<noteq> []" by simp
  show ?thesis
    unfolding absoluteSource_def Attr_emoteImage Let_def prod.case
    using marker https nonempty by (simp only: simp_thms if_True if_False sum.case)
qed


lemma Split_emoteImage:
  "Split (''https://static-cdn.jtvnw.net/emoticons/v2/'' @ path) CHR ''/'' =
     [''https:'', [], ''static-cdn.jtvnw.net'', ''emoticons'', ''v2''] @ Split path CHR ''/''"
  by (cases "Split path CHR ''/''") simp_all


lemma Split_examples:
  "Split ''999/default/1.0'' CHR ''/'' = [''999'', ''default'', ''1.0'']"
  "Split ''888/default/1.0'' CHR ''/'' = [''888'', ''default'', ''1.0'']"
  "Split ''999'' CHR ''/'' = [''999'']"
  by simp_all


lemma emoteCodeOf_emoteImage:
  "emoteCodeOf (emoteImage path ''PogChamp'') emoteIdentifier = ''PogChamp''"
  "emoteCodeOf (emoteImage path ''First'') emoteIdentifier = ''First''"
  "emoteCodeOf (emoteImage path ''Second'') emoteIdentifier = ''Second''"
  "emoteCodeOf (emoteImage path '' '') emoteIdentifier = '' ''"
  by (simp_all add: emoteCodeOf_def Attr_emoteImage space_simps)


lemma imageEntry_emoteImage:
  "imageEntry lib (emoteImage ''999/default/1.0'' code) =
     Some (''999'', \<lparr>BaseURL = ''https://static-cdn.jtvnw.net/emoticons/v2/999/default'',
                      FormatType = ''default'',
                      EmoteCode = emoteCodeOf (emoteImage ''999/default/1.0'' code) ''999''\<rparr>)"
  "imageEntry lib (emoteImage ''888/default/1.0'' code) =
     Some (''888'', \<lparr>BaseURL = ''https://static-cdn.jtvnw.net/emoticons/v2/888/default'',
                      FormatType = ''default'',
                      EmoteCode = emoteCodeOf (emoteImage ''888/default/1.0'' code) ''888''\<rparr>)"
  by (simp_all add: imageEntry_def absoluteSource_emoteImage Split_emoteImage Split_examples Let_def)

lemma emoteCodeOf_cases:
  "emoteCodeOf selection emoteIdentifier =
     (let (regexValue, hasRegex) = Attr selection ''data-regex'';
          (tooltipHTML, hasTooltip) = Attr selection ''data-tooltip'';
          stripped = TrimSpace (htmlTagPattern_ReplaceAllString tooltipHTML []);
          parent = TrimSpace (parentText selection);
          fallback = (if parent \<noteq> [] then parent else emoteIdentifier) in
      if hasRegex \<and> TrimSpace regexValue \<noteq> [] then regexValue
      else if hasTooltip \<and> TrimSpace tooltipHTML \<noteq> [] then
        (if stripped \<noteq> [] then stripped else fallback)
      else if regexValue \<noteq> [] then regexValue
      else fallback)"
proof -
  have empty: "TrimSpace [] = []" by (simp add: space_simps)
  show ?thesis
    by (cases "Attr selection ''data-regex''"; cases "Attr selection ''data-tooltip''")
      (auto simp: emoteCodeOf_def Let_def empty)
qed

text \<open>
  Claim C5. For an image whose address qualifies, split at the slashes: when no part is
  \<^verbatim>\<open>emoticons\<close> the image is skipped; at the first part \<open>i\<close> that is, the image is skipped
  when fewer than three parts follow, and otherwise, the identifier being new to the map,
  the entry stored has for identifier the part two places on, for format the part three
  places on, and for base address the parts up to that one, joined by slashes.
\<close>

theorem url_segments:
  assumes "absoluteSource lib selection = Some full" and "parts = Split full CHR ''/''"
  shows
    "(''emoticons'' \<notin> set parts \<longrightarrow> collectEmoteMetadata_func lib emoteMap selection = emoteMap) \<and>
     (\<forall>i<length parts. parts ! i = ''emoticons'' \<and> (\<forall>j<i. parts ! j \<noteq> ''emoticons'') \<longrightarrow>
        (length parts \<le> i + 3 \<longrightarrow> collectEmoteMetadata_func lib emoteMap selection = emoteMap) \<and>
        (i + 3 < length parts \<and> emoteMap (parts ! (i + 2)) = None \<longrightarrow>
           (\<exists>emoteCode. collectEmoteMetadata_func lib emoteMap selection =
              emoteMap(parts ! (i + 2) \<mapsto>
                \<lparr>BaseURL = Join (take (i + 4) parts) ''/'', FormatType = parts ! (i + 3),
                 EmoteCode = emoteCode\<rparr>))))"
proof (intro conjI allI impI)
  assume "''emoticons'' \<notin> set parts"
  with assms have "imageEntry lib selection = None" by (simp add: imageEntry_absent)
  then show "collectEmoteMetadata_func lib emoteMap selection = emoteMap"
    by (simp add: func_entry)
next
  fix i
  assume i: "i < length parts" "parts ! i = ''emoticons'' \<and> (\<forall>j<i. parts ! j \<noteq> ''emoticons'')"
  note entry = imageEntry_first [OF assms i(1) conjunct1 [OF i(2)] conjunct2 [OF i(2)]]
  show "collectEmoteMetadata_func lib emoteMap selection = emoteMap" if "length parts \<le> i + 3"
    using that by (simp add: func_entry entry)
  show "\<exists>emoteCode. collectEmoteMetadata_func lib emoteMap selection =
          emoteMap(parts ! (i + 2) \<mapsto>
            \<lparr>BaseURL = Join (take (i + 4) parts) ''/'', FormatType = parts ! (i + 3),
             EmoteCode = emoteCode\<rparr>)"
    if "i + 3 < length parts \<and> emoteMap (parts ! (i + 2)) = None"
    using that
    by (intro exI [of _ "emoteCodeOf selection (parts ! (i + 2))"]) (simp add: func_entry entry)
qed
theorem url_segments_witness:
  "collectEmoteMetadata_func plainURL Map.empty (emoteImage ''999/default/1.0'' ''PogChamp'') =
     [''999'' \<mapsto> \<lparr>BaseURL = ''https://static-cdn.jtvnw.net/emoticons/v2/999/default'',
                     FormatType = ''default'', EmoteCode = ''PogChamp''\<rparr>] \<and>
   collectEmoteMetadata_func plainURL Map.empty (emoteImage ''999'' ''PogChamp'') = Map.empty"
proof -
  let ?full1 = "''https://static-cdn.jtvnw.net/emoticons/v2/999/default/1.0''"
  let ?parts1 = "[''https:'', [], ''static-cdn.jtvnw.net'', ''emoticons'', ''v2'', ''999'', ''default'', ''1.0'']"
  let ?full2 = "''https://static-cdn.jtvnw.net/emoticons/v2/999''"
  let ?parts2 = "[''https:'', [], ''static-cdn.jtvnw.net'', ''emoticons'', ''v2'', ''999'']"
  have src1: "absoluteSource plainURL (emoteImage ''999/default/1.0'' ''PogChamp'') = Some ?full1"
    by (simp add: absoluteSource_emoteImage)
  have parts1: "?parts1 = Split ?full1 CHR ''/''" by simp
  have src2: "absoluteSource plainURL (emoteImage ''999'' ''PogChamp'') = Some ?full2"
    by (simp add: absoluteSource_emoteImage)
  have parts2: "?parts2 = Split ?full2 CHR ''/''" by simp
  have i1: "3 < length ?parts1" by simp
  have at1: "?parts1 ! 3 = ''emoticons'' \<and> (\<forall>j<3. ?parts1 ! j \<noteq> ''emoticons'')"
    by (simp add: numeral_3_eq_3 less_Suc_eq)
  have i2: "3 < length ?parts2" by simp
  have at2: "?parts2 ! 3 = ''emoticons'' \<and> (\<forall>j<3. ?parts2 ! j \<noteq> ''emoticons'')"
    by (simp add: numeral_3_eq_3 less_Suc_eq)
  note r1 = url_segments [OF src1 parts1, of Map.empty, THEN conjunct2, rule_format, OF i1 at1, THEN conjunct2]
  have "3 + 3 < length ?parts1 \<and> Map.empty (?parts1 ! (3 + 2)) = None" by simp
  with r1 have "\<exists>emoteCode.
      collectEmoteMetadata_func plainURL Map.empty (emoteImage ''999/default/1.0'' ''PogChamp'') =
        Map.empty(?parts1 ! (3 + 2) \<mapsto>
          \<lparr>BaseURL = Join (take (3 + 4) ?parts1) ''/'', FormatType = ?parts1 ! (3 + 3),
           EmoteCode = emoteCode\<rparr>)"
    by (rule mp)
  then obtain emoteCode where rec:
    "collectEmoteMetadata_func plainURL Map.empty (emoteImage ''999/default/1.0'' ''PogChamp'') =
       [''999'' \<mapsto> \<lparr>BaseURL = ''https://static-cdn.jtvnw.net/emoticons/v2/999/default'',
                       FormatType = ''default'', EmoteCode = emoteCode\<rparr>]"
    by auto
  have "collectEmoteMetadata_func plainURL Map.empty (emoteImage ''999/default/1.0'' ''PogChamp'') ''999''
      = Some \<lparr>BaseURL = ''https://static-cdn.jtvnw.net/emoticons/v2/999/default'',
               FormatType = ''default'', EmoteCode = ''PogChamp''\<rparr>"
    by (simp add: func_entry imageEntry_emoteImage emoteCodeOf_emoteImage)
  with rec have "emoteCode = ''PogChamp''" by simp
  with rec have one:
    "collectEmoteMetadata_func plainURL Map.empty (emoteImage ''999/default/1.0'' ''PogChamp'') =
       [''999'' \<mapsto> \<lparr>BaseURL = ''https://static-cdn.jtvnw.net/emoticons/v2/999/default'',
                       FormatType = ''default'', EmoteCode = ''PogChamp''\<rparr>]"
    by simp
  note r2 = url_segments [OF src2 parts2, of Map.empty, THEN conjunct2, rule_format, OF i2 at2, THEN conjunct1]
  have "length ?parts2 \<le> 3 + 3" by simp
  with r2 have two: "collectEmoteMetadata_func plainURL Map.empty (emoteImage ''999'' ''PogChamp'') = Map.empty"
    by (rule mp)
  from one two show ?thesis by (rule conjI)
qed

lemma Each_lookup:
  "Each imgs (collectEmoteMetadata_func lib) m k =
     (case m k of
        Some d \<Rightarrow> Some d
      | None \<Rightarrow>
          (case find (\<lambda>sel. collectEmoteMetadata_func lib Map.empty sel k \<noteq> None) imgs of
             None \<Rightarrow> None
           | Some sel \<Rightarrow> collectEmoteMetadata_func lib Map.empty sel k))"
proof (induction imgs arbitrary: m)
  case Nil
  show ?case by (simp split: option.splits)
next
  case (Cons sel rest)
  have step: "collectEmoteMetadata_func lib m sel k =
      (case m k of Some d \<Rightarrow> Some d | None \<Rightarrow> collectEmoteMetadata_func lib Map.empty sel k)"
    by (cases "imageEntry lib sel") (auto simp: func_entry split: option.splits)
  show ?case
    by (simp add: Cons.IH step split: option.splits)
qed

text \<open>
  Claim C4. The result maps an identifier to one record, so holds it at most once; the record
  is the one of the first image, in document order, that gives this identifier, whatever
  the later images give; an identifier that no image gives is not in the result.
\<close>

theorem first_image_wins:
  "((\<forall>sel\<in>set (images doc). collectEmoteMetadata_func lib Map.empty sel emoteIdentifier = None) \<longrightarrow>
      collectEmoteMetadata lib doc emoteIdentifier = None) \<and>
   (\<forall>i<length (images doc).
      collectEmoteMetadata_func lib Map.empty (images doc ! i) emoteIdentifier \<noteq> None \<and>
      (\<forall>j<i. collectEmoteMetadata_func lib Map.empty (images doc ! j) emoteIdentifier = None) \<longrightarrow>
      collectEmoteMetadata lib doc emoteIdentifier =
        collectEmoteMetadata_func lib Map.empty (images doc ! i) emoteIdentifier)"
proof (intro conjI allI impI)
  let ?P = "\<lambda>sel. collectEmoteMetadata_func lib Map.empty sel emoteIdentifier \<noteq> None"
  assume "\<forall>sel\<in>set (images doc). collectEmoteMetadata_func lib Map.empty sel emoteIdentifier = None"
  then have "find ?P (images doc) = None" by (simp add: find_None_iff)
  then show "collectEmoteMetadata lib doc emoteIdentifier = None"
    by (simp add: collectEmoteMetadata_def Each_lookup)
next
  let ?P = "\<lambda>sel. collectEmoteMetadata_func lib Map.empty sel emoteIdentifier \<noteq> None"
  fix i
  assume "i < length (images doc)"
    and "?P (images doc ! i) \<and>
      (\<forall>j<i. collectEmoteMetadata_func lib Map.empty (images doc ! j) emoteIdentifier = None)"
  then have "find ?P (images doc) = Some (images doc ! i)"
    unfolding find_Some_iff by (intro exI [of _ i]) simp
  then show "collectEmoteMetadata lib doc emoteIdentifier =
        collectEmoteMetadata_func lib Map.empty (images doc ! i) emoteIdentifier"
    by (simp add: collectEmoteMetadata_def Each_lookup)
qed
theorem first_image_wins_witness:
  "collectEmoteMetadata plainURL
     \<lparr>cardHeader = None,
      images = [emoteImage ''888/default/1.0'' ''Other'', emoteImage ''999/default/1.0'' ''First'',
                emoteImage ''999/default/1.0'' ''Second'']\<rparr> ''999'' =
     Some \<lparr>BaseURL = ''https://static-cdn.jtvnw.net/emoticons/v2/999/default'',
            FormatType = ''default'', EmoteCode = ''First''\<rparr> \<and>
   collectEmoteMetadata plainURL
     \<lparr>cardHeader = None,
      images = [emoteImage ''888/default/1.0'' ''Other'', emoteImage ''999/default/1.0'' ''First'',
                emoteImage ''999/default/1.0'' ''Second'']\<rparr> ''777'' = None"
proof -
  let ?doc = "\<lparr>cardHeader = None,
      images = [emoteImage ''888/default/1.0'' ''Other'', emoteImage ''999/default/1.0'' ''First'',
                emoteImage ''999/default/1.0'' ''Second'']\<rparr>"
  have own:
    "collectEmoteMetadata_func plainURL Map.empty (emoteImage ''888/default/1.0'' ''Other'') ''999'' = None"
    "collectEmoteMetadata_func plainURL Map.empty (emoteImage ''999/default/1.0'' ''First'') ''999'' =
       Some \<lparr>BaseURL = ''https://static-cdn.jtvnw.net/emoticons/v2/999/default'',
              FormatType = ''default'', EmoteCode = ''First''\<rparr>"
    "collectEmoteMetadata_func plainURL Map.empty (emoteImage ''888/default/1.0'' code) ''777'' = None"
    "collectEmoteMetadata_func plainURL Map.empty (emoteImage ''999/default/1.0'' code) ''777'' = None"
    for code
    by (simp_all add: func_entry imageEntry_emoteImage emoteCodeOf_emoteImage)
  from first_image_wins [of ?doc plainURL "''999''", THEN conjunct2, rule_format, of 1] own(1,2)
  have one: "collectEmoteMetadata plainURL ?doc ''999'' =
      Some \<lparr>BaseURL = ''https://static-cdn.jtvnw.net/emoticons/v2/999/default'',
             FormatType = ''default'', EmoteCode = ''First''\<rparr>"
    by simp
  from first_image_wins [of ?doc plainURL "''777''", THEN conjunct1] own(3,4)
  have two: "collectEmoteMetadata plainURL ?doc ''777'' = None"
    by simp
  from one two show ?thesis by (rule conjI)
qed

text \<open>
  Claim C2 fails on the code. An image whose \<^verbatim>\<open>data-regex\<close> is a single space, with no
  \<^verbatim>\<open>data-tooltip\<close>, in a parent whose text is \<^verbatim>\<open>Kappa\<close>: the attribute is blank after trimming,
  so the claim gives the code \<^verbatim>\<open>Kappa\<close>; the function keeps the space, because it tests the
  value left in \<^verbatim>\<open>emoteCode\<close> against the empty string and not its trimmed form.
\<close>

theorem blank_regex_kept:
  "collectEmoteMetadata lib \<lparr>cardHeader = None, images = [emoteImage ''999/default/1.0'' '' '']\<rparr> ''999'' =
     Some \<lparr>BaseURL = ''https://static-cdn.jtvnw.net/emoticons/v2/999/default'',
            FormatType = ''default'', EmoteCode = '' ''\<rparr> \<and>
   TrimSpace '' '' = [] \<and>
   map_of (attrs (emoteImage ''999/default/1.0'' '' '')) ''data-tooltip'' = None \<and>
   TrimSpace (parentText (emoteImage ''999/default/1.0'' '' '')) = ''Kappa''"
proof -
  have "collectEmoteMetadata lib \<lparr>cardHeader = None, images = [emoteImage ''999/default/1.0'' '' '']\<rparr> ''999'' =
     Some \<lparr>BaseURL = ''https://static-cdn.jtvnw.net/emoticons/v2/999/default'',
            FormatType = ''default'', EmoteCode = '' ''\<rparr>"
    by (simp add: collectEmoteMetadata_def func_entry imageEntry_emoteImage emoteCodeOf_emoteImage)
  moreover have "TrimSpace '' '' = []" by (simp add: space_simps)
  moreover have "map_of (attrs (emoteImage ''999/default/1.0'' '' '')) ''data-tooltip'' = None"
    by (simp add: emoteImage_def)
  moreover have "TrimSpace (parentText (emoteImage ''999/default/1.0'' '' '')) = ''Kappa''"
    by (simp add: emoteImage_def space_simps)
  ultimately show ?thesis by blast
qed

subsection \<open>Downloading\<close>

lemma sizeLine_ok:
  "sizeLine os b s f v (''[ok] '' @ s @ ''_'' @ v @ ''.'' @ ext @ newline)"
  unfolding sizeLine_def by blast

lemma sizeLine_url:
  "sizeLine os b s f v (''[skip] '' @ b @ ''/light/'' @ v @ '' ('' @ why @ '')'' @ newline)"
  unfolding sizeLine_def by blast

lemma sizeLine_path:
  "sizeLine os b s f v
     (''[skip] '' @ filepath_Join os f (s @ ''_'' @ v @ ''.'' @ ext) @ '' ('' @ why @ '')'' @ newline)"
  unfolding sizeLine_def by blast

lemma body_line:
  "\<exists>line. stdout (downloadEmoteImages_body httpClient os b s f v st) = stdout st @ [line] \<and>
          sizeLine os b s f v line"
proof (cases "NewRequest httpClient ''GET'' (b @ ''/light/'' @ v)")
  case (Some err)
  then have "stdout (downloadEmoteImages_body httpClient os b s f v st) =
      stdout st @ [''[skip] '' @ b @ ''/light/'' @ v @ '' ('' @ err @ '')'' @ newline]"
    by (simp add: downloadEmoteImages_body_def Printf_def)
  with sizeLine_url show ?thesis by blast
next
  case None
  let ?req = "\<lparr>Method = ''GET'', URL = b @ ''/light/'' @ v, ReqBody = [],
                ReqHeader = [(''User-Agent'', defaultUserAgent)]\<rparr>"
  obtain r w1 where do: "Do httpClient ?req (world st) = (r, w1)"
    by (cases "Do httpClient ?req (world st)")
  show ?thesis
  proof (cases r)
    case (Inl err)
    with None do have "stdout (downloadEmoteImages_body httpClient os b s f v st) =
        stdout st @ [''[skip] '' @ b @ ''/light/'' @ v @ '' ('' @ err @ '')'' @ newline]"
      by (simp add: downloadEmoteImages_body_def Printf_def)
    with sizeLine_url show ?thesis by blast
  next
    case (Inr response)
    show ?thesis
    proof (cases "StatusCode response \<noteq> 200")
      case True
      with None do Inr have "stdout (downloadEmoteImages_body httpClient os b s f v st) =
          stdout st @ [''[skip] '' @ b @ ''/light/'' @ v @ '' ('' @ (''status '' @ Status response) @ '')'' @ newline]"
        by (simp add: downloadEmoteImages_body_def Printf_def Let_def)
      with sizeLine_url show ?thesis by blast
    next
      case False
      let ?ext = "determineFileExtension (Map_ToLower os) (ContentType response)"
      let ?path = "filepath_Join os f (s @ ''_'' @ v @ ''.'' @ ?ext)"
      obtain c w2 where create: "Create os ?path w1 = (c, w2)"
        by (cases "Create os ?path w1")
      show ?thesis
      proof (cases c)
        case (Some err)
        with None do Inr False create have "stdout (downloadEmoteImages_body httpClient os b s f v st) =
            stdout st @ [''[skip] '' @ ?path @ '' ('' @ (''cannot create file: '' @ err) @ '')'' @ newline]"
          by (simp add: downloadEmoteImages_body_def Printf_def Let_def)
        with sizeLine_path show ?thesis by blast
      next
        case None': None
        obtain e w3 where copy: "Copy os ?path response w2 = (e, w3)"
          by (cases "Copy os ?path response w2")
        show ?thesis
        proof (cases e)
          case (Some err)
          with None do Inr False create None' copy
          have "stdout (downloadEmoteImages_body httpClient os b s f v st) =
              stdout st @ [''[skip] '' @ ?path @ '' ('' @ (''copy error: '' @ err) @ '')'' @ newline]"
            by (simp add: downloadEmoteImages_body_def Printf_def Let_def)
          with sizeLine_path show ?thesis by blast
        next
          case None'': None
          with None do Inr False create None' copy
          have "stdout (downloadEmoteImages_body httpClient os b s f v st) =
              stdout st @ [''[ok] '' @ s @ ''_'' @ v @ ''.'' @ ?ext @ newline]"
            by (simp add: downloadEmoteImages_body_def Printf_def Let_def)
          with sizeLine_ok show ?thesis by blast
        qed
      qed
    qed
  qed
qed

lemma size_failure_logged:
  "(NewRequest httpClient ''GET'' (b @ ''/light/'' @ v) = Some err \<longrightarrow>
      stdout (downloadEmoteImages_body httpClient os b s f v st) =
        stdout st @ [''[skip] '' @ b @ ''/light/'' @ v @ '' ('' @ err @ '')'' @ newline]) \<and>
   (NewRequest httpClient ''GET'' (b @ ''/light/'' @ v) = None \<and>
    Do httpClient \<lparr>Method = ''GET'', URL = b @ ''/light/'' @ v, ReqBody = [],
                   ReqHeader = [(''User-Agent'', defaultUserAgent)]\<rparr> (world st) = (r, w1) \<longrightarrow>
      (r = Inl err \<longrightarrow>
         stdout (downloadEmoteImages_body httpClient os b s f v st) =
           stdout st @ [''[skip] '' @ b @ ''/light/'' @ v @ '' ('' @ err @ '')'' @ newline]) \<and>
      (r = Inr response \<and> StatusCode response \<noteq> 200 \<longrightarrow>
         stdout (downloadEmoteImages_body httpClient os b s f v st) =
           stdout st @ [''[skip] '' @ b @ ''/light/'' @ v @ '' (status '' @ Status response @ '')'' @ newline]) \<and>
      (r = Inr response \<and> StatusCode response = 200 \<and>
       path = filepath_Join os f
                (s @ ''_'' @ v @ ''.'' @ determineFileExtension (Map_ToLower os) (ContentType response)) \<and>
       Create os path w1 = (c, w2) \<longrightarrow>
         (c = Some err \<longrightarrow>
            stdout (downloadEmoteImages_body httpClient os b s f v st) =
              stdout st @ [''[skip] '' @ path @ '' (cannot create file: '' @ err @ '')'' @ newline]) \<and>
         (c = None \<and> Copy os path response w2 = (Some err, w3) \<longrightarrow>
            stdout (downloadEmoteImages_body httpClient os b s f v st) =
              stdout st @ [''[skip] '' @ path @ '' (copy error: '' @ err @ '')'' @ newline])))"
  by (auto simp: downloadEmoteImages_body_def Printf_def Let_def)

lemma stdout_world_update: "stdout (st\<lparr>world := w\<rparr>) = stdout st"
  by simp

lemma loop_three_lines:
  "\<exists>l1 l2 l3.
     stdout (downloadEmoteImages_loop emoteSizeList (downloadEmoteImages_body httpClient os b s f) st) =
       stdout st @ [l1, l2, l3] \<and>
     sizeLine os b s f ''1.0'' l1 \<and> sizeLine os b s f ''2.0'' l2 \<and> sizeLine os b s f ''3.0'' l3"
proof -
  let ?body = "downloadEmoteImages_body httpClient os b s f"
  let ?st1 = "?body ''1.0'' st"
  let ?st2 = "?body ''2.0'' ?st1"
  let ?st3 = "?body ''3.0'' ?st2"
  from body_line [of httpClient os b s f "''1.0''" st] obtain l1 where
    l1: "stdout ?st1 = stdout st @ [l1]" "sizeLine os b s f ''1.0'' l1" by blast
  from body_line [of httpClient os b s f "''2.0''" ?st1] obtain l2 where
    l2: "stdout ?st2 = stdout ?st1 @ [l2]" "sizeLine os b s f ''2.0'' l2" by blast
  from body_line [of httpClient os b s f "''3.0''" ?st2] obtain l3 where
    l3: "stdout ?st3 = stdout ?st2 @ [l3]" "sizeLine os b s f ''3.0'' l3" by blast
  have "downloadEmoteImages_loop emoteSizeList ?body st = ?st3"
    by (simp add: emoteSizeList_def)
  with l1 l2 l3 show ?thesis by simp
qed

lemma downloadEmoteImages_block:
  "\<exists>lines.
     stdout (downloadEmoteImages httpClient os emoteIdentifier emoteData outputRoot
               (Printf (''Downloading sizes for emote: '' @ EmoteCode emoteData @
                        '' ('' @ emoteIdentifier @ '')'' @ newline) st)) =
       stdout st @ lines \<and>
     emoteBlock os outputRoot (emoteIdentifier, emoteData) lines"
proof -
  let ?heading = "''Downloading sizes for emote: '' @ EmoteCode emoteData @
                  '' ('' @ emoteIdentifier @ '')'' @ newline"
  let ?st = "Printf ?heading st"
  let ?safe = "makeSafeName (EmoteCode emoteData)"
  let ?folder = "filepath_Join os outputRoot ?safe"
  have out: "stdout ?st = stdout st @ [?heading]" by (simp add: Printf_def)
  obtain e w1 where mk: "MkdirAll os ?folder (world ?st) = (e, w1)"
    by (cases "MkdirAll os ?folder (world ?st)")
  show ?thesis
  proof (cases e)
    case (Some err)
    with mk have "stdout (downloadEmoteImages httpClient os emoteIdentifier emoteData outputRoot ?st) =
        stdout st @ [?heading, ''[error] cannot create folder '' @ ?folder @ '': '' @ err @ newline]"
      by (simp add: downloadEmoteImages_def Let_def Printf_def)
    moreover have "emoteBlock os outputRoot (emoteIdentifier, emoteData)
        [?heading, ''[error] cannot create folder '' @ ?folder @ '': '' @ err @ newline]"
      unfolding emoteBlock_def Let_def fst_conv snd_conv by blast
    ultimately show ?thesis by blast
  next
    case None
    with mk have run: "downloadEmoteImages httpClient os emoteIdentifier emoteData outputRoot ?st =
        downloadEmoteImages_loop emoteSizeList
          (downloadEmoteImages_body httpClient os (BaseURL emoteData) ?safe ?folder)
          (?st\<lparr>world := w1\<rparr>)"
      by (simp add: downloadEmoteImages_def Let_def)
    from loop_three_lines [of httpClient os "BaseURL emoteData" ?safe ?folder "?st\<lparr>world := w1\<rparr>"]
    obtain l1 l2 l3 where
      l: "stdout (downloadEmoteImages_loop emoteSizeList
            (downloadEmoteImages_body httpClient os (BaseURL emoteData) ?safe ?folder)
            (?st\<lparr>world := w1\<rparr>)) = stdout (?st\<lparr>world := w1\<rparr>) @ [l1, l2, l3]"
        "sizeLine os (BaseURL emoteData) ?safe ?folder ''1.0'' l1"
        "sizeLine os (BaseURL emoteData) ?safe ?folder ''2.0'' l2"
        "sizeLine os (BaseURL emoteData) ?safe ?folder ''3.0'' l3"
      by blast
    from run l(1) out
    have "stdout (downloadEmoteImages httpClient os emoteIdentifier emoteData outputRoot ?st) =
        stdout st @ [?heading, l1, l2, l3]"
      by simp
    moreover from l(2-4) have "emoteBlock os outputRoot (emoteIdentifier, emoteData) [?heading, l1, l2, l3]"
      unfolding emoteBlock_def Let_def fst_conv snd_conv by blast
    ultimately show ?thesis by blast
  qed
qed

lemma emotes_loop_blocks:
  "\<exists>blocks.
     stdout (downloadChannelEmotes_loop httpClient os outputRoot entries st) = stdout st @ concat blocks \<and>
     list_all2 (emoteBlock os outputRoot) entries blocks"
proof (induction entries arbitrary: st)
  case Nil
  have "stdout (downloadChannelEmotes_loop httpClient os outputRoot [] st) = stdout st @ concat []"
    by simp
  moreover have "list_all2 (emoteBlock os outputRoot) [] []" by simp
  ultimately show ?case by blast
next
  case (Cons entry rest)
  obtain emoteIdentifier emoteData where entry: "entry = (emoteIdentifier, emoteData)"
    by (cases entry)
  let ?st1 = "downloadEmoteImages httpClient os emoteIdentifier emoteData outputRoot
      (Printf (''Downloading sizes for emote: '' @ EmoteCode emoteData @
               '' ('' @ emoteIdentifier @ '')'' @ newline) st)"
  from downloadEmoteImages_block [of httpClient os emoteIdentifier emoteData outputRoot st]
  obtain block where block: "stdout ?st1 = stdout st @ block"
      "emoteBlock os outputRoot (emoteIdentifier, emoteData) block"
    by blast
  from Cons.IH [of ?st1] obtain blocks where blocks:
    "stdout (downloadChannelEmotes_loop httpClient os outputRoot rest ?st1) = stdout ?st1 @ concat blocks"
    "list_all2 (emoteBlock os outputRoot) rest blocks"
    by blast
  have "stdout (downloadChannelEmotes_loop httpClient os outputRoot (entry # rest) st) =
      stdout st @ concat (block # blocks)"
    using block(1) blocks(1) by (simp add: entry)
  moreover have "list_all2 (emoteBlock os outputRoot) (entry # rest) (block # blocks)"
    using block(2) blocks(2) by (simp add: entry)
  ultimately show ?case by blast
qed

lemma run_returns_nil:
  assumes "fetchDocument httpClient os (twitchemotesBaseURL @ ''/channels/'' @ channelID) (world st) =
             (Inr (doc, response), w1)"
    and "StatusCode response = 200"
    and "MkdirAll os
           (if makeSafeName (getChannelDisplayName doc) = ''unknown'' then makeSafeName channelID
            else makeSafeName (getChannelDisplayName doc)) w1 = (None, w2)"
  shows "fst (downloadChannelEmotes httpClient os channelID st) = None"
  using assms by (simp add: downloadChannelEmotes_def Let_def)

lemma downloadEmoteImages_three_lines:
  assumes "MkdirAll os (filepath_Join os outputRoot (makeSafeName (EmoteCode emoteData))) (world st) = (None, w1)"
  shows "\<exists>l1 l2 l3.
     stdout (downloadEmoteImages httpClient os emoteIdentifier emoteData outputRoot st) =
       stdout st @ [l1, l2, l3] \<and>
     sizeLine os (BaseURL emoteData) (makeSafeName (EmoteCode emoteData))
       (filepath_Join os outputRoot (makeSafeName (EmoteCode emoteData))) ''1.0'' l1 \<and>
     sizeLine os (BaseURL emoteData) (makeSafeName (EmoteCode emoteData))
       (filepath_Join os outputRoot (makeSafeName (EmoteCode emoteData))) ''2.0'' l2 \<and>
     sizeLine os (BaseURL emoteData) (makeSafeName (EmoteCode emoteData))
       (filepath_Join os outputRoot (makeSafeName (EmoteCode emoteData))) ''3.0'' l3"
proof -
  let ?safe = "makeSafeName (EmoteCode emoteData)"
  let ?folder = "filepath_Join os outputRoot ?safe"
  from assms have run: "downloadEmoteImages httpClient os emoteIdentifier emoteData outputRoot st =
      downloadEmoteImages_loop emoteSizeList
        (downloadEmoteImages_body httpClient os (BaseURL emoteData) ?safe ?folder)
        (st\<lparr>world := w1\<rparr>)"
    by (simp add: downloadEmoteImages_def Let_def)
  from loop_three_lines [of httpClient os "BaseURL emoteData" ?safe ?folder "st\<lparr>world := w1\<rparr>"]
  show ?thesis unfolding run by simp
qed

subsection \<open>Every size attempted, every emote processed\<close>

text \<open>
  The loop body of \<^verbatim>\<open>downloadEmoteImages\<close> is an attempt, and the only one from a given
  state; a download is the folder and the three attempts; the loop over the emotes processes
  each of them.
\<close>

lemma body_sizeAttempt:
  "sizeAttempt httpClient os b s f v st (downloadEmoteImages_body httpClient os b s f v st)"
proof (cases "NewRequest httpClient ''GET'' (b @ ''/light/'' @ v)")
  case (Some err)
  then have "downloadEmoteImages_body httpClient os b s f v st =
      st\<lparr>stdout := stdout st @ [''[skip] '' @ b @ ''/light/'' @ v @ '' ('' @ err @ '')'' @ newline]\<rparr>"
    by (simp add: downloadEmoteImages_body_def Printf_def)
  with request_fails [OF Some] show ?thesis by simp
next
  case None
  let ?req = "\<lparr>Method = ''GET'', URL = b @ ''/light/'' @ v, ReqBody = [],
                ReqHeader = [(''User-Agent'', defaultUserAgent)]\<rparr>"
  obtain r w1 where do: "Do httpClient ?req (world st) = (r, w1)"
    by (cases "Do httpClient ?req (world st)")
  show ?thesis
  proof (cases r)
    case (Inl err)
    with None do have "downloadEmoteImages_body httpClient os b s f v st =
        st\<lparr>world := w1,
           stdout := stdout st @ [''[skip] '' @ b @ ''/light/'' @ v @ '' ('' @ err @ '')'' @ newline]\<rparr>"
      by (simp add: downloadEmoteImages_body_def Printf_def)
    with transport_fails [OF None do [unfolded Inl]] show ?thesis by simp
  next
    case (Inr response)
    note do' = do [unfolded Inr]
    show ?thesis
    proof (cases "StatusCode response \<noteq> 200")
      case True
      with None do Inr have "downloadEmoteImages_body httpClient os b s f v st =
          st\<lparr>world := Body_Close httpClient response w1,
             stdout := stdout st @
               [''[skip] '' @ b @ ''/light/'' @ v @ '' (status '' @ Status response @ '')'' @ newline]\<rparr>"
        by (simp add: downloadEmoteImages_body_def Printf_def Let_def)
      with status_fails [OF None do' True] show ?thesis by simp
    next
      case False
      then have ok: "StatusCode response = 200" by simp
      let ?name = "s @ ''_'' @ v @ ''.'' @ determineFileExtension (Map_ToLower os) (ContentType response)"
      let ?path = "filepath_Join os f ?name"
      obtain c w2 where create: "Create os ?path w1 = (c, w2)"
        by (cases "Create os ?path w1")
      show ?thesis
      proof (cases c)
        case (Some err)
        with None do Inr ok create have "downloadEmoteImages_body httpClient os b s f v st =
            st\<lparr>world := Body_Close httpClient response w2,
               stdout := stdout st @
                 [''[skip] '' @ ?path @ '' (cannot create file: '' @ err @ '')'' @ newline]\<rparr>"
          by (simp add: downloadEmoteImages_body_def Printf_def Let_def)
        with create_fails [OF None do' ok refl create [unfolded Some]] show ?thesis by simp
      next
        case None': None
        note create' = create [unfolded None']
        obtain e w3 where copy: "Copy os ?path response w2 = (e, w3)"
          by (cases "Copy os ?path response w2")
        show ?thesis
        proof (cases e)
          case (Some err)
          with None do Inr ok create None' copy
          have "downloadEmoteImages_body httpClient os b s f v st =
              st\<lparr>world := Body_Close httpClient response (File_Close os ?path w3),
                 stdout := stdout st @
                   [''[skip] '' @ ?path @ '' (copy error: '' @ err @ '')'' @ newline]\<rparr>"
            by (simp add: downloadEmoteImages_body_def Printf_def Let_def)
          with copy_fails [OF None do' ok refl create' copy [unfolded Some]] show ?thesis by simp
        next
          case None'': None
          with None do Inr ok create None' copy
          have "downloadEmoteImages_body httpClient os b s f v st =
              st\<lparr>world := Body_Close httpClient response (File_Close os ?path w3),
                 stdout := stdout st @ [''[ok] '' @ ?name @ newline]\<rparr>"
            by (simp add: downloadEmoteImages_body_def Printf_def Let_def)
          with written [OF None do' ok refl refl create' copy [unfolded None'']] show ?thesis by simp
        qed
      qed
    qed
  qed
qed

lemma sizeAttempt_body:
  assumes "sizeAttempt httpClient os b s f v st st'"
  shows "st' = downloadEmoteImages_body httpClient os b s f v st"
  using assms
proof cases
  case (request_fails err)
  then show ?thesis by (simp add: downloadEmoteImages_body_def Printf_def)
next
  case (transport_fails err w1)
  then show ?thesis by (simp add: downloadEmoteImages_body_def Printf_def)
next
  case (status_fails response w1)
  then show ?thesis by (simp add: downloadEmoteImages_body_def Printf_def Let_def)
next
  case (create_fails response w1 outputPath err w2)
  then show ?thesis by (simp add: downloadEmoteImages_body_def Printf_def Let_def)
next
  case (copy_fails response w1 outputPath w2 err w3)
  then show ?thesis by (simp add: downloadEmoteImages_body_def Printf_def Let_def)
next
  case (written response w1 outputFilename outputPath w2 w3)
  then show ?thesis by (simp add: downloadEmoteImages_body_def Printf_def Let_def)
qed

lemma downloadEmoteImages_emoteDownload:
  "emoteDownload httpClient os emoteData outputRoot st
     (downloadEmoteImages httpClient os emoteIdentifier emoteData outputRoot st)"
proof -
  let ?safe = "makeSafeName (EmoteCode emoteData)"
  let ?folder = "filepath_Join os outputRoot ?safe"
  let ?body = "downloadEmoteImages_body httpClient os (BaseURL emoteData) ?safe ?folder"
  obtain e w1 where mk: "MkdirAll os ?folder (world st) = (e, w1)"
    by (cases "MkdirAll os ?folder (world st)")
  show ?thesis
  proof (cases e)
    case (Some err)
    with mk have "downloadEmoteImages httpClient os emoteIdentifier emoteData outputRoot st =
        st\<lparr>world := w1,
           stdout := stdout st @ [''[error] cannot create folder '' @ ?folder @ '': '' @ err @ newline]\<rparr>"
      by (simp add: downloadEmoteImages_def Let_def Printf_def)
    with folder_fails [OF refl mk [unfolded Some], of httpClient] show ?thesis by simp
  next
    case None
    let ?st0 = "st\<lparr>world := w1\<rparr>"
    let ?st1 = "?body ''1.0'' ?st0"
    let ?st2 = "?body ''2.0'' ?st1"
    let ?st3 = "?body ''3.0'' ?st2"
    from mk None have "downloadEmoteImages httpClient os emoteIdentifier emoteData outputRoot st = ?st3"
      by (simp add: downloadEmoteImages_def Let_def emoteSizeList_def)
    moreover have "emoteDownload httpClient os emoteData outputRoot st ?st3"
      using refl refl mk [unfolded None]
        body_sizeAttempt [of httpClient os "BaseURL emoteData" ?safe ?folder "''1.0''" ?st0]
        body_sizeAttempt [of httpClient os "BaseURL emoteData" ?safe ?folder "''2.0''" ?st1]
        body_sizeAttempt [of httpClient os "BaseURL emoteData" ?safe ?folder "''3.0''" ?st2]
      by (rule sizes_attempted)
    ultimately show ?thesis by simp
  qed
qed

lemma emoteDownload_downloadEmoteImages:
  assumes "emoteDownload httpClient os emoteData outputRoot st st'"
  shows "st' = downloadEmoteImages httpClient os emoteIdentifier emoteData outputRoot st"
  using assms
proof cases
  case (folder_fails emoteFolder err w1)
  then show ?thesis by (simp add: downloadEmoteImages_def Let_def Printf_def)
next
  case (sizes_attempted safeEmoteCode emoteFolder w1 st1 st2)
  from sizes_attempted(4) have st1: "st1 = downloadEmoteImages_body httpClient os (BaseURL emoteData)
      safeEmoteCode emoteFolder ''1.0'' (st\<lparr>world := w1\<rparr>)"
    by (rule sizeAttempt_body)
  from sizes_attempted(5) have st2: "st2 = downloadEmoteImages_body httpClient os (BaseURL emoteData)
      safeEmoteCode emoteFolder ''2.0'' st1"
    by (rule sizeAttempt_body)
  from sizes_attempted(6) have st3: "st' = downloadEmoteImages_body httpClient os (BaseURL emoteData)
      safeEmoteCode emoteFolder ''3.0'' st2"
    by (rule sizeAttempt_body)
  from sizes_attempted(1-3) st1 st2 st3 show ?thesis
    by (simp add: downloadEmoteImages_def Let_def emoteSizeList_def)
qed

lemma three_sizes_attempted:
  assumes "MkdirAll os (filepath_Join os outputRoot (makeSafeName (EmoteCode emoteData))) (world st) = (None, w0)"
  shows "\<exists>st1 st2.
     sizeAttempt httpClient os (BaseURL emoteData) (makeSafeName (EmoteCode emoteData))
       (filepath_Join os outputRoot (makeSafeName (EmoteCode emoteData))) ''1.0'' (st\<lparr>world := w0\<rparr>) st1 \<and>
     sizeAttempt httpClient os (BaseURL emoteData) (makeSafeName (EmoteCode emoteData))
       (filepath_Join os outputRoot (makeSafeName (EmoteCode emoteData))) ''2.0'' st1 st2 \<and>
     sizeAttempt httpClient os (BaseURL emoteData) (makeSafeName (EmoteCode emoteData))
       (filepath_Join os outputRoot (makeSafeName (EmoteCode emoteData))) ''3.0'' st2
       (downloadEmoteImages httpClient os emoteIdentifier emoteData outputRoot st)"
  using downloadEmoteImages_emoteDownload [of httpClient os emoteData outputRoot st emoteIdentifier]
proof cases
  case (folder_fails emoteFolder err w1)
  with assms show ?thesis by simp
next
  case (sizes_attempted safeEmoteCode emoteFolder w1 st1 st2)
  with assms show ?thesis by auto
qed

lemma loop_emotesProcessed:
  "emotesProcessed httpClient os outputRoot entries st
     (downloadChannelEmotes_loop httpClient os outputRoot entries st)"
proof (induction entries arbitrary: st)
  case Nil
  show ?case by (simp add: no_emote)
next
  case (Cons entry rest)
  obtain emoteIdentifier emoteData where entry: "entry = (emoteIdentifier, emoteData)"
    by (cases entry)
  let ?heading = "''Downloading sizes for emote: '' @ EmoteCode emoteData @
                  '' ('' @ emoteIdentifier @ '')'' @ newline"
  let ?st0 = "st\<lparr>stdout := stdout st @ [?heading]\<rparr>"
  let ?st1 = "downloadEmoteImages httpClient os emoteIdentifier emoteData outputRoot ?st0"
  have "emotesProcessed httpClient os outputRoot ((emoteIdentifier, emoteData) # rest) st
      (downloadChannelEmotes_loop httpClient os outputRoot rest ?st1)"
    using downloadEmoteImages_emoteDownload [of httpClient os emoteData outputRoot ?st0 emoteIdentifier]
      Cons.IH [of ?st1]
    by (rule next_emote)
  then show ?case by (simp add: entry Printf_def)
qed

lemma emotesProcessed_loop:
  assumes "emotesProcessed httpClient os outputRoot entries st st'"
  shows "st' = downloadChannelEmotes_loop httpClient os outputRoot entries st"
  using assms
proof induction
  case (no_emote st)
  show ?case by simp
next
  case (next_emote emoteData st emoteIdentifier st1 rest st2)
  from next_emote(1) have "st1 = downloadEmoteImages httpClient os emoteIdentifier emoteData outputRoot
      (st\<lparr>stdout := stdout st @
          [''Downloading sizes for emote: '' @ EmoteCode emoteData @
           '' ('' @ emoteIdentifier @ '')'' @ newline]\<rparr>)"
    by (rule emoteDownload_downloadEmoteImages)
  with next_emote(3) show ?case by (simp add: Printf_def)
qed

lemma next_emote_from:
  assumes "emoteDownload httpClient os emoteData outputRoot
       \<lparr>world = w, stdout = out @ [''Downloading sizes for emote: '' @ EmoteCode emoteData @
                                  '' ('' @ emoteIdentifier @ '')'' @ newline]\<rparr> st1"
    and "emotesProcessed httpClient os outputRoot rest st1 st2"
  shows "emotesProcessed httpClient os outputRoot ((emoteIdentifier, emoteData) # rest)
       \<lparr>world = w, stdout = out\<rparr> st2"
  using next_emote [of httpClient os emoteData outputRoot "\<lparr>world = w, stdout = out\<rparr>" emoteIdentifier st1 rest st2]
    assms
  by simp

lemma run_processes_emotes:
  assumes fetch: "fetchDocument httpClient os (twitchemotesBaseURL @ ''/channels/'' @ channelID) (world st) =
             (Inr (doc, response), w1)"
    and status: "StatusCode response = 200"
    and root: "outputRoot = (if makeSafeName (getChannelDisplayName doc) = ''unknown''
                        then makeSafeName channelID else makeSafeName (getChannelDisplayName doc))"
    and mk: "MkdirAll os outputRoot w1 = (None, w2)"
    and m: "emoteMap = collectEmoteMetadata (net_url os) doc"
  shows "\<exists>st6.
     emotesProcessed httpClient os outputRoot
       (if card (dom emoteMap) = 0 then [] else mapRange os emoteMap)
       (st\<lparr>world := w2,
           stdout := stdout st @ [''Channel ID: '' @ channelID @ newline] @
             (if getChannelDisplayName doc \<noteq> []
              then [''Channel Name: '' @ getChannelDisplayName doc @ newline] else []) @
             [''Output Folder: '' @ outputRoot @ newline,
              ''Collecting emote metadata...'' @ newline,
              ''Found '' @ Sprintf_d (card (dom emoteMap)) @ '' emotes'' @ newline]\<rparr>) st6 \<and>
     downloadChannelEmotes httpClient os channelID st =
       (None, st6\<lparr>world := Body_Close httpClient response (world st6)\<rparr>)"
proof -
  let ?entries = "if card (dom emoteMap) = 0 then [] else mapRange os emoteMap"
  let ?st5 = "st\<lparr>world := w2,
           stdout := stdout st @ [''Channel ID: '' @ channelID @ newline] @
             (if getChannelDisplayName doc \<noteq> []
              then [''Channel Name: '' @ getChannelDisplayName doc @ newline] else []) @
             [''Output Folder: '' @ outputRoot @ newline,
              ''Collecting emote metadata...'' @ newline,
              ''Found '' @ Sprintf_d (card (dom emoteMap)) @ '' emotes'' @ newline]\<rparr>"
  let ?st6 = "downloadChannelEmotes_loop httpClient os outputRoot ?entries ?st5"
  have "emotesProcessed httpClient os outputRoot ?entries ?st5 ?st6"
    by (rule loop_emotesProcessed)
  moreover have "downloadChannelEmotes httpClient os channelID st =
       (None, ?st6\<lparr>world := Body_Close httpClient response (world ?st6)\<rparr>)"
    using fetch status mk [unfolded root]
    unfolding root m
    by (simp add: downloadChannelEmotes_def Let_def Printf_def)
  ultimately show ?thesis by blast
qed

subsection \<open>The example: a size answered with status 404\<close>

text \<open>
  On the example client and file system: a size other than the one answered with status 404
  is written, with its five calls in order; the size answered with status 404 is skipped
  after its request, and its body closed; the emote of the example page gets its folder and
  its three attempts, the second skipped; and the emote after it is processed in full.
\<close>

lemma makeSafeName_examples:
  "makeSafeName ''PogChamp'' = ''PogChamp''"
  "makeSafeName ''Kappa'' = ''Kappa''"
  "makeSafeName ''12345'' = ''12345''"
  "makeSafeName [] = ''unknown''"
  by (simp_all add: makeSafeName_def space_simps safeNameChar_def)

lemma example_page:
  "collectEmoteMetadata plainURL \<lparr>cardHeader = None, images = [emoteImage ''999/default/1.0'' ''PogChamp'']\<rparr> =
     [''999'' \<mapsto> pogChamp]"
  by (simp add: collectEmoteMetadata_def func_entry imageEntry_emoteImage emoteCodeOf_emoteImage pogChamp_def)

lemma Sprintf_d_1: "Sprintf_d (Suc 0) = ''1''"
  by (subst Sprintf_d.simps) (simp add: char_of_eq_iff)

lemma example_written:
  assumes other: "b @ ''/light/'' @ v \<noteq> ''https://static-cdn.jtvnw.net/emoticons/v2/999/default/light/2.0''"
  shows "sizeAttempt sizeClient diskLibs b s f v \<lparr>world = w, stdout = out\<rparr>
     \<lparr>world = w @ [''GET '' @ b @ ''/light/'' @ v,
                   ''create '' @ f @ ''/'' @ s @ ''_'' @ v @ ''.png'',
                   ''copy '' @ f @ ''/'' @ s @ ''_'' @ v @ ''.png'',
                   ''close '' @ f @ ''/'' @ s @ ''_'' @ v @ ''.png'',
                   ''close '' @ b @ ''/light/'' @ v],
      stdout = out @ [''[ok] '' @ s @ ''_'' @ v @ ''.png'' @ newline]\<rparr>"
proof -
  let ?url = "b @ ''/light/'' @ v"
  let ?response = "\<lparr>Request_URL = ?url, StatusCode = 200, Status = ''200 OK'',
                     ContentType = ''image/png'', Body = Inr []\<rparr>"
  let ?name = "s @ ''_'' @ v @ ''.'' @ determineFileExtension (Map_ToLower diskLibs) (ContentType ?response)"
  let ?path = "filepath_Join diskLibs f ?name"
  have request: "NewRequest sizeClient ''GET'' ?url = None"
    by (simp add: sizeClient_def)
  have do: "Do sizeClient \<lparr>Method = ''GET'', URL = ?url, ReqBody = [],
                ReqHeader = [(''User-Agent'', defaultUserAgent)]\<rparr> (world \<lparr>world = w, stdout = out\<rparr>) =
      (Inr ?response, w @ [''GET '' @ ?url])"
    using other by (simp add: sizeClient_def)
  have status: "StatusCode ?response = 200" by simp
  have create: "Create diskLibs ?path (w @ [''GET '' @ ?url]) =
      (None, w @ [''GET '' @ ?url, ''create '' @ ?path])"
    by (simp add: diskLibs_def)
  have copy: "Copy diskLibs ?path ?response (w @ [''GET '' @ ?url, ''create '' @ ?path]) =
      (None, w @ [''GET '' @ ?url, ''create '' @ ?path, ''copy '' @ ?path])"
    by (simp add: diskLibs_def)
  have ext: "determineFileExtension (Map_ToLower diskLibs) ''image/png'' = ''png''"
    by (simp add: ext_simps)
  have join: "filepath_Join diskLibs d n = d @ ''/'' @ n" for d n
    by (simp add: diskLibs_def)
  have closes: "Body_Close sizeClient r (File_Close diskLibs p x) =
      x @ [''close '' @ p, ''close '' @ Request_URL r]" for r p x
    by (simp add: sizeClient_def diskLibs_def)
  from written [OF request do status refl refl create copy]
  show ?thesis
    by (simp add: closes join ext)
qed

lemma example_status:
  "sizeAttempt sizeClient diskLibs ''https://static-cdn.jtvnw.net/emoticons/v2/999/default'' s f ''2.0''
     \<lparr>world = w, stdout = out\<rparr>
     \<lparr>world = w @ [''GET https://static-cdn.jtvnw.net/emoticons/v2/999/default/light/2.0'',
                   ''close https://static-cdn.jtvnw.net/emoticons/v2/999/default/light/2.0''],
      stdout = out @
        [''[skip] https://static-cdn.jtvnw.net/emoticons/v2/999/default/light/2.0 (status 404 Not Found)'' @
         newline]\<rparr>"
proof -
  let ?b = "''https://static-cdn.jtvnw.net/emoticons/v2/999/default''"
  let ?url = "?b @ ''/light/'' @ ''2.0''"
  let ?response = "\<lparr>Request_URL = ?url, StatusCode = 404, Status = ''404 Not Found'',
                     ContentType = ''text/plain'', Body = Inr []\<rparr>"
  have request: "NewRequest sizeClient ''GET'' ?url = None"
    by (simp add: sizeClient_def)
  have do: "Do sizeClient \<lparr>Method = ''GET'', URL = ?url, ReqBody = [],
                ReqHeader = [(''User-Agent'', defaultUserAgent)]\<rparr> (world \<lparr>world = w, stdout = out\<rparr>) =
      (Inr ?response, w @ [''GET '' @ ?url])"
    by (simp add: sizeClient_def)
  have status: "StatusCode ?response \<noteq> 200" by simp
  have close: "Body_Close sizeClient r x = x @ [''close '' @ Request_URL r]" for r x
    by (simp add: sizeClient_def)
  from status_fails [where os = diskLibs and safeEmoteCode = s and emoteFolder = f, OF request do status]
  show ?thesis
    by (simp add: close)
qed

lemma example_emote:
  "emoteDownload sizeClient diskLibs pogChamp ''12345'' \<lparr>world = w, stdout = out\<rparr>
     \<lparr>world = w @ [''mkdir 12345/PogChamp'',
                ''GET https://static-cdn.jtvnw.net/emoticons/v2/999/default/light/1.0'',
                ''create 12345/PogChamp/PogChamp_1.0.png'', ''copy 12345/PogChamp/PogChamp_1.0.png'',
                ''close 12345/PogChamp/PogChamp_1.0.png'',
                ''close https://static-cdn.jtvnw.net/emoticons/v2/999/default/light/1.0'',
                ''GET https://static-cdn.jtvnw.net/emoticons/v2/999/default/light/2.0'',
                ''close https://static-cdn.jtvnw.net/emoticons/v2/999/default/light/2.0'',
                ''GET https://static-cdn.jtvnw.net/emoticons/v2/999/default/light/3.0'',
                ''create 12345/PogChamp/PogChamp_3.0.png'', ''copy 12345/PogChamp/PogChamp_3.0.png'',
                ''close 12345/PogChamp/PogChamp_3.0.png'',
                ''close https://static-cdn.jtvnw.net/emoticons/v2/999/default/light/3.0''],
      stdout = out @ [''[ok] PogChamp_1.0.png'' @ newline,
                ''[skip] https://static-cdn.jtvnw.net/emoticons/v2/999/default/light/2.0 (status 404 Not Found)'' @ newline,
                ''[ok] PogChamp_3.0.png'' @ newline]\<rparr>"
proof -
  let ?b = "''https://static-cdn.jtvnw.net/emoticons/v2/999/default''"
  have safe: "''PogChamp'' = makeSafeName (EmoteCode pogChamp)"
    by (simp add: pogChamp_def makeSafeName_examples)
  have folder: "''12345/PogChamp'' = filepath_Join diskLibs ''12345'' ''PogChamp''"
    by (simp add: diskLibs_def)
  have base: "BaseURL pogChamp = ?b"
    by (simp add: pogChamp_def)
  have mk: "MkdirAll diskLibs ''12345/PogChamp'' (world \<lparr>world = w, stdout = out\<rparr>) =
      (None, w @ [''mkdir 12345/PogChamp''])"
    by (simp add: diskLibs_def)
  have start: "\<lparr>world = w, stdout = out\<rparr>\<lparr>world := w @ [''mkdir 12345/PogChamp'']\<rparr> =
      \<lparr>world = w @ [''mkdir 12345/PogChamp''], stdout = out\<rparr>"
    by simp
  have one: "?b @ ''/light/'' @ ''1.0'' \<noteq> ''https://static-cdn.jtvnw.net/emoticons/v2/999/default/light/2.0''"
    by simp
  have three: "?b @ ''/light/'' @ ''3.0'' \<noteq> ''https://static-cdn.jtvnw.net/emoticons/v2/999/default/light/2.0''"
    by simp
  note a1 = example_written [where s = "''PogChamp''" and f = "''12345/PogChamp''" and
      w = "w @ [''mkdir 12345/PogChamp'']" and out = out, OF one]
  note a2 = example_status [where s = "''PogChamp''" and f = "''12345/PogChamp''"]
  note a3 = example_written [where s = "''PogChamp''" and f = "''12345/PogChamp''", OF three]
  from sizes_attempted [OF safe folder mk, unfolded start base, OF a1 a2 a3]
  show ?thesis by simp
qed

lemma example_emote_after:
  "emoteDownload sizeClient diskLibs kappa ''12345'' \<lparr>world = w, stdout = out\<rparr>
     \<lparr>world = w @ [''mkdir 12345/Kappa'',
                ''GET https://static-cdn.jtvnw.net/emoticons/v2/25/default/light/1.0'',
                ''create 12345/Kappa/Kappa_1.0.png'', ''copy 12345/Kappa/Kappa_1.0.png'',
                ''close 12345/Kappa/Kappa_1.0.png'',
                ''close https://static-cdn.jtvnw.net/emoticons/v2/25/default/light/1.0'',
                ''GET https://static-cdn.jtvnw.net/emoticons/v2/25/default/light/2.0'',
                ''create 12345/Kappa/Kappa_2.0.png'', ''copy 12345/Kappa/Kappa_2.0.png'',
                ''close 12345/Kappa/Kappa_2.0.png'',
                ''close https://static-cdn.jtvnw.net/emoticons/v2/25/default/light/2.0'',
                ''GET https://static-cdn.jtvnw.net/emoticons/v2/25/default/light/3.0'',
                ''create 12345/Kappa/Kappa_3.0.png'', ''copy 12345/Kappa/Kappa_3.0.png'',
                ''close 12345/Kappa/Kappa_3.0.png'',
                ''close https://static-cdn.jtvnw.net/emoticons/v2/25/default/light/3.0''],
      stdout = out @ [''[ok] Kappa_1.0.png'' @ newline, ''[ok] Kappa_2.0.png'' @ newline,
                ''[ok] Kappa_3.0.png'' @ newline]\<rparr>"
proof -
  let ?b = "''https://static-cdn.jtvnw.net/emoticons/v2/25/default''"
  have safe: "''Kappa'' = makeSafeName (EmoteCode kappa)"
    by (simp add: kappa_def makeSafeName_examples)
  have folder: "''12345/Kappa'' = filepath_Join diskLibs ''12345'' ''Kappa''"
    by (simp add: diskLibs_def)
  have base: "BaseURL kappa = ?b"
    by (simp add: kappa_def)
  have mk: "MkdirAll diskLibs ''12345/Kappa'' (world \<lparr>world = w, stdout = out\<rparr>) =
      (None, w @ [''mkdir 12345/Kappa''])"
    by (simp add: diskLibs_def)
  have start: "\<lparr>world = w, stdout = out\<rparr>\<lparr>world := w @ [''mkdir 12345/Kappa'']\<rparr> =
      \<lparr>world = w @ [''mkdir 12345/Kappa''], stdout = out\<rparr>"
    by simp
  have other: "?b @ ''/light/'' @ v \<noteq> ''https://static-cdn.jtvnw.net/emoticons/v2/999/default/light/2.0''" for v
    by simp
  note a1 = example_written [where v = "''1.0''" and s = "''Kappa''" and f = "''12345/Kappa''" and
      w = "w @ [''mkdir 12345/Kappa'']" and out = out, OF other]
  note a2 = example_written [where v = "''2.0''" and s = "''Kappa''" and f = "''12345/Kappa''", OF other]
  note a3 = example_written [where v = "''3.0''" and s = "''Kappa''" and f = "''12345/Kappa''", OF other]
  from sizes_attempted [OF safe folder mk, unfolded start base, OF a1 a2 a3]
  show ?thesis by simp
qed

lemma example_emotes:
  "emotesProcessed sizeClient diskLibs ''12345'' [(''999'', pogChamp), (''25'', kappa)]
     \<lparr>world = [], stdout = []\<rparr>
     \<lparr>world = [''mkdir 12345/PogChamp'',
                ''GET https://static-cdn.jtvnw.net/emoticons/v2/999/default/light/1.0'',
                ''create 12345/PogChamp/PogChamp_1.0.png'', ''copy 12345/PogChamp/PogChamp_1.0.png'',
                ''close 12345/PogChamp/PogChamp_1.0.png'',
                ''close https://static-cdn.jtvnw.net/emoticons/v2/999/default/light/1.0'',
                ''GET https://static-cdn.jtvnw.net/emoticons/v2/999/default/light/2.0'',
                ''close https://static-cdn.jtvnw.net/emoticons/v2/999/default/light/2.0'',
                ''GET https://static-cdn.jtvnw.net/emoticons/v2/999/default/light/3.0'',
                ''create 12345/PogChamp/PogChamp_3.0.png'', ''copy 12345/PogChamp/PogChamp_3.0.png'',
                ''close 12345/PogChamp/PogChamp_3.0.png'',
                ''close https://static-cdn.jtvnw.net/emoticons/v2/999/default/light/3.0'',
                ''mkdir 12345/Kappa'',
                ''GET https://static-cdn.jtvnw.net/emoticons/v2/25/default/light/1.0'',
                ''create 12345/Kappa/Kappa_1.0.png'', ''copy 12345/Kappa/Kappa_1.0.png'',
                ''close 12345/Kappa/Kappa_1.0.png'',
                ''close https://static-cdn.jtvnw.net/emoticons/v2/25/default/light/1.0'',
                ''GET https://static-cdn.jtvnw.net/emoticons/v2/25/default/light/2.0'',
                ''create 12345/Kappa/Kappa_2.0.png'', ''copy 12345/Kappa/Kappa_2.0.png'',
                ''close 12345/Kappa/Kappa_2.0.png'',
                ''close https://static-cdn.jtvnw.net/emoticons/v2/25/default/light/2.0'',
                ''GET https://static-cdn.jtvnw.net/emoticons/v2/25/default/light/3.0'',
                ''create 12345/Kappa/Kappa_3.0.png'', ''copy 12345/Kappa/Kappa_3.0.png'',
                ''close 12345/Kappa/Kappa_3.0.png'',
                ''close https://static-cdn.jtvnw.net/emoticons/v2/25/default/light/3.0''],
      stdout = [''Downloading sizes for emote: PogChamp (999)'' @ newline,
                ''[ok] PogChamp_1.0.png'' @ newline,
                ''[skip] https://static-cdn.jtvnw.net/emoticons/v2/999/default/light/2.0 (status 404 Not Found)'' @ newline,
                ''[ok] PogChamp_3.0.png'' @ newline,
                ''Downloading sizes for emote: Kappa (25)'' @ newline,
                ''[ok] Kappa_1.0.png'' @ newline, ''[ok] Kappa_2.0.png'' @ newline,
                ''[ok] Kappa_3.0.png'' @ newline]\<rparr>"
proof -
  have code: "EmoteCode pogChamp = ''PogChamp''" "EmoteCode kappa = ''Kappa''"
    by (simp_all add: pogChamp_def kappa_def)
  note after = next_emote_from [where emoteIdentifier = "''25''", OF example_emote_after no_emote]
  note both = next_emote_from [where emoteIdentifier = "''999''" and w = "[] :: string list" and out = "[]",
      OF example_emote after]
  from both show ?thesis by (simp add: code)
qed

text \<open>
  Claim C8. Whatever the network and the file system answer, the code does for a size
  exactly what an attempt is: a request that cannot be built, a request that fails, a status
  other than 200, a file that cannot be created and a copy that fails each leave their
  notice and the world as the calls made up to the failure left it, the body and the file
  closed as the code closes them, and nothing else. The download of an emote is exactly the
  making of its folder and, when the folder is made, the attempts of the sizes 1.0, 2.0 and
  3.0 in this order, each from the state the one before it left, whether it failed or not:
  a failed size keeps no later size from being attempted. The loop over the emotes is
  exactly the processing of each emote in turn, each from the state the one before it left:
  no failure in an emote keeps the later emotes from being processed. And once the page is
  fetched with status 200 and the output folder is made, the run returns no error, in the
  state in which every emote of the page has been processed and the body of the page closed.
\<close>

theorem size_failures_do_not_stop:
  "(sizeAttempt httpClient os emoteBaseURL safeEmoteCode emoteFolder sizeValue st st' =
      (st' = downloadEmoteImages_body httpClient os emoteBaseURL safeEmoteCode emoteFolder sizeValue st)) \<and>
   (emoteDownload httpClient os emoteData outputRoot st st' =
      (st' = downloadEmoteImages httpClient os emoteIdentifier emoteData outputRoot st)) \<and>
   (MkdirAll os (filepath_Join os outputRoot (makeSafeName (EmoteCode emoteData))) (world st) = (None, w0) \<longrightarrow>
      (\<exists>st1 st2.
         sizeAttempt httpClient os (BaseURL emoteData) (makeSafeName (EmoteCode emoteData))
           (filepath_Join os outputRoot (makeSafeName (EmoteCode emoteData))) ''1.0'' (st\<lparr>world := w0\<rparr>) st1 \<and>
         sizeAttempt httpClient os (BaseURL emoteData) (makeSafeName (EmoteCode emoteData))
           (filepath_Join os outputRoot (makeSafeName (EmoteCode emoteData))) ''2.0'' st1 st2 \<and>
         sizeAttempt httpClient os (BaseURL emoteData) (makeSafeName (EmoteCode emoteData))
           (filepath_Join os outputRoot (makeSafeName (EmoteCode emoteData))) ''3.0'' st2
           (downloadEmoteImages httpClient os emoteIdentifier emoteData outputRoot st))) \<and>
   (emotesProcessed httpClient os outputRoot entries st st' =
      (st' = downloadChannelEmotes_loop httpClient os outputRoot entries st)) \<and>
   (fetchDocument httpClient os (twitchemotesBaseURL @ ''/channels/'' @ channelID) (world st) =
      (Inr (doc, response), w1) \<and>
    StatusCode response = 200 \<and>
    channelRoot = (if makeSafeName (getChannelDisplayName doc) = ''unknown''
                   then makeSafeName channelID else makeSafeName (getChannelDisplayName doc)) \<and>
    MkdirAll os channelRoot w1 = (None, w2) \<and>
    emoteMap = collectEmoteMetadata (net_url os) doc \<longrightarrow>
      (\<exists>st6.
         emotesProcessed httpClient os channelRoot
           (if card (dom emoteMap) = 0 then [] else mapRange os emoteMap)
           (st\<lparr>world := w2,
               stdout := stdout st @ [''Channel ID: '' @ channelID @ newline] @
                 (if getChannelDisplayName doc \<noteq> []
                  then [''Channel Name: '' @ getChannelDisplayName doc @ newline] else []) @
                 [''Output Folder: '' @ channelRoot @ newline,
                  ''Collecting emote metadata...'' @ newline,
                  ''Found '' @ Sprintf_d (card (dom emoteMap)) @ '' emotes'' @ newline]\<rparr>) st6 \<and>
         downloadChannelEmotes httpClient os channelID st =
           (None, st6\<lparr>world := Body_Close httpClient response (world st6)\<rparr>)))"
proof (intro conjI impI)
  show "sizeAttempt httpClient os emoteBaseURL safeEmoteCode emoteFolder sizeValue st st' =
      (st' = downloadEmoteImages_body httpClient os emoteBaseURL safeEmoteCode emoteFolder sizeValue st)"
    by (auto dest: sizeAttempt_body intro: body_sizeAttempt)
  show "emoteDownload httpClient os emoteData outputRoot st st' =
      (st' = downloadEmoteImages httpClient os emoteIdentifier emoteData outputRoot st)"
    by (auto dest: emoteDownload_downloadEmoteImages intro: downloadEmoteImages_emoteDownload)
  show "\<exists>st1 st2.
         sizeAttempt httpClient os (BaseURL emoteData) (makeSafeName (EmoteCode emoteData))
           (filepath_Join os outputRoot (makeSafeName (EmoteCode emoteData))) ''1.0'' (st\<lparr>world := w0\<rparr>) st1 \<and>
         sizeAttempt httpClient os (BaseURL emoteData) (makeSafeName (EmoteCode emoteData))
           (filepath_Join os outputRoot (makeSafeName (EmoteCode emoteData))) ''2.0'' st1 st2 \<and>
         sizeAttempt httpClient os (BaseURL emoteData) (makeSafeName (EmoteCode emoteData))
           (filepath_Join os outputRoot (makeSafeName (EmoteCode emoteData))) ''3.0'' st2
           (downloadEmoteImages httpClient os emoteIdentifier emoteData outputRoot st)"
    if "MkdirAll os (filepath_Join os outputRoot (makeSafeName (EmoteCode emoteData))) (world st) = (None, w0)"
    using that by (rule three_sizes_attempted)
  show "emotesProcessed httpClient os outputRoot entries st st' =
      (st' = downloadChannelEmotes_loop httpClient os outputRoot entries st)"
    by (auto dest: emotesProcessed_loop intro: loop_emotesProcessed)
  show "\<exists>st6.
         emotesProcessed httpClient os channelRoot
           (if card (dom emoteMap) = 0 then [] else mapRange os emoteMap)
           (st\<lparr>world := w2,
               stdout := stdout st @ [''Channel ID: '' @ channelID @ newline] @
                 (if getChannelDisplayName doc \<noteq> []
                  then [''Channel Name: '' @ getChannelDisplayName doc @ newline] else []) @
                 [''Output Folder: '' @ channelRoot @ newline,
                  ''Collecting emote metadata...'' @ newline,
                  ''Found '' @ Sprintf_d (card (dom emoteMap)) @ '' emotes'' @ newline]\<rparr>) st6 \<and>
         downloadChannelEmotes httpClient os channelID st =
           (None, st6\<lparr>world := Body_Close httpClient response (world st6)\<rparr>)"
    if h: "fetchDocument httpClient os (twitchemotesBaseURL @ ''/channels/'' @ channelID) (world st) =
        (Inr (doc, response), w1) \<and>
      StatusCode response = 200 \<and>
      channelRoot = (if makeSafeName (getChannelDisplayName doc) = ''unknown''
                     then makeSafeName channelID else makeSafeName (getChannelDisplayName doc)) \<and>
      MkdirAll os channelRoot w1 = (None, w2) \<and>
      emoteMap = collectEmoteMetadata (net_url os) doc"
    using h by (elim conjE) (rule run_processes_emotes)
qed

theorem size_failures_do_not_stop_witness:
  "downloadEmoteImages_body sizeClient diskLibs ''https://static-cdn.jtvnw.net/emoticons/v2/999/default''
     ''PogChamp'' ''12345/PogChamp'' ''2.0'' \<lparr>world = [], stdout = []\<rparr> =
     \<lparr>world = [''GET https://static-cdn.jtvnw.net/emoticons/v2/999/default/light/2.0'',
                ''close https://static-cdn.jtvnw.net/emoticons/v2/999/default/light/2.0''],
      stdout = [''[skip] https://static-cdn.jtvnw.net/emoticons/v2/999/default/light/2.0 (status 404 Not Found)'' @
                newline]\<rparr> \<and>
   downloadEmoteImages sizeClient diskLibs ''999'' pogChamp ''12345'' \<lparr>world = [], stdout = []\<rparr> =
     \<lparr>world = [''mkdir 12345/PogChamp'',
                ''GET https://static-cdn.jtvnw.net/emoticons/v2/999/default/light/1.0'',
                ''create 12345/PogChamp/PogChamp_1.0.png'', ''copy 12345/PogChamp/PogChamp_1.0.png'',
                ''close 12345/PogChamp/PogChamp_1.0.png'',
                ''close https://static-cdn.jtvnw.net/emoticons/v2/999/default/light/1.0'',
                ''GET https://static-cdn.jtvnw.net/emoticons/v2/999/default/light/2.0'',
                ''close https://static-cdn.jtvnw.net/emoticons/v2/999/default/light/2.0'',
                ''GET https://static-cdn.jtvnw.net/emoticons/v2/999/default/light/3.0'',
                ''create 12345/PogChamp/PogChamp_3.0.png'', ''copy 12345/PogChamp/PogChamp_3.0.png'',
                ''close 12345/PogChamp/PogChamp_3.0.png'',
                ''close https://static-cdn.jtvnw.net/emoticons/v2/999/default/light/3.0''],
      stdout = [''[ok] PogChamp_1.0.png'' @ newline,
                ''[skip] https://static-cdn.jtvnw.net/emoticons/v2/999/default/light/2.0 (status 404 Not Found)'' @ newline,
                ''[ok] PogChamp_3.0.png'' @ newline]\<rparr> \<and>
   MkdirAll diskLibs (filepath_Join diskLibs ''12345'' (makeSafeName (EmoteCode pogChamp))) [] =
     (None, [''mkdir 12345/PogChamp'']) \<and>
   (\<exists>st1 st2.
      sizeAttempt sizeClient diskLibs (BaseURL pogChamp) ''PogChamp'' ''12345/PogChamp'' ''1.0''
        \<lparr>world = [''mkdir 12345/PogChamp''], stdout = []\<rparr> st1 \<and>
      sizeAttempt sizeClient diskLibs (BaseURL pogChamp) ''PogChamp'' ''12345/PogChamp'' ''2.0'' st1 st2 \<and>
      sizeAttempt sizeClient diskLibs (BaseURL pogChamp) ''PogChamp'' ''12345/PogChamp'' ''3.0'' st2
        (downloadEmoteImages sizeClient diskLibs ''999'' pogChamp ''12345'' \<lparr>world = [], stdout = []\<rparr>)) \<and>
   downloadChannelEmotes_loop sizeClient diskLibs ''12345'' [(''999'', pogChamp), (''25'', kappa)]
     \<lparr>world = [], stdout = []\<rparr> =
     \<lparr>world = [''mkdir 12345/PogChamp'',
                ''GET https://static-cdn.jtvnw.net/emoticons/v2/999/default/light/1.0'',
                ''create 12345/PogChamp/PogChamp_1.0.png'', ''copy 12345/PogChamp/PogChamp_1.0.png'',
                ''close 12345/PogChamp/PogChamp_1.0.png'',
                ''close https://static-cdn.jtvnw.net/emoticons/v2/999/default/light/1.0'',
                ''GET https://static-cdn.jtvnw.net/emoticons/v2/999/default/light/2.0'',
                ''close https://static-cdn.jtvnw.net/emoticons/v2/999/default/light/2.0'',
                ''GET https://static-cdn.jtvnw.net/emoticons/v2/999/default/light/3.0'',
                ''create 12345/PogChamp/PogChamp_3.0.png'', ''copy 12345/PogChamp/PogChamp_3.0.png'',
                ''close 12345/PogChamp/PogChamp_3.0.png'',
                ''close https://static-cdn.jtvnw.net/emoticons/v2/999/default/light/3.0'',
                ''mkdir 12345/Kappa'',
                ''GET https://static-cdn.jtvnw.net/emoticons/v2/25/default/light/1.0'',
                ''create 12345/Kappa/Kappa_1.0.png'', ''copy 12345/Kappa/Kappa_1.0.png'',
                ''close 12345/Kappa/Kappa_1.0.png'',
                ''close https://static-cdn.jtvnw.net/emoticons/v2/25/default/light/1.0'',
                ''GET https://static-cdn.jtvnw.net/emoticons/v2/25/default/light/2.0'',
                ''create 12345/Kappa/Kappa_2.0.png'', ''copy 12345/Kappa/Kappa_2.0.png'',
                ''close 12345/Kappa/Kappa_2.0.png'',
                ''close https://static-cdn.jtvnw.net/emoticons/v2/25/default/light/2.0'',
                ''GET https://static-cdn.jtvnw.net/emoticons/v2/25/default/light/3.0'',
                ''create 12345/Kappa/Kappa_3.0.png'', ''copy 12345/Kappa/Kappa_3.0.png'',
                ''close 12345/Kappa/Kappa_3.0.png'',
                ''close https://static-cdn.jtvnw.net/emoticons/v2/25/default/light/3.0''],
      stdout = [''Downloading sizes for emote: PogChamp (999)'' @ newline,
                ''[ok] PogChamp_1.0.png'' @ newline,
                ''[skip] https://static-cdn.jtvnw.net/emoticons/v2/999/default/light/2.0 (status 404 Not Found)'' @ newline,
                ''[ok] PogChamp_3.0.png'' @ newline,
                ''Downloading sizes for emote: Kappa (25)'' @ newline,
                ''[ok] Kappa_1.0.png'' @ newline, ''[ok] Kappa_2.0.png'' @ newline,
                ''[ok] Kappa_3.0.png'' @ newline]\<rparr> \<and>
   fetchDocument sizeClient diskLibs (twitchemotesBaseURL @ ''/channels/'' @ ''12345'') [] =
     (Inr (\<lparr>cardHeader = None, images = [emoteImage ''999/default/1.0'' ''PogChamp'']\<rparr>,
           \<lparr>Request_URL = ''https://twitchemotes.com/channels/12345'', StatusCode = 200,
            Status = ''200 OK'', ContentType = ''image/png'', Body = Inr []\<rparr>),
      [''GET https://twitchemotes.com/channels/12345'']) \<and>
   MkdirAll diskLibs ''12345'' [''GET https://twitchemotes.com/channels/12345''] =
     (None, [''GET https://twitchemotes.com/channels/12345'', ''mkdir 12345'']) \<and>
   downloadChannelEmotes sizeClient diskLibs ''12345'' \<lparr>world = [], stdout = []\<rparr> =
     (None,
      \<lparr>world = [''GET https://twitchemotes.com/channels/12345'', ''mkdir 12345'', ''mkdir 12345/PogChamp'',
                ''GET https://static-cdn.jtvnw.net/emoticons/v2/999/default/light/1.0'',
                ''create 12345/PogChamp/PogChamp_1.0.png'', ''copy 12345/PogChamp/PogChamp_1.0.png'',
                ''close 12345/PogChamp/PogChamp_1.0.png'',
                ''close https://static-cdn.jtvnw.net/emoticons/v2/999/default/light/1.0'',
                ''GET https://static-cdn.jtvnw.net/emoticons/v2/999/default/light/2.0'',
                ''close https://static-cdn.jtvnw.net/emoticons/v2/999/default/light/2.0'',
                ''GET https://static-cdn.jtvnw.net/emoticons/v2/999/default/light/3.0'',
                ''create 12345/PogChamp/PogChamp_3.0.png'', ''copy 12345/PogChamp/PogChamp_3.0.png'',
                ''close 12345/PogChamp/PogChamp_3.0.png'',
                ''close https://static-cdn.jtvnw.net/emoticons/v2/999/default/light/3.0'',
                ''close https://twitchemotes.com/channels/12345''],
       stdout = [''Channel ID: 12345'' @ newline, ''Output Folder: 12345'' @ newline,
                 ''Collecting emote metadata...'' @ newline, ''Found 1 emotes'' @ newline,
                 ''Downloading sizes for emote: PogChamp (999)'' @ newline,
                 ''[ok] PogChamp_1.0.png'' @ newline,
                 ''[skip] https://static-cdn.jtvnw.net/emoticons/v2/999/default/light/2.0 (status 404 Not Found)'' @ newline,
                 ''[ok] PogChamp_3.0.png'' @ newline]\<rparr>)"
proof -
  let ?st = "\<lparr>world = [] :: string list, stdout = []\<rparr>"
  let ?doc = "\<lparr>cardHeader = None, images = [emoteImage ''999/default/1.0'' ''PogChamp'']\<rparr>"
  let ?page = "\<lparr>Request_URL = ''https://twitchemotes.com/channels/12345'', StatusCode = 200,
                 Status = ''200 OK'', ContentType = ''image/png'', Body = Inr []\<rparr>"
  let ?fetched = "[''GET https://twitchemotes.com/channels/12345'']"
  let ?rooted = "[''GET https://twitchemotes.com/channels/12345'', ''mkdir 12345'']"
  let ?lines = "[''Channel ID: 12345'' @ newline, ''Output Folder: 12345'' @ newline,
                 ''Collecting emote metadata...'' @ newline, ''Found 1 emotes'' @ newline]"
  note size = size_failures_do_not_stop [THEN conjunct1, THEN iffD1]
  note emote = size_failures_do_not_stop [THEN conjunct2, THEN conjunct1, THEN iffD1]
  note emotes = size_failures_do_not_stop [THEN conjunct2, THEN conjunct2, THEN conjunct2, THEN conjunct1, THEN iffD1]
  note run = size_failures_do_not_stop [THEN conjunct2, THEN conjunct2, THEN conjunct2, THEN conjunct2, THEN mp]
  have one: "downloadEmoteImages_body sizeClient diskLibs ''https://static-cdn.jtvnw.net/emoticons/v2/999/default''
       ''PogChamp'' ''12345/PogChamp'' ''2.0'' ?st =
     \<lparr>world = [] @ [''GET https://static-cdn.jtvnw.net/emoticons/v2/999/default/light/2.0'',
                ''close https://static-cdn.jtvnw.net/emoticons/v2/999/default/light/2.0''],
      stdout = [] @ [''[skip] https://static-cdn.jtvnw.net/emoticons/v2/999/default/light/2.0 (status 404 Not Found)'' @
                newline]\<rparr>"
    by (rule size [OF example_status, symmetric])
  have two: "downloadEmoteImages sizeClient diskLibs ''999'' pogChamp ''12345'' ?st = st'"
    if "emoteDownload sizeClient diskLibs pogChamp ''12345'' ?st st'" for st'
    using that by (rule emote [symmetric])
  have three: "downloadChannelEmotes_loop sizeClient diskLibs ''12345'' [(''999'', pogChamp), (''25'', kappa)] ?st = st'"
    if "emotesProcessed sizeClient diskLibs ''12345'' [(''999'', pogChamp), (''25'', kappa)] ?st st'" for st'
    using that by (rule emotes [symmetric])
  have safe: "makeSafeName (EmoteCode pogChamp) = ''PogChamp''"
    by (simp add: pogChamp_def makeSafeName_examples)
  have join: "filepath_Join diskLibs ''12345'' ''PogChamp'' = ''12345/PogChamp''"
    by (simp add: diskLibs_def)
  have folder: "MkdirAll diskLibs (filepath_Join diskLibs ''12345'' (makeSafeName (EmoteCode pogChamp))) (world ?st) =
      (None, [''mkdir 12345/PogChamp''])"
    by (simp add: safe diskLibs_def)
  have made: "?st\<lparr>world := [''mkdir 12345/PogChamp'']\<rparr> = \<lparr>world = [''mkdir 12345/PogChamp''], stdout = []\<rparr>"
    by simp
  note attempts = size_failures_do_not_stop [where httpClient = sizeClient and emoteIdentifier = "''999''",
      THEN conjunct2, THEN conjunct2, THEN conjunct1, THEN mp, OF folder, unfolded safe join made]
  from folder have folder': "MkdirAll diskLibs (filepath_Join diskLibs ''12345'' (makeSafeName (EmoteCode pogChamp))) [] =
      (None, [''mkdir 12345/PogChamp''])"
    by simp
  have fetch: "fetchDocument sizeClient diskLibs (twitchemotesBaseURL @ ''/channels/'' @ ''12345'') (world ?st) =
      (Inr (?doc, ?page), ?fetched)"
    by (simp add: fetchDocument_def sizeClient_def diskLibs_def twitchemotesBaseURL_def Let_def)
  have name: "getChannelDisplayName ?doc = []"
    by (simp add: getChannelDisplayName_def)
  have root: "''12345'' = (if makeSafeName (getChannelDisplayName ?doc) = ''unknown'' then makeSafeName ''12345''
       else makeSafeName (getChannelDisplayName ?doc))"
    by (simp add: name makeSafeName_examples)
  have mk: "MkdirAll diskLibs ''12345'' ?fetched = (None, ?rooted)"
    by (simp add: diskLibs_def)
  have page: "[''999'' \<mapsto> pogChamp] = collectEmoteMetadata (net_url diskLibs) ?doc"
    by (simp add: diskLibs_def example_page)
  have range: "mapRange diskLibs [''999'' \<mapsto> pogChamp] = [(''999'', pogChamp)]"
    by (simp add: diskLibs_def)
  have close: "Body_Close sizeClient ?page w = w @ [''close https://twitchemotes.com/channels/12345'']" for w
    by (simp add: sizeClient_def)
  have code: "EmoteCode pogChamp = ''PogChamp''"
    by (simp add: pogChamp_def)
  have start: "?st\<lparr>world := ?rooted,
        stdout := stdout ?st @ [''Channel ID: '' @ ''12345'' @ newline] @
          (if getChannelDisplayName ?doc \<noteq> []
           then [''Channel Name: '' @ getChannelDisplayName ?doc @ newline] else []) @
          [''Output Folder: '' @ ''12345'' @ newline,
           ''Collecting emote metadata...'' @ newline,
           ''Found '' @ Sprintf_d (card (dom [''999'' \<mapsto> pogChamp])) @ '' emotes'' @ newline]\<rparr> =
      \<lparr>world = ?rooted, stdout = ?lines\<rparr>"
    by (simp add: name Sprintf_d_1)
  have entries: "(if card (dom [''999'' \<mapsto> pogChamp]) = 0 then [] else mapRange diskLibs [''999'' \<mapsto> pogChamp]) =
      [(''999'', pogChamp)]"
    by (simp add: range)
  from run [OF conjI [OF fetch conjI [OF _ conjI [OF root conjI [OF mk page]]]]]
  obtain st6 where
    processed: "emotesProcessed sizeClient diskLibs ''12345'' [(''999'', pogChamp)]
        \<lparr>world = ?rooted, stdout = ?lines\<rparr> st6"
    and result: "downloadChannelEmotes sizeClient diskLibs ''12345'' ?st =
        (None, st6\<lparr>world := Body_Close sizeClient ?page (world st6)\<rparr>)"
    unfolding start entries by auto
  have "emotesProcessed sizeClient diskLibs ''12345'' [(''999'', pogChamp)]
      \<lparr>world = ?rooted, stdout = ?lines\<rparr>
      \<lparr>world = ?rooted @ [''mkdir 12345/PogChamp'',
                ''GET https://static-cdn.jtvnw.net/emoticons/v2/999/default/light/1.0'',
                ''create 12345/PogChamp/PogChamp_1.0.png'', ''copy 12345/PogChamp/PogChamp_1.0.png'',
                ''close 12345/PogChamp/PogChamp_1.0.png'',
                ''close https://static-cdn.jtvnw.net/emoticons/v2/999/default/light/1.0'',
                ''GET https://static-cdn.jtvnw.net/emoticons/v2/999/default/light/2.0'',
                ''close https://static-cdn.jtvnw.net/emoticons/v2/999/default/light/2.0'',
                ''GET https://static-cdn.jtvnw.net/emoticons/v2/999/default/light/3.0'',
                ''create 12345/PogChamp/PogChamp_3.0.png'', ''copy 12345/PogChamp/PogChamp_3.0.png'',
                ''close 12345/PogChamp/PogChamp_3.0.png'',
                ''close https://static-cdn.jtvnw.net/emoticons/v2/999/default/light/3.0''],
       stdout = (?lines @ [''Downloading sizes for emote: '' @ EmoteCode pogChamp @ '' ('' @ ''999'' @ '')'' @ newline]) @
               [''[ok] PogChamp_1.0.png'' @ newline,
                ''[skip] https://static-cdn.jtvnw.net/emoticons/v2/999/default/light/2.0 (status 404 Not Found)'' @ newline,
                ''[ok] PogChamp_3.0.png'' @ newline]\<rparr>"
    by (rule next_emote_from [OF example_emote no_emote])
  from emotes [OF this] emotes [OF processed] have "st6 =
      \<lparr>world = ?rooted @ [''mkdir 12345/PogChamp'',
                ''GET https://static-cdn.jtvnw.net/emoticons/v2/999/default/light/1.0'',
                ''create 12345/PogChamp/PogChamp_1.0.png'', ''copy 12345/PogChamp/PogChamp_1.0.png'',
                ''close 12345/PogChamp/PogChamp_1.0.png'',
                ''close https://static-cdn.jtvnw.net/emoticons/v2/999/default/light/1.0'',
                ''GET https://static-cdn.jtvnw.net/emoticons/v2/999/default/light/2.0'',
                ''close https://static-cdn.jtvnw.net/emoticons/v2/999/default/light/2.0'',
                ''GET https://static-cdn.jtvnw.net/emoticons/v2/999/default/light/3.0'',
                ''create 12345/PogChamp/PogChamp_3.0.png'', ''copy 12345/PogChamp/PogChamp_3.0.png'',
                ''close 12345/PogChamp/PogChamp_3.0.png'',
                ''close https://static-cdn.jtvnw.net/emoticons/v2/999/default/light/3.0''],
       stdout = (?lines @ [''Downloading sizes for emote: '' @ EmoteCode pogChamp @ '' ('' @ ''999'' @ '')'' @ newline]) @
               [''[ok] PogChamp_1.0.png'' @ newline,
                ''[skip] https://static-cdn.jtvnw.net/emoticons/v2/999/default/light/2.0 (status 404 Not Found)'' @ newline,
                ''[ok] PogChamp_3.0.png'' @ newline]\<rparr>"
    by (rule ssubst)
  with result have four: "downloadChannelEmotes sizeClient diskLibs ''12345'' ?st =
     (None,
      \<lparr>world = [''GET https://twitchemotes.com/channels/12345'', ''mkdir 12345'', ''mkdir 12345/PogChamp'',
                ''GET https://static-cdn.jtvnw.net/emoticons/v2/999/default/light/1.0'',
                ''create 12345/PogChamp/PogChamp_1.0.png'', ''copy 12345/PogChamp/PogChamp_1.0.png'',
                ''close 12345/PogChamp/PogChamp_1.0.png'',
                ''close https://static-cdn.jtvnw.net/emoticons/v2/999/default/light/1.0'',
                ''GET https://static-cdn.jtvnw.net/emoticons/v2/999/default/light/2.0'',
                ''close https://static-cdn.jtvnw.net/emoticons/v2/999/default/light/2.0'',
                ''GET https://static-cdn.jtvnw.net/emoticons/v2/999/default/light/3.0'',
                ''create 12345/PogChamp/PogChamp_3.0.png'', ''copy 12345/PogChamp/PogChamp_3.0.png'',
                ''close 12345/PogChamp/PogChamp_3.0.png'',
                ''close https://static-cdn.jtvnw.net/emoticons/v2/999/default/light/3.0'',
                ''close https://twitchemotes.com/channels/12345''],
       stdout = [''Channel ID: 12345'' @ newline, ''Output Folder: 12345'' @ newline,
                 ''Collecting emote metadata...'' @ newline, ''Found 1 emotes'' @ newline,
                 ''Downloading sizes for emote: PogChamp (999)'' @ newline,
                 ''[ok] PogChamp_1.0.png'' @ newline,
                 ''[skip] https://static-cdn.jtvnw.net/emoticons/v2/999/default/light/2.0 (status 404 Not Found)'' @ newline,
                 ''[ok] PogChamp_3.0.png'' @ newline]\<rparr>)"
    by (simp add: close code)
  from fetch have fetch': "fetchDocument sizeClient diskLibs (twitchemotesBaseURL @ ''/channels/'' @ ''12345'') [] =
      (Inr (?doc, ?page), ?fetched)"
    by simp
  from one have one': "downloadEmoteImages_body sizeClient diskLibs
       ''https://static-cdn.jtvnw.net/emoticons/v2/999/default'' ''PogChamp'' ''12345/PogChamp'' ''2.0'' ?st =
     \<lparr>world = [''GET https://static-cdn.jtvnw.net/emoticons/v2/999/default/light/2.0'',
                ''close https://static-cdn.jtvnw.net/emoticons/v2/999/default/light/2.0''],
      stdout = [''[skip] https://static-cdn.jtvnw.net/emoticons/v2/999/default/light/2.0 (status 404 Not Found)'' @
                newline]\<rparr>"
    by simp
  note two' = two [OF example_emote, simplified append_Nil]
  note three' = three [OF example_emotes]
  show ?thesis
    using one' two' folder' attempts three' fetch' mk four
    by (intro conjI)
qed

subsection \<open>The download stage of the two programs\<close>

text \<open>
  With \<^verbatim>\<open>fmt.Println\<close> for \<^verbatim>\<open>logFunc\<close>, as in its text mode, the download stage of the
  program with the terminal interface is the one of \<^verbatim>\<open>twe-dlp.go\<close>.
\<close>

lemma makeSafeName_tui_eq: "makeSafeName_tui name = makeSafeName name"
  by (simp only: makeSafeName_tui_def makeSafeName_def)

lemma determineFileExtension_tui_eq:
  "determineFileExtension_tui lower contentType = determineFileExtension lower contentType"
  by (simp only: determineFileExtension_tui_def determineFileExtension_def)

lemma world_Printf: "world (Printf text st) = world st"
  by (simp add: Printf_def)

lemma downloadEmoteImages_tui_body_Println:
  "downloadEmoteImages_tui_body httpClient os Println b s f v st =
   downloadEmoteImages_body httpClient os b s f v st"
  by (simp add: downloadEmoteImages_tui_body_def downloadEmoteImages_body_def Println_def world_Printf
      determineFileExtension_tui_eq defaultUserAgent_tui_def defaultUserAgent_def
      cong: option.case_cong prod.case_cong sum.case_cong if_cong)

lemma downloadEmoteImages_tui_Println:
  "downloadEmoteImages_tui httpClient os emoteIdentifier emoteData outputRoot Println st =
   downloadEmoteImages httpClient os emoteIdentifier emoteData outputRoot st"
proof -
  have body: "downloadEmoteImages_tui_body httpClient os Println b s f =
      downloadEmoteImages_body httpClient os b s f" for b s f
    by (intro ext) (rule downloadEmoteImages_tui_body_Println)
  show ?thesis
    by (simp add: downloadEmoteImages_tui_def downloadEmoteImages_def makeSafeName_tui_eq body
        Println_def Let_def split: prod.split option.split)
qed

lemma collectEmoteMetadata_tui_eq: "collectEmoteMetadata_tui lib doc = collectEmoteMetadata lib doc"
  by (simp only: collectEmoteMetadata_tui_def collectEmoteMetadata_def collectEmoteMetadata_tui_func_eq)

lemma downloadChannelEmotes_tui_loop_Println:
  "downloadChannelEmotes_tui_loop httpClient os outputRoot Println entries st =
   downloadChannelEmotes_loop httpClient os outputRoot entries st"
proof (induction entries arbitrary: st)
  case Nil
  show ?case by simp
next
  case (Cons entry rest)
  obtain emoteIdentifier emoteData where entry: "entry = (emoteIdentifier, emoteData)"
    by (cases entry)
  have heading: "Println l st = Printf (l @ newline) st" for l
    by (simp add: Println_def)
  show ?case
    unfolding entry downloadChannelEmotes_tui_loop.simps downloadChannelEmotes_loop.simps
      Cons.IH downloadEmoteImages_tui_Println heading
    by simp
qed

lemma downloadChannelEmotes_tui_Println:
  "downloadChannelEmotes_tui httpClient os channelID Println st =
   downloadChannelEmotes httpClient os channelID st"
proof -
  have line: "Println l s = Printf (l @ newline) s" for l and s :: "'a state"
    by (simp add: Println_def)
  show ?thesis
    unfolding downloadChannelEmotes_tui_def downloadChannelEmotes_def
      downloadChannelEmotes_tui_loop_Println makeSafeName_tui_eq collectEmoteMetadata_tui_eq
      twitchemotesBaseURL_tui_def twitchemotesBaseURL_def line
    by (simp add: Let_def split: prod.split sum.split option.split)
qed

end
